(* ===== verification/Prelude.thy ===== *)
theory Prelude
  imports Complex_Main "HOL-Library.Multiset"
begin

text \<open>
  The JavaScript runtime that every component of \<open>src/public/public/js/accouning.js\<close>
  relies on, modelled once: the error values the browser raises, JavaScript's \<open>Set\<close>
  (which remembers insertion order, so it is a list without duplicates here), the
  falsy-string fallback \<open>a || b\<close>, the order in which \<open>Object.values\<close> lists the
  properties of a plain object, and Arabic string literals written as their UTF-8 bytes.
  The generic lemmas on lists and sums that the component theories share are declared
  into the collection \<open>js_simps\<close>.
\<close>

named_theorems js_simps "evaluation rules of the JavaScript runtime model"

type_synonym amount = rat
type_synonym js_id = string

text \<open>
  Amounts are JavaScript numbers; the code only adds, subtracts, multiplies and divides
  them, and the model computes exactly (rationals). Rounding of IEEE doubles is not
  modelled.
\<close>

datatype js_error =
    TypeError string      \<comment> \<open>reading a property of \<open>null\<close>/\<open>undefined\<close>\<close>
  | ReferenceError string \<comment> \<open>an identifier bound nowhere in the page\<close>
  | SyntaxError string    \<comment> \<open>\<open>JSON.parse\<close> of a malformed string\<close>

text \<open>
  \<open>o.p\<close> on an object that may be \<open>null\<close>: \<open>req o p\<close> is the object, or the
  \<open>TypeError\<close> naming the property read.
\<close>

fun req :: "'a option \<Rightarrow> string \<Rightarrow> js_error + 'a" where
  "req None p = Inl (TypeError p)"
| "req (Some v) p = Inr v"

subsection \<open>Arabic literals\<close>

text \<open>
  HOL characters are bytes, so a non-ASCII literal of the source is the list of its
  UTF-8 bytes. \<open>utf8\<close> writes one down from its byte values.
\<close>

definition utf8 :: "nat list \<Rightarrow> string" where
  "utf8 bs = map char_of bs"

subsection \<open>JavaScript \<open>Set\<close>\<close>

text \<open>
  \<open>s.add(x)\<close> appends \<open>x\<close> unless it is present (then the order is kept);
  \<open>s.delete(x)\<close> removes it; \<open>s.size\<close> is the number of elements;
  \<open>Array.from(s)\<close> lists them in insertion order.
\<close>

definition js_set_add :: "'a \<Rightarrow> 'a list \<Rightarrow> 'a list" where
  "js_set_add x s = (if x \<in> set s then s else s @ [x])"

definition js_set_delete :: "'a \<Rightarrow> 'a list \<Rightarrow> 'a list" where
  "js_set_delete x s = removeAll x s"

subsection \<open>Falsy fallback\<close>

text \<open>
  \<open>v || d\<close> for a value that is a string or missing: \<open>undefined\<close>, \<open>null\<close> and the
  empty string are falsy and give \<open>d\<close>; every other string is kept.
\<close>

fun js_or :: "string option \<Rightarrow> string \<Rightarrow> string" where
  "js_or None d = d"
| "js_or (Some s) d = (if s = [] then d else s)"

subsection \<open>Populated references and their names\<close>

text \<open>
  The server populates references (\<open>student\<close>, \<open>class\<close>, \<open>teacher\<close>) as
  \<open>{_id, name}\<close> objects, or \<open>null\<close> when the referenced document is gone.
\<close>

record ref =
  ref_id :: js_id
  ref_name :: string

text \<open>The literal \<open>'ghayr ma'ruf'\<close> (``unknown''), the fallback of \<open>x?.name || ...\<close>.\<close>

definition unknown_label :: string where
  "unknown_label = utf8 [216, 186, 217, 138, 216, 177, 32, 217, 133, 216, 185, 216, 177, 217,
                         136, 217, 129]"

definition name_or_unknown :: "ref option \<Rightarrow> string" where
  "name_or_unknown r = js_or (map_option ref_name r) unknown_label"

subsection \<open>Property lookup on an object literal\<close>

text \<open>
  \<open>o[k]\<close> on an object literal with string values finds an own property, else one
  inherited from \<open>Object.prototype\<close> (a native function, or the prototype itself
  for \<open>__proto__\<close>), else \<open>undefined\<close>. \<open>js_text\<close> is how a template literal
  prints the value; \<open>lookup_or own k\<close> is \<open>o[k] || k\<close>.
\<close>

datatype js_prop = PStr string | PNative string | PObj | PUndef

definition proto_methods :: "string list" where
  "proto_methods = [''constructor'', ''hasOwnProperty'', ''isPrototypeOf'', ''propertyIsEnumerable'',
     ''toLocaleString'', ''toString'', ''valueOf'', ''__defineGetter__'', ''__defineSetter__'',
     ''__lookupGetter__'', ''__lookupSetter__'']"

definition js_get :: "(string \<times> string) list \<Rightarrow> string \<Rightarrow> js_prop" where
  "js_get own k =
     (case map_of own k of
        Some v \<Rightarrow> PStr v
      | None \<Rightarrow> if k \<in> set proto_methods then PNative (if k = ''constructor'' then ''Object'' else k)
                else if k = ''__proto__'' then PObj else PUndef)"

fun js_text :: "js_prop \<Rightarrow> string" where
  "js_text (PStr s) = s"
| "js_text (PNative n) = ''function '' @ n @ ''() { [native code] }''"
| "js_text PObj = ''[object Object]''"
| "js_text PUndef = ''undefined''"

definition lookup_or :: "(string \<times> string) list \<Rightarrow> string \<Rightarrow> string" where
  "lookup_or own k =
     (case js_get own k of
        PStr s \<Rightarrow> if s = [] then k else s
      | PUndef \<Rightarrow> k
      | v \<Rightarrow> js_text v)"

subsection \<open>Property order of plain objects\<close>

text \<open>
  \<open>Object.values(o)\<close> lists the integer-like keys (canonical decimal numerals below
  \<open>2^32 - 1\<close>) first, in ascending numeric order, then every other key in insertion
  order. The object is an association list in insertion order.
\<close>

definition is_digit :: "char \<Rightarrow> bool" where
  "is_digit c \<longleftrightarrow> 48 \<le> (of_char c :: nat) \<and> (of_char c :: nat) \<le> 57"

definition digits_val :: "string \<Rightarrow> nat" where
  "digits_val s = foldl (\<lambda>n c. 10 * n + (of_char c - 48)) 0 s"

definition is_array_index :: "string \<Rightarrow> bool" where
  "is_array_index s \<longleftrightarrow>
     s \<noteq> [] \<and> list_all is_digit s \<and> (s = ''0'' \<or> hd s \<noteq> CHR ''0'')
     \<and> digits_val s < 4294967295"

definition obj_values :: "(string \<times> 'v) list \<Rightarrow> 'v list" where
  "obj_values kvs =
     map snd (sort_key (\<lambda>kv. digits_val (fst kv)) (filter (\<lambda>kv. is_array_index (fst kv)) kvs)
              @ filter (\<lambda>kv. \<not> is_array_index (fst kv)) kvs)"

definition obj_entries :: "(string \<times> 'v) list \<Rightarrow> (string \<times> 'v) list" where
  "obj_entries kvs =
     sort_key (\<lambda>kv. digits_val (fst kv)) (filter (\<lambda>kv. is_array_index (fst kv)) kvs)
     @ filter (\<lambda>kv. \<not> is_array_index (fst kv)) kvs"

subsection \<open>HTTP replies\<close>

text \<open>
  The outcome of an awaited \<open>fetch\<close> and \<open>response.json()\<close>: the request rejects (or
  the body is not JSON), or an HTTP reply arrives with its \<open>ok\<close> flag and parsed
  body. A rejected \<open>fetch\<close> raises a \<open>TypeError\<close>.
\<close>

datatype 'b reply = NetError | HttpReply bool 'b

definition fetch_error :: js_error where
  "fetch_error = TypeError ''Failed to fetch''"

subsection \<open>Shared lemmas\<close>

lemma js_set_add_distinct [js_simps]: "distinct s \<Longrightarrow> distinct (js_set_add x s)"
  by (simp add: js_set_add_def)

lemma set_js_set_add [js_simps]: "set (js_set_add x s) = insert x (set s)"
  by (auto simp: js_set_add_def)

lemma js_set_delete_distinct [js_simps]: "distinct s \<Longrightarrow> distinct (js_set_delete x s)"
  by (simp add: js_set_delete_def distinct_removeAll)

lemma set_js_set_delete [js_simps]: "set (js_set_delete x s) = set s - {x}"
  by (simp add: js_set_delete_def)

lemma length_js_set_add [js_simps]:
  "length (js_set_add x s) = (if x \<in> set s then length s else Suc (length s))"
  by (simp add: js_set_add_def)

lemma distinct_card_length: "distinct s \<Longrightarrow> card (set s) = length s"
  by (rule distinct_card)

lemma foldl_add_sum_list [js_simps]:
  fixes f :: "'a \<Rightarrow> 'b::monoid_add"
  shows "foldl (\<lambda>s c. s + f c) a xs = a + sum_list (map f xs)"
  by (induction xs arbitrary: a) (simp_all add: add.assoc)

lemma sum_list_filter_compl [js_simps]:
  fixes f :: "'a \<Rightarrow> 'b::comm_monoid_add"
  shows "sum_list (map f (filter P xs)) + sum_list (map f (filter (\<lambda>x. \<not> P x) xs))
           = sum_list (map f xs)"
  by (induction xs) (simp_all add: algebra_simps)

lemma dash_not_array_index [js_simps]:
  assumes "CHR ''-'' \<in> set k"
  shows "\<not> is_array_index k"
proof
  assume "is_array_index k"
  with assms have "is_digit (CHR ''-'')"
    by (auto simp: is_array_index_def list_all_iff)
  then show False by (simp add: is_digit_def)
qed

lemma obj_values_no_index [js_simps]:
  "\<forall>kv \<in> set kvs. \<not> is_array_index (fst kv) \<Longrightarrow> obj_values kvs = map snd kvs"
proof -
  assume h: "\<forall>kv \<in> set kvs. \<not> is_array_index (fst kv)"
  then have "filter (\<lambda>kv. is_array_index (fst kv)) kvs = []"
    by (simp add: filter_empty_conv)
  moreover from h have "filter (\<lambda>kv. \<not> is_array_index (fst kv)) kvs = kvs"
    by (simp add: filter_id_conv)
  ultimately show ?thesis by (simp add: obj_values_def)
qed

lemma set_obj_entries [js_simps]: "set (obj_entries kvs) = set kvs"
  by (auto simp: obj_entries_def)

lemma mset_obj_values [js_simps]: "mset (obj_values kvs) = mset (map snd kvs)"
proof -
  let ?P = "\<lambda>kv. is_array_index (fst kv)"
  have "mset (filter ?P kvs) + mset (filter (\<lambda>kv. \<not> ?P kv) kvs) = mset kvs"
    by (simp add: mset_filter flip: multiset_partition)
  then show ?thesis
    by (simp add: obj_values_def flip: image_mset_union)
qed

lemma sum_list_map_mset_eq [js_simps]:
  fixes f :: "'a \<Rightarrow> 'b::comm_monoid_add"
  assumes "mset xs = mset ys"
  shows "sum_list (map f xs) = sum_list (map f ys)"
proof -
  have "mset (map f xs) = mset (map f ys)" using assms by simp
  then show ?thesis by (metis sum_mset_sum_list)
qed

lemma append_sep_inj:
  "c \<notin> set a \<Longrightarrow> c \<notin> set b \<Longrightarrow> a @ c # x = b @ c # y \<Longrightarrow> a = b \<and> x = y"
proof (induction a arbitrary: b)
  case Nil
  then show ?case by (cases b) auto
next
  case (Cons a as)
  then show ?case by (cases b) auto
qed

end
