(* ===== verification/Commissions.thy ===== *)
theory Commissions
  imports Prelude
begin

text \<open>
  The grouped teacher-commission workflow of \<open>accouning.js\<close>: the commission records
  the server returns, the per-group subtotals every renderer computes (pending, paid,
  total), the grouping of a flat list into an object keyed by teacher, teacher and
  class, or teacher and month, and the four renderers that turn groups into cards:
  \<open>renderTeacherCommissionsByClass\<close> (lines 1109--1195, server-side groups) and the three
  declarations of \<open>renderTeacherCommissions\<close> (lines 1365--1463, 2092--2199,
  2494--2580; JavaScript hoisting makes the last one the function the page calls).
  Rendering is modelled down to what a card shows: its title parts, subtotals, one
  item per commission with its badge and button, the pending-summary rows and the
  action buttons with their arguments.
\<close>

section \<open>Data\<close>

record commission =
  cm_id :: js_id
  cm_teacher :: "ref option"
  cm_student :: "ref option"
  cm_class :: "ref option"
  cm_month :: string
  cm_amount :: amount
  cm_percentage :: amount
  cm_status :: string

section \<open>Subtotals of a group\<close>

text \<open>
  Every renderer computes, for the commissions of one group,
  \<^verbatim>\<open>pendingCommissions = cs.filter(c => c.status === 'pending')\<close>,
  \<^verbatim>\<open>paidCommissions = cs.filter(c => c.status === 'paid')\<close>, their sums by
  \<^verbatim>\<open>reduce((sum, c) => sum + c.amount, 0)\<close> and \<^verbatim>\<open>totalAmount = pendingAmount + paidAmount\<close>.
\<close>

definition pending_of :: "commission list \<Rightarrow> commission list" where
  "pending_of cs = filter (\<lambda>c. cm_status c = ''pending'') cs"

definition paid_of :: "commission list \<Rightarrow> commission list" where
  "paid_of cs = filter (\<lambda>c. cm_status c = ''paid'') cs"

definition sum_amounts :: "commission list \<Rightarrow> amount" where
  "sum_amounts cs = foldl (\<lambda>s c. s + cm_amount c) 0 cs"

record summary =
  pendingAmount :: amount
  paidAmount :: amount
  totalAmount :: amount

definition group_summary :: "commission list \<Rightarrow> summary" where
  "group_summary cs =
     (let p = sum_amounts (pending_of cs); d = sum_amounts (paid_of cs)
      in \<lparr>pendingAmount = p, paidAmount = d, totalAmount = p + d\<rparr>)"

section \<open>Grouping into an object\<close>

text \<open>
  The three client-side renderers share one loop shape:
  \<^verbatim>\<open>commissions.forEach(c => { const key = ...;
      if (!groups[key]) groups[key] = { teacher: c.teacher, ..., commissions: [] };
      groups[key].commissions.push(c); });\<close>
  The object is an association list in insertion order of (key, header, commissions);
  the header is taken from the first commission of the key. Computing a key reads
  \<open>c.teacher._id\<close> (and \<open>c.class._id\<close>) without a guard, so a commission whose teacher
  (or class) is \<open>null\<close> raises a \<open>TypeError\<close> that ends the loop.
\<close>

record header =
  h_teacher :: ref
  h_class :: "ref option"
  h_month :: "string option"

fun group_insert :: "string \<Rightarrow> 'h \<Rightarrow> 'a \<Rightarrow> (string \<times> 'h \<times> 'a list) list
                       \<Rightarrow> (string \<times> 'h \<times> 'a list) list" where
  "group_insert k h x [] = [(k, h, [x])]"
| "group_insert k h x ((k', h', xs) # gs) =
     (if k' = k then (k', h', xs @ [x]) # gs else (k', h', xs) # group_insert k h x gs)"

fun group_by :: "('a \<Rightarrow> js_error + (string \<times> 'h)) \<Rightarrow> (string \<times> 'h \<times> 'a list) list \<Rightarrow> 'a list
                   \<Rightarrow> js_error + (string \<times> 'h \<times> 'a list) list" where
  "group_by key acc [] = Inr acc"
| "group_by key acc (x # xs) =
     (case key x of
        Inl e \<Rightarrow> Inl e
      | Inr (k, h) \<Rightarrow> group_by key (group_insert k h x acc) xs)"

datatype grouping = ByTeacher | ByTeacherClass | ByTeacherMonth

text \<open>
  The keys: \<open>c.teacher._id\<close> (line 1377); \<open>`${teacherId}-${classId}`\<close> (lines
  2105--2107); \<open>`${teacherId}-${month}`\<close> (lines 2505--2507).
\<close>

fun grouping_key :: "grouping \<Rightarrow> commission \<Rightarrow> js_error + (string \<times> header)" where
  "grouping_key ByTeacher c =
     (case req (cm_teacher c) ''_id'' of
        Inl e \<Rightarrow> Inl e
      | Inr t \<Rightarrow> Inr (ref_id t, \<lparr>h_teacher = t, h_class = None, h_month = None\<rparr>))"
| "grouping_key ByTeacherClass c =
     (case req (cm_teacher c) ''_id'' of
        Inl e \<Rightarrow> Inl e
      | Inr t \<Rightarrow> (case req (cm_class c) ''_id'' of
          Inl e \<Rightarrow> Inl e
        | Inr k \<Rightarrow> Inr (ref_id t @ ''-'' @ ref_id k,
                       \<lparr>h_teacher = t, h_class = Some k, h_month = None\<rparr>)))"
| "grouping_key ByTeacherMonth c =
     (case req (cm_teacher c) ''_id'' of
        Inl e \<Rightarrow> Inl e
      | Inr t \<Rightarrow> Inr (ref_id t @ ''-'' @ cm_month c,
                     \<lparr>h_teacher = t, h_class = None, h_month = Some (cm_month c)\<rparr>))"

text \<open>\<open>Object.values(groups)\<close>: the groups in the object's property order.\<close>

definition group_values :: "(string \<times> header \<times> commission list) list
                              \<Rightarrow> (header \<times> commission list) list" where
  "group_values gs = obj_values gs"

definition key_name :: "grouping \<Rightarrow> commission \<Rightarrow> js_error + string" where
  "key_name g c = map_sum id fst (grouping_key g c)"

section \<open>Cards\<close>

text \<open>
  What a rendered card shows. A badge is \<open>badge-success\<close> ``paid'' when
  \<open>status === 'paid'\<close> and \<open>badge-warning\<close> ``pending'' otherwise; buttons call the
  handler named by the constructor with the arguments written into the \<open>onclick\<close>.
\<close>

datatype badge = BadgePaid | BadgePending

datatype action =
    ShowPayCommissionModal js_id
  | PaySingleCommission js_id
  | PayAllTeacherCommissions js_id "js_id option"
  | PayTeacherCommissionsAndPrint js_id string
  | ShowPayClassCommissionModal js_id js_id string amount
  | ExportClassCommissions js_id js_id string

record item =
  it_labels :: "string list"
  it_badge :: badge
  it_amount :: amount
  it_percentage :: amount
  it_button :: "action option"

record card =
  cd_title :: "string list"
  cd_summary :: summary
  cd_items :: "item list"
  cd_pending_rows :: "(string list \<times> amount) list"
  cd_actions :: "action list"

text \<open>
  The container after a render: the ``no commissions'' placeholder, or the cards
  appended before the handler returned or raised.
\<close>

datatype render_out = NoCommissions | Shown "card list" "js_error option"

definition badge_of :: "commission \<Rightarrow> badge" where
  "badge_of c = (if cm_status c = ''paid'' then BadgePaid else BadgePending)"

text \<open>
  The group object's \<open>class\<close> and \<open>month\<close> fields. Each is set whenever the grouping
  that reads it is used; the \<open>None\<close> branches are never reached.
\<close>

definition class_text :: "ref option \<Rightarrow> string" where
  "class_text k = (case k of None \<Rightarrow> ''undefined'' | Some r \<Rightarrow> ref_name r)"

definition month_text :: "string option \<Rightarrow> string" where
  "month_text m = (case m of None \<Rightarrow> ''undefined'' | Some s \<Rightarrow> s)"

subsection \<open>\<open>renderTeacherCommissions\<close>, grouped by teacher (lines 1365--1463)\<close>

definition card_by_teacher :: "header \<Rightarrow> commission list \<Rightarrow> card" where
  "card_by_teacher h cs =
     \<lparr>cd_title = [ref_name (h_teacher h)],
      cd_summary = group_summary cs,
      cd_items = map (\<lambda>c. \<lparr>it_labels = [cm_month c, name_or_unknown (cm_student c),
                                        name_or_unknown (cm_class c)],
                            it_badge = badge_of c, it_amount = cm_amount c,
                            it_percentage = cm_percentage c,
                            it_button = (if cm_status c = ''pending''
                                         then Some (ShowPayCommissionModal (cm_id c)) else None)\<rparr>) cs,
      cd_pending_rows = map (\<lambda>c. ([cm_month c, name_or_unknown (cm_student c)], cm_amount c))
                            (pending_of cs),
      cd_actions = (if pending_of cs \<noteq> []
                    then [PayAllTeacherCommissions (ref_id (h_teacher h)) None] else [])\<rparr>"

subsection \<open>\<open>renderTeacherCommissions\<close>, grouped by teacher and class (lines 2092--2199)\<close>

definition card_by_teacher_class :: "header \<Rightarrow> commission list \<Rightarrow> card" where
  "card_by_teacher_class h cs =
     \<lparr>cd_title = [ref_name (h_teacher h), class_text (h_class h)],
      cd_summary = group_summary cs,
      cd_items = map (\<lambda>c. \<lparr>it_labels = [name_or_unknown (cm_student c), cm_month c],
                            it_badge = badge_of c, it_amount = cm_amount c,
                            it_percentage = cm_percentage c,
                            it_button = (if cm_status c = ''pending''
                                         then Some (PaySingleCommission (cm_id c)) else None)\<rparr>) cs,
      cd_pending_rows = map (\<lambda>c. ([cm_month c, name_or_unknown (cm_student c)], cm_amount c))
                            (pending_of cs),
      cd_actions = (if pending_of cs \<noteq> []
                    then [PayAllTeacherCommissions (ref_id (h_teacher h))
                            (map_option ref_id (h_class h))] else [])\<rparr>"

subsection \<open>\<open>renderTeacherCommissions\<close>, grouped by teacher and month (lines 2494--2580)\<close>

definition card_by_teacher_month :: "header \<Rightarrow> commission list \<Rightarrow> card" where
  "card_by_teacher_month h cs =
     \<lparr>cd_title = [ref_name (h_teacher h), month_text (h_month h)],
      cd_summary = group_summary cs,
      cd_items = map (\<lambda>c. \<lparr>it_labels = [name_or_unknown (cm_student c), name_or_unknown (cm_class c)],
                            it_badge = badge_of c, it_amount = cm_amount c,
                            it_percentage = cm_percentage c, it_button = None\<rparr>) cs,
      cd_pending_rows = [],
      cd_actions = (if pending_of cs \<noteq> []
                    then [PayTeacherCommissionsAndPrint (ref_id (h_teacher h)) (month_text (h_month h))]
                    else [])\<rparr>"

fun group_card :: "grouping \<Rightarrow> header \<Rightarrow> commission list \<Rightarrow> card" where
  "group_card ByTeacher = card_by_teacher"
| "group_card ByTeacherClass = card_by_teacher_class"
| "group_card ByTeacherMonth = card_by_teacher_month"

text \<open>
  The renderer: \<open>if (!commissions || commissions.length === 0)\<close> shows the
  placeholder; otherwise the grouping loop runs (its \<open>TypeError\<close> leaves the cleared
  container empty) and one card per group is appended in \<open>Object.values\<close> order.
\<close>

definition render_grouped :: "grouping \<Rightarrow> commission list option \<Rightarrow> render_out" where
  "render_grouped g cso =
     (case cso of
        None \<Rightarrow> NoCommissions
      | Some [] \<Rightarrow> NoCommissions
      | Some cs \<Rightarrow>
          (case group_by (grouping_key g) [] cs of
             Inl e \<Rightarrow> Shown [] (Some e)
           | Inr gs \<Rightarrow> Shown (map (\<lambda>(h, xs). group_card g h xs) (group_values gs)) None))"

subsection \<open>\<open>renderTeacherCommissionsByClass\<close> (lines 1109--1195)\<close>

text \<open>
  The groups come from the server (\<open>/accounting/teacher-commissions-by-class\<close>). The
  template reads \<open>teacher.name\<close>, \<open>class.name\<close> and every \<open>commission.student.name\<close>
  without \<open>?.\<close>, so a missing teacher, class or student raises a \<open>TypeError\<close> after the
  cards of the earlier groups were appended.
\<close>

record class_group =
  cg_teacher :: "ref option"
  cg_class :: "ref option"
  cg_month :: string
  cg_commissions :: "commission list"

definition students_of :: "commission list \<Rightarrow> js_error + string list" where
  "students_of cs =
     (if \<forall>c \<in> set cs. cm_student c \<noteq> None then Inr (map (\<lambda>c. ref_name (the (cm_student c))) cs)
      else Inl (TypeError ''name''))"

definition class_card :: "class_group \<Rightarrow> js_error + card" where
  "class_card g =
     (case req (cg_teacher g) ''name'' of Inl e \<Rightarrow> Inl e | Inr t \<Rightarrow>
      case req (cg_class g) ''name'' of Inl e \<Rightarrow> Inl e | Inr k \<Rightarrow>
      case students_of (cg_commissions g) of Inl e \<Rightarrow> Inl e | Inr names \<Rightarrow>
      (let cs = cg_commissions g; s = group_summary cs in
       Inr \<lparr>cd_title = [ref_name t, ref_name k, cg_month g],
            cd_summary = s,
            cd_items = map (\<lambda>(c, n). \<lparr>it_labels = [n], it_badge = badge_of c,
                                     it_amount = cm_amount c, it_percentage = cm_percentage c,
                                     it_button = None\<rparr>) (zip cs names),
            cd_pending_rows = map (\<lambda>(c, n). ([n], cm_amount c))
                                  (filter (\<lambda>(c, n). cm_status c = ''pending'') (zip cs names)),
            cd_actions = (if pending_of cs \<noteq> []
                          then [ShowPayClassCommissionModal (ref_id t) (ref_id k) (cg_month g)
                                  (pendingAmount s),
                                ExportClassCommissions (ref_id t) (ref_id k) (cg_month g)]
                          else [])\<rparr>))"

fun append_cards :: "card list \<Rightarrow> class_group list \<Rightarrow> render_out" where
  "append_cards shown [] = Shown shown None"
| "append_cards shown (g # gs) =
     (case class_card g of
        Inl e \<Rightarrow> Shown shown (Some e)
      | Inr c \<Rightarrow> append_cards (shown @ [c]) gs)"

definition renderTeacherCommissionsByClass :: "class_group list option \<Rightarrow> render_out" where
  "renderTeacherCommissionsByClass gso =
     (case gso of
        None \<Rightarrow> NoCommissions
      | Some [] \<Rightarrow> NoCommissions
      | Some gs \<Rightarrow> append_cards [] gs)"

section \<open>What grouping computes\<close>

text \<open>
  The commissions of one key, read back from the object, and all commissions of all
  groups in object order: specification functions for the lemmas below.
\<close>

definition items_of :: "string \<Rightarrow> (string \<times> 'h \<times> 'a list) list \<Rightarrow> 'a list" where
  "items_of k gs = concat (map (\<lambda>(k', h, ys). if k' = k then ys else []) gs)"

definition all_items :: "(string \<times> 'h \<times> 'a list) list \<Rightarrow> 'a list" where
  "all_items gs = concat (map (\<lambda>g. snd (snd g)) gs)"

definition groups_wf :: "('a \<Rightarrow> js_error + (string \<times> 'h)) \<Rightarrow> (string \<times> 'h \<times> 'a list) list \<Rightarrow> bool" where
  "groups_wf key gs \<longleftrightarrow> distinct (map fst gs)
     \<and> (\<forall>(k, h, ys) \<in> set gs. ys \<noteq> [] \<and> key (hd ys) = Inr (k, h))"

text \<open>The commissions a group's total counts: those pending or paid.\<close>

definition counted :: "commission \<Rightarrow> bool" where
  "counted c \<longleftrightarrow> cm_status c = ''pending'' \<or> cm_status c = ''paid''"

section \<open>Lemmas on grouping\<close>

lemma items_of_Nil [simp]: "items_of k [] = []"
  by (simp add: items_of_def)

lemma items_of_Cons [simp]:
  "items_of k ((k', h, ys) # gs) = (if k' = k then ys else []) @ items_of k gs"
  by (simp add: items_of_def)

lemma items_of_absent: "k \<notin> fst ` set gs \<Longrightarrow> items_of k gs = []"
  by (induction gs) auto

lemma items_of_group_insert [js_simps]:
  "distinct (map fst gs) \<Longrightarrow>
     items_of k' (group_insert k h x gs) = items_of k' gs @ (if k' = k then [x] else [])"
  by (induction k h x gs rule: group_insert.induct) (auto simp: items_of_absent)

lemma all_items_group_insert [js_simps]:
  "mset (all_items (group_insert k h x gs)) = add_mset x (mset (all_items gs))"
  by (induction k h x gs rule: group_insert.induct) (auto simp: all_items_def)

lemma keys_group_insert:
  "fst ` set (group_insert k h x gs) = insert k (fst ` set gs)"
  by (induction k h x gs rule: group_insert.induct) auto

lemma distinct_keys_group_insert:
  "distinct (map fst gs) \<Longrightarrow> distinct (map fst (group_insert k h x gs))"
proof (induction k h x gs rule: group_insert.induct)
  case (2 k h x k' h' xs gs)
  then show ?case by (cases "k' = k") (simp_all add: keys_group_insert)
qed simp

lemma groups_wf_group_insert [js_simps]:
  assumes "groups_wf key gs" and "key x = Inr (k, h)"
  shows "groups_wf key (group_insert k h x gs)"
proof -
  have "\<forall>(k', h', ys) \<in> set (group_insert k h x gs). ys \<noteq> [] \<and> key (hd ys) = Inr (k', h')"
    using assms by (induction k h x gs rule: group_insert.induct) (auto simp: groups_wf_def)
  with assms(1) show ?thesis
    by (simp add: groups_wf_def distinct_keys_group_insert)
qed

lemma items_of_wf:
  assumes "groups_wf key gs" and "(k, h, ys) \<in> set gs"
  shows "items_of k gs = ys"
  using assms
proof (induction gs)
  case (Cons g gs)
  obtain k' h' ys' where g: "g = (k', h', ys')" by (cases g)
  have wf: "groups_wf key gs"
    using Cons.prems(1) by (simp add: groups_wf_def)
  show ?case
  proof (cases "k' = k")
    case True
    with Cons.prems g have "(k, h, ys) = g"
      by (force simp: groups_wf_def)
    moreover have "items_of k gs = []"
      using Cons.prems(1) g True by (force simp: groups_wf_def items_of_def)
    ultimately show ?thesis using g by (simp add: items_of_def)
  next
    case False
    with Cons.prems g have "(k, h, ys) \<in> set gs" by auto
    with wf Cons.IH False g show ?thesis by (simp add: items_of_def)
  qed
qed simp

lemma group_by_items:
  "group_by key acc xs = Inr gs \<Longrightarrow> distinct (map fst acc) \<Longrightarrow>
     items_of k gs = items_of k acc @ filter (\<lambda>x. map_sum id fst (key x) = Inr k) xs"
  by (induction xs arbitrary: acc)
     (auto simp: items_of_group_insert distinct_keys_group_insert split: sum.splits prod.splits)

lemma group_by_wf:
  "group_by key acc xs = Inr gs \<Longrightarrow> groups_wf key acc \<Longrightarrow> groups_wf key gs"
  by (induction xs arbitrary: acc)
     (auto simp: groups_wf_group_insert split: sum.splits prod.splits)

lemma group_by_mset:
  "group_by key acc xs = Inr gs \<Longrightarrow> mset (all_items gs) = mset (all_items acc) + mset xs"
  by (induction xs arbitrary: acc)
     (auto simp: all_items_group_insert split: sum.splits prod.splits)

lemma group_by_Inr_iff:
  "(\<exists>gs. group_by key acc xs = Inr gs) \<longleftrightarrow> (\<forall>x \<in> set xs. \<exists>kh. key x = Inr kh)"
  by (induction xs arbitrary: acc) (auto split: sum.splits prod.splits)

lemma group_by_Inl:
  "key x = Inl e \<Longrightarrow> \<forall>y \<in> set ys. \<exists>kh. key y = Inr kh \<Longrightarrow>
     group_by key acc (ys @ x # zs) = Inl e"
  by (induction ys arbitrary: acc) (auto split: sum.splits prod.splits)

lemma groups_wf_Nil [js_simps]: "groups_wf key []"
  by (simp add: groups_wf_def)


section \<open>Subtotals\<close>

lemma sum_amounts_sum_list [js_simps]: "sum_amounts cs = sum_list (map cm_amount cs)"
  by (simp add: sum_amounts_def foldl_add_sum_list)

lemma total_counted:
  "totalAmount (group_summary cs) = (\<Sum>c \<leftarrow> filter counted cs. cm_amount c)"
  by (induction cs) (auto simp: group_summary_def pending_of_def paid_of_def counted_def
                                sum_amounts_sum_list Let_def)

lemma total_counted_mset:
  "totalAmount (group_summary cs) = (\<Sum>c \<in># filter_mset counted (mset cs). cm_amount c)"
  by (simp add: total_counted sum_mset_sum_list flip: mset_filter mset_map)

lemma sum_group_totals:
  "(\<Sum>g \<leftarrow> gs. totalAmount (group_summary (snd (snd g))))
     = (\<Sum>c \<in># filter_mset counted (mset (all_items gs)). cm_amount c)"
  by (induction gs) (simp_all add: all_items_def total_counted_mset)

section \<open>Keys\<close>

lemma key_name_Inr:
  "grouping_key g c = Inr (k, h) \<Longrightarrow> key_name g c = Inr k"
  by (simp add: key_name_def)

lemma dash_key:
  assumes "g \<noteq> ByTeacher" and "grouping_key g c = Inr (k, h)"
  shows "CHR ''-'' \<in> set k"
  using assms by (cases g) (auto split: sum.splits)

lemma group_values_dash:
  assumes "g \<noteq> ByTeacher" and "groups_wf (grouping_key g) gs"
  shows "group_values gs = map snd gs"
proof -
  have "\<forall>kv \<in> set gs. \<not> is_array_index (fst kv)"
  proof
    fix kv assume mem: "kv \<in> set gs"
    obtain k h xs where kv: "kv = (k, h, xs)" by (cases kv)
    with mem assms(2) have "grouping_key g (hd xs) = Inr (k, h)"
      by (auto simp: groups_wf_def)
    with assms(1) have "CHR ''-'' \<in> set k" by (rule dash_key)
    with kv show "\<not> is_array_index (fst kv)" by (simp add: dash_not_array_index)
  qed
  then show ?thesis
    by (simp add: group_values_def obj_values_no_index)
qed

lemma group_card_summary [simp]: "cd_summary (group_card g h xs) = group_summary xs"
  by (cases g) (simp_all add: card_by_teacher_def card_by_teacher_class_def card_by_teacher_month_def)

lemma group_card_actions:
  "(cd_actions (group_card g h xs) \<noteq> []) \<longleftrightarrow> pending_of xs \<noteq> []"
  by (cases g) (simp_all add: card_by_teacher_def card_by_teacher_class_def card_by_teacher_month_def)

lemma set_group_values: "set (group_values gs) = snd ` set gs"
  by (metis group_values_def mset_obj_values set_mset_mset set_map)

lemma render_grouped_Shown:
  assumes "render_grouped g (Some cs) = Shown cards err"
  obtains gs where "err = None" and "group_by (grouping_key g) [] cs = Inr gs"
      and "cards = map (\<lambda>(h, xs). group_card g h xs) (group_values gs)"
  | e where "err = Some e" and "cards = []" and "group_by (grouping_key g) [] cs = Inl e"
  using assms by (cases cs) (auto simp: render_grouped_def split: sum.splits)


section \<open>Properties of the renderers\<close>

text \<open>C1. Every card rendered by a grouping renderer shows the subtotals of exactly the input
  commissions whose grouping key is that card's key (a nonempty set): grouping then
  summing equals summing the input restricted to the key.\<close>

theorem render_card_summary:
  assumes "render_grouped g (Some cs) = Shown cards err" and "cd \<in> set cards"
  shows "\<exists>k. cd_summary cd = group_summary (filter (\<lambda>c. key_name g c = Inr k) cs)
             \<and> filter (\<lambda>c. key_name g c = Inr k) cs \<noteq> []"
  using assms(1)
proof (cases rule: render_grouped_Shown)
  case (1 gs)
  from assms(2) 1(3) obtain k h xs where mem: "(k, h, xs) \<in> set gs" and cd: "cd = group_card g h xs"
    by (auto simp: set_group_values)
  have wf: "groups_wf (grouping_key g) gs"
    using group_by_wf [OF 1(2)] by (simp add: groups_wf_Nil)
  have "xs = filter (\<lambda>c. key_name g c = Inr k) cs"
    using items_of_wf [OF wf mem] group_by_items [OF 1(2), of k] by (simp add: key_name_def)
  moreover have "xs \<noteq> []" using wf mem by (auto simp: groups_wf_def)
  ultimately show ?thesis using cd by auto
next
  case 2
  with assms(2) show ?thesis by simp
qed

text \<open>C2. When a grouping renderer succeeds, the totals of all its cards add up to the total of
  the whole input list: no commission is lost or counted twice by the grouping.\<close>

theorem render_totals_conserved:
  assumes "render_grouped g (Some cs) = Shown cards None"
  shows "(\<Sum>cd \<leftarrow> cards. totalAmount (cd_summary cd)) = totalAmount (group_summary cs)"
  using assms
proof (cases rule: render_grouped_Shown)
  case (1 gs)
  have "(\<Sum>cd \<leftarrow> cards. totalAmount (cd_summary cd))
          = (\<Sum>hx \<leftarrow> group_values gs. totalAmount (group_summary (snd hx)))"
    using 1(3) by (simp add: comp_def case_prod_beta)
  also have "\<dots> = (\<Sum>hx \<leftarrow> map snd gs. totalAmount (group_summary (snd hx)))"
    by (rule sum_list_map_mset_eq) (simp add: group_values_def mset_obj_values)
  also have "\<dots> = (\<Sum>c \<in># filter_mset counted (mset (all_items gs)). cm_amount c)"
    by (simp add: sum_group_totals comp_def)
  also have "\<dots> = totalAmount (group_summary cs)"
    using group_by_mset [OF 1(2)] by (simp add: all_items_def total_counted_mset)
  finally show ?thesis .
qed simp


lemma pending_of_nonempty: "pending_of cs \<noteq> [] \<longleftrightarrow> (\<exists>c \<in> set cs. cm_status c = ''pending'')"
  by (auto simp: pending_of_def filter_empty_conv)

theorem pay_action_iff_pending:
  "cd_actions (group_card g h cs) \<noteq> [] \<longleftrightarrow> (\<exists>c \<in> set cs. cm_status c = ''pending'')"
  by (simp add: group_card_actions pending_of_nonempty)

lemma grouping_key_Inr_iff:
  "(\<exists>kh. grouping_key g c = Inr kh) \<longleftrightarrow>
     cm_teacher c \<noteq> None \<and> (g = ByTeacherClass \<longrightarrow> cm_class c \<noteq> None)"
  by (cases g; cases "cm_teacher c"; cases "cm_class c") auto

text \<open>C11. On a nonempty list, a grouping renderer completes exactly when every commission has a
  teacher (and, for the teacher+class grouping, a class); otherwise the unguarded ._id
  read raises a TypeError.\<close>

theorem render_grouped_succeeds_iff:
  assumes "cs \<noteq> []"
  shows "(\<exists>cards. render_grouped g (Some cs) = Shown cards None) \<longleftrightarrow>
           (\<forall>c \<in> set cs. cm_teacher c \<noteq> None \<and> (g = ByTeacherClass \<longrightarrow> cm_class c \<noteq> None))"
proof -
  have "(\<exists>cards. render_grouped g (Some cs) = Shown cards None) \<longleftrightarrow>
          (\<exists>gs. group_by (grouping_key g) [] cs = Inr gs)"
    using assms by (cases cs) (auto simp: render_grouped_def split: sum.splits)
  also have "\<dots> \<longleftrightarrow> (\<forall>c \<in> set cs. \<exists>kh. grouping_key g c = Inr kh)"
    by (rule group_by_Inr_iff)
  finally show ?thesis by (simp only: grouping_key_Inr_iff)
qed

theorem month_key_injective:
  assumes "cm_teacher c1 = Some t1" and "cm_teacher c2 = Some t2"
    and "CHR ''-'' \<notin> set (ref_id t1)" and "CHR ''-'' \<notin> set (ref_id t2)"
    and "key_name ByTeacherMonth c1 = key_name ByTeacherMonth c2"
  shows "ref_id t1 = ref_id t2 \<and> cm_month c1 = cm_month c2"
proof -
  from assms(1,2,5) have "ref_id t1 @ CHR ''-'' # cm_month c1 = ref_id t2 @ CHR ''-'' # cm_month c2"
    by (simp add: key_name_def)
  with assms(3,4) show ?thesis by (rule append_sep_inj)
qed

lemma append_cards_shown:
  "append_cards pre gs = Shown cards err \<Longrightarrow>
     \<exists>done. cards = pre @ done \<and> (err = None \<longrightarrow> map class_card gs = map Inr done)
       \<and> (\<forall>e. err = Some e \<longrightarrow> (\<exists>ok g rest. gs = ok @ g # rest \<and> map class_card ok = map Inr done
                                            \<and> class_card g = Inl e))"
proof (induction pre gs rule: append_cards.induct)
  case (2 shown g gs)
  show ?case
  proof (cases "class_card g")
    case (Inl e)
    with "2.prems" show ?thesis by force
  next
    case (Inr c)
    with "2.prems" have "append_cards (shown @ [c]) gs = Shown cards err" by simp
    with "2.IH" [OF Inr] obtain d where
      d: "cards = (shown @ [c]) @ d" "err = None \<longrightarrow> map class_card gs = map Inr d"
         "\<forall>e. err = Some e \<longrightarrow> (\<exists>ok g rest. gs = ok @ g # rest \<and> map class_card ok = map Inr d
                                             \<and> class_card g = Inl e)"
      by blast
    have "\<forall>e. err = Some e \<longrightarrow> (\<exists>ok g' rest. g # gs = ok @ g' # rest
               \<and> map class_card ok = map Inr (c # d) \<and> class_card g' = Inl e)"
    proof (intro allI impI)
      fix e assume "err = Some e"
      with d(3) obtain ok g' rest where "gs = ok @ g' # rest" "map class_card ok = map Inr d"
          "class_card g' = Inl e" by blast
      with Inr show "\<exists>ok g' rest. g # gs = ok @ g' # rest
               \<and> map class_card ok = map Inr (c # d) \<and> class_card g' = Inl e"
        by (intro exI [of _ "g # ok"] exI [of _ g'] exI [of _ rest]) simp
    qed
    with d(1,2) Inr show ?thesis by (intro exI [of _ "c # d"]) simp
  qed
qed simp

theorem by_class_partial_render:
  assumes "renderTeacherCommissionsByClass (Some gs) = Shown cards (Some e)"
  shows "\<exists>ok g rest. gs = ok @ g # rest \<and> map class_card ok = map Inr cards \<and> class_card g = Inl e"
proof -
  from assms have "gs \<noteq> []" by (auto simp: renderTeacherCommissionsByClass_def)
  with assms have "append_cards [] gs = Shown cards (Some e)"
    by (cases gs) (simp_all add: renderTeacherCommissionsByClass_def)
  then show ?thesis using append_cards_shown by fastforce
qed

theorem total_excludes_other_statuses:
  "totalAmount (group_summary cs) = sum_amounts cs - sum_amounts (filter (\<lambda>c. \<not> counted c) cs)"
proof -
  have "(\<Sum>c \<leftarrow> filter counted cs. cm_amount c) + (\<Sum>c \<leftarrow> filter (\<lambda>c. \<not> counted c) cs. cm_amount c)
          = (\<Sum>c \<leftarrow> cs. cm_amount c)"
    by (rule sum_list_filter_compl)
  then show ?thesis by (simp add: total_counted sum_amounts_sum_list algebra_simps)
qed

end
