(* ===== verification/Payments.thy ===== *)
theory Payments
  imports Prelude
begin

text \<open>
  The payments table of \<open>accouning.js\<close> and the selection it feeds: \<open>renderPayments\<close>
  (lines 684--738) with \<open>getPaymentMethodName\<close> (863--870), the module-level set
  \<open>selectedPayments\<close> (line 16) changed by \<open>togglePaymentSelection\<close> (742--750) and the
  select-all handler of \<open>setupEventListeners\<close> (92--104), the counter
  \<open>updateSelectedPaymentsCount\<close> (755--758), and the bulk action \<open>markSelectedAsPaid\<close>
  (769--826). The page's state is a record of the globals and DOM values these
  functions read and write; every handler takes it and returns it updated.
\<close>

section \<open>Payments and their rows\<close>

record payment =
  p_id :: js_id
  p_student :: "ref option"
  p_class :: "ref option"
  p_month :: string
  p_amount :: amount
  p_method :: string
  p_status :: string
  p_paymentDate :: "string option"

text \<open>\<open>getPaymentMethodName\<close>: \<open>methods[method] || method\<close> over the literal
  \<open>{cash: 'naqdi', bank: 'tahwil banki', online: 'daf' iliktruni'}\<close>.\<close>

definition payment_methods :: "(string \<times> string) list" where
  "payment_methods =
     [(''cash'', utf8 [217, 134, 217, 130, 216, 175, 217, 138]),
      (''bank'', utf8 [216, 170, 216, 173, 217, 136, 217, 138, 217, 132, 32, 216, 168, 217, 134,
                      217, 131, 217, 138]),
      (''online'', utf8 [216, 175, 217, 129, 216, 185, 32, 216, 165, 217, 132, 217, 131, 216, 170,
                        216, 177, 217, 136, 217, 134, 217, 138])]"

definition getPaymentMethodName :: "string \<Rightarrow> string" where
  "getPaymentMethodName m = lookup_or payment_methods m"

datatype status_badge = BadgeSuccessPaid | BadgeWarningPending | BadgeDangerLate | NoBadge

definition status_badge_of :: "string \<Rightarrow> status_badge" where
  "status_badge_of s =
     (if s = ''paid'' then BadgeSuccessPaid
      else if s = ''pending'' then BadgeWarningPending
      else if s = ''late'' then BadgeDangerLate else NoBadge)"

datatype row_action = ViewPayment js_id | MarkAsPaid js_id | PrintReceipt js_id

record payment_row =
  row_checkbox :: js_id
  row_student :: string
  row_class :: string
  row_month :: string
  row_amount :: amount
  row_method :: string
  row_badge :: status_badge
  row_date :: "string option"
  row_actions :: "row_action list"

definition payment_row_of :: "payment \<Rightarrow> payment_row" where
  "payment_row_of p =
     \<lparr>row_checkbox = p_id p,
      row_student = name_or_unknown (p_student p),
      row_class = name_or_unknown (p_class p),
      row_month = p_month p,
      row_amount = p_amount p,
      row_method = getPaymentMethodName (p_method p),
      row_badge = status_badge_of (p_status p),
      row_date = (case p_paymentDate p of Some d \<Rightarrow> if d = [] then None else Some d | None \<Rightarrow> None),
      row_actions = [ViewPayment (p_id p)]
                    @ (if p_status p \<noteq> ''paid'' then [MarkAsPaid (p_id p)] else [])
                    @ [PrintReceipt (p_id p)]\<rparr>"

section \<open>Page state\<close>

text \<open>
  \<open>selected\<close> is \<open>selectedPayments\<close> (a \<open>Set\<close> in insertion order),
  \<open>select_all\<close> the \<open>#selectAllPayments\<close> checkbox, \<open>checks\<close> the row checkboxes of
  \<open>#paymentsTable\<close> (their \<open>data-id\<close> and checked state), \<open>rows\<close> the rendered rows
  (\<open>None\<close>: the ``no payments'' placeholder), \<open>count_text\<close> the number shown in
  \<open>#selectedCount\<close> and \<open>footer\<close> whether \<open>#paymentsFooter\<close> is displayed.
\<close>

record pay_ui =
  selected :: "js_id list"
  select_all :: bool
  checks :: "(js_id \<times> bool) list"
  rows :: "payment_row list option"
  count_text :: nat
  footer :: bool

definition updateSelectedPaymentsCount :: "pay_ui \<Rightarrow> pay_ui" where
  "updateSelectedPaymentsCount st = st\<lparr>count_text := length (selected st)\<rparr>"

definition renderPayments :: "payment list \<Rightarrow> pay_ui \<Rightarrow> pay_ui" where
  "renderPayments ps st =
     (if ps = [] then st\<lparr>checks := [], rows := None, footer := False\<rparr>
      else updateSelectedPaymentsCount
             (st\<lparr>checks := map (\<lambda>p. (p_id p, False)) ps, rows := Some (map payment_row_of ps),
                 footer := True\<rparr>))"

definition togglePaymentSelection :: "js_id \<Rightarrow> bool \<Rightarrow> pay_ui \<Rightarrow> pay_ui" where
  "togglePaymentSelection pid is_checked st =
     updateSelectedPaymentsCount
       (if is_checked then st\<lparr>selected := js_set_add pid (selected st)\<rparr>
        else st\<lparr>selected := js_set_delete pid (selected st), select_all := False\<rparr>)"

text \<open>
  A click on the checkbox of row \<open>i\<close> flips it and fires its \<open>onchange\<close>, which calls
  \<open>togglePaymentSelection(id, this.checked)\<close>. A row that does not exist cannot be
  clicked.
\<close>

definition click_row :: "nat \<Rightarrow> pay_ui \<Rightarrow> pay_ui" where
  "click_row i st =
     (if i < length (checks st) then
        (let (pid, c) = checks st ! i
         in togglePaymentSelection pid (\<not> c) (st\<lparr>checks := (checks st)[i := (pid, \<not> c)]\<rparr>))
      else st)"

text \<open>
  The \<open>change\<close> handler of \<open>#selectAllPayments\<close> (lines 92--104), after the box was
  set to \<open>v\<close>: every row checkbox gets \<open>v\<close> and its id is added to or deleted from
  the set, in row order.
\<close>

definition select_all_change :: "bool \<Rightarrow> pay_ui \<Rightarrow> pay_ui" where
  "select_all_change v st =
     updateSelectedPaymentsCount
       (st\<lparr>select_all := v,
           checks := map (\<lambda>(pid, _). (pid, v)) (checks st),
           selected := fold (\<lambda>(pid, _) s. if v then js_set_add pid s else js_set_delete pid s)
                         (checks st) (selected st)\<rparr>)"

section \<open>Marking the selection as paid\<close>

text \<open>
  \<open>markSelectedAsPaid\<close>: with an empty set it alerts and returns; if the user cancels
  the \<open>confirm\<close> it returns; otherwise it sends one \<open>PUT /payments/:id/pay\<close> per selected
  id (in the set's order) at once, waits for all with \<open>Promise.allSettled\<close>, counts a
  result as a success when it was fulfilled with \<open>response.ok\<close> and as a failure
  otherwise, alerts both counts, clears the set and the select-all box and reloads the
  payments and the dashboard. A request's settlement is an argument.
\<close>

datatype settled = Rejected | Fulfilled bool

datatype bulk_alert = NothingSelected | BulkSummary nat nat

record bulk_out =
  bo_alert :: "bulk_alert option"
  bo_requests :: "js_id list"
  bo_reload :: bool

definition settled_ok :: "settled \<Rightarrow> bool" where
  "settled_ok r = (r = Fulfilled True)"

fun count_results :: "settled list \<Rightarrow> nat \<times> nat \<Rightarrow> nat \<times> nat" where
  "count_results [] acc = acc"
| "count_results (r # rs) (s, e) =
     count_results rs (if settled_ok r then (Suc s, e) else (s, Suc e))"

definition markSelectedAsPaid :: "bool \<Rightarrow> (js_id \<Rightarrow> settled) \<Rightarrow> pay_ui \<Rightarrow> pay_ui \<times> bulk_out" where
  "markSelectedAsPaid confirmed outcome st =
     (if selected st = [] then
        (st, \<lparr>bo_alert = Some NothingSelected, bo_requests = [], bo_reload = False\<rparr>)
      else if \<not> confirmed then
        (st, \<lparr>bo_alert = None, bo_requests = [], bo_reload = False\<rparr>)
      else
        (let ids = selected st;
             (s, e) = count_results (map outcome ids) (0, 0)
         in (st\<lparr>selected := [], select_all := False\<rparr>,
             \<lparr>bo_alert = Some (BulkSummary s e), bo_requests = ids, bo_reload = True\<rparr>)))"

section \<open>Page events\<close>

text \<open>
  What can happen to the payments page: a render of a fetched list, a click on a row
  checkbox, a change of the select-all box, or the bulk action (with the user's
  answer to \<open>confirm\<close>, the settlement of each request, and the list the reload
  fetches, \<open>None\<close> when that fetch fails). The page starts with an empty set.
\<close>

datatype pay_event =
    Render "payment list"
  | ClickRow nat
  | SelectAll bool
  | MarkPaid bool "js_id \<Rightarrow> settled" "payment list option"

fun pay_step :: "pay_ui \<Rightarrow> pay_event \<Rightarrow> pay_ui" where
  "pay_step st (Render ps) = renderPayments ps st"
| "pay_step st (ClickRow i) = click_row i st"
| "pay_step st (SelectAll v) = select_all_change v st"
| "pay_step st (MarkPaid c out reload) =
     (case markSelectedAsPaid c out st of
        (st', b) \<Rightarrow> if bo_reload b then (case reload of Some ps \<Rightarrow> renderPayments ps st' | None \<Rightarrow> st')
                   else st')"

fun pay_run :: "pay_ui \<Rightarrow> pay_event list \<Rightarrow> pay_ui" where
  "pay_run st [] = st"
| "pay_run st (e # es) = pay_run (pay_step st e) es"

definition pay_init :: pay_ui where
  "pay_init = \<lparr>selected = [], select_all = False, checks = [], rows = None, count_text = 0,
               footer = False\<rparr>"

section \<open>Lemmas\<close>

lemma selected_renderPayments [simp]: "selected (renderPayments ps st) = selected st"
  by (simp add: renderPayments_def updateSelectedPaymentsCount_def)

lemma selected_toggle:
  "selected (togglePaymentSelection pid c st)
     = (if c then js_set_add pid (selected st) else js_set_delete pid (selected st))"
  by (simp add: togglePaymentSelection_def updateSelectedPaymentsCount_def)

lemma fold_select_distinct:
  "distinct s \<Longrightarrow> distinct (fold (\<lambda>(pid, _) s. if v then js_set_add pid s else js_set_delete pid s) cs s)"
  by (induction cs arbitrary: s) (auto simp: js_simps)

lemma fold_add_distinct:
  "distinct s \<Longrightarrow> distinct (fold (\<lambda>(pid, _). js_set_add pid) cs s)"
  by (induction cs arbitrary: s) (auto simp: js_simps)

lemma set_fold_select_add:
  "set (fold (\<lambda>(pid, _) s. js_set_add pid s) cs s) = set s \<union> set (map fst cs)"
  by (induction cs arbitrary: s) (auto simp: js_simps)

lemma markSelectedAsPaid_selected:
  "markSelectedAsPaid c out st = (st', b) \<Longrightarrow> selected st' = selected st \<or> selected st' = []"
  by (auto simp: markSelectedAsPaid_def Let_def split: if_splits prod.splits)

lemma pay_step_distinct:
  "distinct (selected st) \<Longrightarrow> distinct (selected (pay_step st e))"
proof (cases e)
  case (ClickRow i)
  assume d: "distinct (selected st)"
  then show ?thesis using ClickRow
    by (auto simp: click_row_def selected_toggle js_simps split: prod.splits)
next
  case (SelectAll v)
  assume d: "distinct (selected st)"
  then show ?thesis using SelectAll
    by (simp add: select_all_change_def updateSelectedPaymentsCount_def fold_select_distinct)
next
  case (MarkPaid c out r)
  assume d: "distinct (selected st)"
  obtain st' b where m: "markSelectedAsPaid c out st = (st', b)" by fastforce
  from markSelectedAsPaid_selected [OF m] d have "distinct (selected st')" by auto
  with m MarkPaid show ?thesis by (auto split: option.splits)
qed simp

section \<open>Properties\<close>

lemma count_results_eq:
  "count_results rs (s0, e0)
     = (s0 + length (filter settled_ok rs), e0 + length (filter (\<lambda>r. \<not> settled_ok r) rs))"
  by (induction rs arbitrary: s0 e0) auto

lemma select_all_true_selected:
  "distinct (selected st) \<Longrightarrow>
     distinct (selected (select_all_change True st))
     \<and> set (selected (select_all_change True st)) = set (selected st) \<union> set (map fst (checks st))
     \<and> checks (select_all_change True st) = map (\<lambda>(pid, _). (pid, True)) (checks st)
     \<and> count_text (select_all_change True st) = length (selected (select_all_change True st))"
  by (simp add: select_all_change_def updateSelectedPaymentsCount_def fold_add_distinct
                set_fold_select_add)

text \<open>C40. Checking select-all and then unchecking one row leaves the displayed count at the size
  of the previous selection joined with the table's ids, minus one (total - 1 when
  nothing outside the table was selected).\<close>

theorem select_all_then_deselect:
  assumes "distinct (selected st)" and "i < length (checks st)"
  shows "count_text (click_row i (select_all_change True st))
           = card (set (selected st) \<union> set (map fst (checks st))) - 1"
proof -
  let ?a = "select_all_change True st"
  obtain pid c where row: "checks st ! i = (pid, c)" by fastforce
  have a: "distinct (selected ?a)" "set (selected ?a) = set (selected st) \<union> set (map fst (checks st))"
     "checks ?a = map (\<lambda>(pid, _). (pid, True)) (checks st)"
    using select_all_true_selected [OF assms(1)] by simp_all
  have ai: "checks ?a ! i = (pid, True)" and len: "i < length (checks ?a)"
    using a(3) assms(2) row by simp_all
  have mem: "pid \<in> set (selected ?a)"
    using a(2) assms(2) row by (force simp: in_set_conv_nth)
  have "selected (click_row i ?a) = js_set_delete pid (selected ?a)"
    using ai len by (simp add: click_row_def selected_toggle)
  moreover have "count_text (click_row i ?a) = length (selected (click_row i ?a))"
    using ai len by (simp add: click_row_def togglePaymentSelection_def updateSelectedPaymentsCount_def)
  ultimately have "count_text (click_row i ?a) = card (set (selected ?a) - {pid})"
    using a(1) by (simp add: js_simps distinct_card [symmetric])
  with a(2) mem show ?thesis by simp
qed

theorem toggle_select_deselect:
  assumes "pid \<notin> set (selected st)"
  shows "selected (togglePaymentSelection pid False (togglePaymentSelection pid True st)) = selected st
         \<and> count_text (togglePaymentSelection pid False (togglePaymentSelection pid True st))
             = length (selected st)"
  using assms
  by (simp add: togglePaymentSelection_def updateSelectedPaymentsCount_def js_set_add_def
                js_set_delete_def)

text \<open>C3. A confirmed bulk payment of a nonempty selection sends one PUT per selected id in
  selection order, reports as successes exactly the requests fulfilled with an ok
  response and all others as failures, clears the selection and the select-all box, and
  reloads regardless of failures.\<close>

theorem markSelectedAsPaid_summary:
  assumes "selected st \<noteq> []" and "markSelectedAsPaid True out st = (st', b)"
  shows "bo_alert b = Some (BulkSummary (length (filter (\<lambda>pid. out pid = Fulfilled True) (selected st)))
                                      (length (filter (\<lambda>pid. out pid \<noteq> Fulfilled True) (selected st))))
         \<and> bo_requests b = selected st \<and> bo_reload b \<and> selected st' = [] \<and> \<not> select_all st'"
  using assms
  by (auto simp: markSelectedAsPaid_def count_results_eq settled_ok_def filter_map comp_def Let_def)

theorem markSelectedAsPaid_guard:
  assumes "selected st = [] \<or> \<not> confirmed"
  shows "markSelectedAsPaid confirmed out st
           = (st, \<lparr>bo_alert = (if selected st = [] then Some NothingSelected else None),
                   bo_requests = [], bo_reload = False\<rparr>)"
  using assms by (auto simp: markSelectedAsPaid_def)

theorem stale_selected_count:
  "\<exists>es. footer (pay_run pay_init es)
        \<and> count_text (pay_run pay_init es) \<noteq> length (selected (pay_run pay_init es))"
proof -
  let ?p = "\<lparr>p_id = ''p1'', p_student = None, p_class = None, p_month = ''2024-01'', p_amount = 3000,
             p_method = ''cash'', p_status = ''pending'', p_paymentDate = None\<rparr>"
  let ?es = "[Render [?p], ClickRow 0, MarkPaid True (\<lambda>_. Fulfilled True) None]"
  have "footer (pay_run pay_init ?es)" and "count_text (pay_run pay_init ?es) = 1"
    and "selected (pay_run pay_init ?es) = []"
    by (simp_all add: pay_init_def renderPayments_def click_row_def togglePaymentSelection_def
                      updateSelectedPaymentsCount_def markSelectedAsPaid_def js_set_add_def)
  then show ?thesis by (intro exI [of _ ?es]) simp
qed

theorem method_name_fallback:
  assumes "m \<notin> set (map fst payment_methods)" and "m \<notin> set proto_methods" and "m \<noteq> ''__proto__''"
  shows "getPaymentMethodName m = m"
proof -
  from assms(1) have "map_of payment_methods m = None" by (simp add: map_of_eq_None_iff)
  with assms(2,3) show ?thesis by (simp add: getPaymentMethodName_def lookup_or_def js_get_def)
qed

end
