(* ===== verification/CommissionPay.thy ===== *)
theory CommissionPay
  imports Commissions Payments
begin

text \<open>
  The commission bulk actions of \<open>accouning.js\<close>, each a sequential loop of awaited
  requests: \<open>payAllTeacherCommissions\<close> (lines 1533--1594), which pays the pending
  commissions of a teacher one \<open>POST /pay-single\<close> at a time, and
  \<open>calculateAllCommissions\<close> (1596--1684), which creates one commission per paid
  payment and then marks the payment as recorded. Each request's settlement is an
  argument (a function of the record it is about); the model returns the requests in
  the order they are sent, the alert and whether the lists are reloaded.
\<close>

section \<open>Paying all commissions of a teacher\<close>

text \<open>
  The handler asks \<open>confirm\<close>, then reads the pending commissions with
  \<open>TeacherCommission.find(...)\<close>: a server-side model name that no script of the page
  defines. \<open>tc_find\<close> is that binding: \<open>None\<close> in the browser, where the read raises a
  \<open>ReferenceError\<close> caught by the handler's \<open>catch\<close>; \<open>Some f\<close> models a page where it
  would exist. The loop adds each commission's amount to \<open>totalAmount\<close> before its
  request, awaits the request (a rejection leaves the loop for the \<open>catch\<close>), and on
  \<open>response.ok\<close> pushes \<open>{student: commission.student.name, ...}\<close>, an unguarded read.
\<close>

datatype pay_all_alert = NoPendingCommissions | PaidSummary nat amount | PayAllFailed

record pay_all_out =
  pa_alert :: "pay_all_alert option"
  pa_requests :: "js_id list"
  pa_reload :: bool

fun pay_all_loop :: "(js_id \<Rightarrow> settled) \<Rightarrow> commission list \<Rightarrow> amount \<times> nat \<times> js_id list
                       \<Rightarrow> js_id list + (amount \<times> nat \<times> js_id list)" where
  "pay_all_loop out [] acc = Inr acc"
| "pay_all_loop out (c # cs) (tot, n, reqs) =
     (let tot' = tot + cm_amount c; reqs' = reqs @ [cm_id c] in
      case out (cm_id c) of
        Rejected \<Rightarrow> Inl reqs'
      | Fulfilled ok \<Rightarrow>
          if ok then (if cm_student c = None then Inl reqs'
                      else pay_all_loop out cs (tot', Suc n, reqs'))
          else pay_all_loop out cs (tot', n, reqs'))"

definition payAllTeacherCommissions ::
  "bool \<Rightarrow> (js_id \<Rightarrow> js_id option \<Rightarrow> commission list) option \<Rightarrow> (js_id \<Rightarrow> settled)
     \<Rightarrow> js_id \<Rightarrow> js_id option \<Rightarrow> pay_all_out" where
  "payAllTeacherCommissions confirmed tc_find out tid cid =
     (if \<not> confirmed then \<lparr>pa_alert = None, pa_requests = [], pa_reload = False\<rparr>
      else case tc_find of
        None \<Rightarrow> \<lparr>pa_alert = Some PayAllFailed, pa_requests = [], pa_reload = False\<rparr>
      | Some find_pending \<Rightarrow>
          (let cs = find_pending tid cid in
           if cs = [] then \<lparr>pa_alert = Some NoPendingCommissions, pa_requests = [], pa_reload = False\<rparr>
           else case pay_all_loop out cs (0, 0, []) of
             Inl reqs \<Rightarrow> \<lparr>pa_alert = Some PayAllFailed, pa_requests = reqs, pa_reload = False\<rparr>
           | Inr (tot, n, reqs) \<Rightarrow>
               \<lparr>pa_alert = Some (PaidSummary n tot), pa_requests = reqs, pa_reload = True\<rparr>))"

section \<open>Calculating commissions from paid payments\<close>

text \<open>
  The payments come from \<open>GET /payments?status=paid&commissionRecorded=false\<close> with
  the class populated with its teacher. For each payment with a class and a teacher the
  loop computes \<open>percentage = teacher.salaryPercentage || 70\<close> (so a missing or zero
  percentage becomes 70) and \<open>amount = payment.amount * (percentage / 100)\<close>, builds the
  body (reading \<open>payment.student._id\<close> unguarded), awaits the \<open>POST\<close> of the commission
  and, when it is ok, awaits the \<open>PUT\<close> that sets \<open>commissionRecorded\<close>, ignoring its
  status, and counts the payment as processed. A thrown error (a rejected request or the
  \<open>TypeError\<close>) counts as an error; a non-ok \<open>POST\<close> too; a payment without class or
  teacher is skipped and counted in neither.
\<close>

record calc_teacher =
  ct_id :: js_id
  ct_salaryPercentage :: "amount option"

record calc_class =
  cc_id :: js_id
  cc_teacher :: "calc_teacher option"

record calc_payment =
  cp_id :: js_id
  cp_student :: "ref option"
  cp_class :: "calc_class option"
  cp_month :: string
  cp_amount :: amount

datatype calc_request =
    PostCommission js_id js_id js_id string amount amount
  | PutRecorded js_id

definition commission_percentage :: "calc_teacher \<Rightarrow> amount" where
  "commission_percentage t =
     (case ct_salaryPercentage t of None \<Rightarrow> 70 | Some p \<Rightarrow> if p = 0 then 70 else p)"

record calc_acc =
  ca_processed :: nat
  ca_errors :: nat
  ca_requests :: "calc_request list"

text \<open>One iteration of the \<open>for ... of\<close> loop with its inner \<open>try\<close>.\<close>

definition calc_one :: "(js_id \<Rightarrow> settled) \<Rightarrow> (js_id \<Rightarrow> settled) \<Rightarrow> calc_payment \<Rightarrow> calc_acc \<Rightarrow> calc_acc" where
  "calc_one post put p acc =
     (case cp_class p of None \<Rightarrow> acc | Some k \<Rightarrow>
      (case cc_teacher k of None \<Rightarrow> acc | Some t \<Rightarrow>
       (case cp_student p of None \<Rightarrow> acc\<lparr>ca_errors := Suc (ca_errors acc)\<rparr> | Some s \<Rightarrow>
        (let pct = commission_percentage t;
             req = PostCommission (ct_id t) (ref_id s) (cc_id k) (cp_month p) (cp_amount p * (pct / 100)) pct;
             acc1 = acc\<lparr>ca_requests := ca_requests acc @ [req]\<rparr>;
             acc2 = acc1\<lparr>ca_requests := ca_requests acc1 @ [PutRecorded (cp_id p)]\<rparr>
         in (case post (cp_id p) of
               Rejected \<Rightarrow> acc1\<lparr>ca_errors := Suc (ca_errors acc1)\<rparr>
             | Fulfilled posted \<Rightarrow>
                 (if \<not> posted then acc1\<lparr>ca_errors := Suc (ca_errors acc1)\<rparr>
                  else (case put (cp_id p) of
                          Rejected \<Rightarrow> acc2\<lparr>ca_errors := Suc (ca_errors acc2)\<rparr>
                        | Fulfilled _ \<Rightarrow> acc2\<lparr>ca_processed := Suc (ca_processed acc2)\<rparr>)))))))"

datatype calc_alert = NoNewPayments | CalcSummary nat nat | CalcFailed

record calc_out =
  co_alert :: "calc_alert option"
  co_requests :: "calc_request list"
  co_reload :: bool

text \<open>
  \<open>fetched\<close> is the first request: \<open>None\<close> when it rejects (the outer \<open>catch\<close>
  alerts), \<open>Some None\<close> when the response is not ok (nothing happens), \<open>Some (Some ps)\<close>
  with the payments otherwise.
\<close>

definition calculateAllCommissions ::
  "bool \<Rightarrow> calc_payment list option option \<Rightarrow> (js_id \<Rightarrow> settled) \<Rightarrow> (js_id \<Rightarrow> settled) \<Rightarrow> calc_out" where
  "calculateAllCommissions confirmed fetched post put =
     (if \<not> confirmed then \<lparr>co_alert = None, co_requests = [], co_reload = False\<rparr>
      else case fetched of
        None \<Rightarrow> \<lparr>co_alert = Some CalcFailed, co_requests = [], co_reload = False\<rparr>
      | Some None \<Rightarrow> \<lparr>co_alert = None, co_requests = [], co_reload = False\<rparr>
      | Some (Some []) \<Rightarrow> \<lparr>co_alert = Some NoNewPayments, co_requests = [], co_reload = False\<rparr>
      | Some (Some ps) \<Rightarrow>
          (let acc = fold (calc_one post put) ps \<lparr>ca_processed = 0, ca_errors = 0, ca_requests = []\<rparr>
           in \<lparr>co_alert = Some (CalcSummary (ca_processed acc) (ca_errors acc)),
               co_requests = ca_requests acc, co_reload = True\<rparr>))"

text \<open>The payments the loop does not skip.\<close>

definition has_teacher :: "calc_payment \<Rightarrow> bool" where
  "has_teacher p \<longleftrightarrow> (\<exists>k t. cp_class p = Some k \<and> cc_teacher k = Some t)"

section \<open>Properties\<close>

lemma pay_all_loop_Inr:
  assumes "\<forall>c \<in> set cs. out (cm_id c) \<noteq> Rejected \<and> (out (cm_id c) = Fulfilled True \<longrightarrow> cm_student c \<noteq> None)"
  shows "pay_all_loop out cs (t, n, r)
           = Inr (t + sum_amounts cs, n + length (filter (\<lambda>c. out (cm_id c) = Fulfilled True) cs),
                  r @ map cm_id cs)"
  using assms
proof (induction cs arbitrary: t n r)
  case (Cons c cs)
  then obtain ok where ok: "out (cm_id c) = Fulfilled ok" by (cases "out (cm_id c)") auto
  with Cons show ?case
    by (cases ok) (auto simp: sum_amounts_sum_list algebra_simps)
qed (simp add: sum_amounts_sum_list)

theorem pay_all_reports_attempted_total:
  assumes "\<forall>c \<in> set cs. out (cm_id c) \<noteq> Rejected \<and> (out (cm_id c) = Fulfilled True \<longrightarrow> cm_student c \<noteq> None)"
  shows "pay_all_loop out cs (0, 0, [])
           = Inr (sum_amounts cs, length (filter (\<lambda>c. out (cm_id c) = Fulfilled True) cs), map cm_id cs)"
  using pay_all_loop_Inr [OF assms, of 0 0 "[]"] by simp

theorem pay_all_stops_at_rejection:
  assumes "out (cm_id c) = Rejected"
    and "\<forall>x \<in> set pre. out (cm_id x) = Fulfilled False \<or> (out (cm_id x) = Fulfilled True \<and> cm_student x \<noteq> None)"
  shows "pay_all_loop out (pre @ c # post) (0, 0, []) = Inl (map cm_id (pre @ [c]))"
proof -
  have "\<And>t n r. pay_all_loop out (pre @ c # post) (t, n, r) = Inl (r @ map cm_id (pre @ [c]))"
    using assms(2)
  proof (induction pre)
    case Nil
    with assms(1) show ?case by simp
  next
    case (Cons x pre)
    then show ?case by (auto simp: Let_def)
  qed
  then show ?thesis by simp
qed

lemma calc_one_counts:
  "ca_processed (calc_one post put p acc) + ca_errors (calc_one post put p acc)
     = ca_processed acc + ca_errors acc + (if has_teacher p then 1 else 0)"
  by (auto simp: calc_one_def has_teacher_def Let_def split: option.splits settled.splits)

lemma fold_calc_counts:
  "ca_processed (fold (calc_one post put) ps acc) + ca_errors (fold (calc_one post put) ps acc)
     = ca_processed acc + ca_errors acc + length (filter has_teacher ps)"
  by (induction ps arbitrary: acc) (simp_all add: calc_one_counts)

theorem calc_counts_only_teacher_payments:
  assumes "ps \<noteq> []"
    and "co_alert (calculateAllCommissions True (Some (Some ps)) post put) = Some (CalcSummary np ne)"
  shows "np + ne = length (filter has_teacher ps)"
proof -
  have "calculateAllCommissions True (Some (Some ps)) post put
          = (let acc = fold (calc_one post put) ps \<lparr>ca_processed = 0, ca_errors = 0, ca_requests = []\<rparr>
             in \<lparr>co_alert = Some (CalcSummary (ca_processed acc) (ca_errors acc)),
                 co_requests = ca_requests acc, co_reload = True\<rparr>)"
    using assms(1) by (cases ps) (simp_all add: calculateAllCommissions_def)
  with assms(2) fold_calc_counts [of post put ps "\<lparr>ca_processed = 0, ca_errors = 0, ca_requests = []\<rparr>"]
  show ?thesis by (simp add: Let_def)
qed

lemma calc_one_requests:
  "r \<in> set (ca_requests (calc_one post put p acc)) \<Longrightarrow> r \<in> set (ca_requests acc)
     \<or> (\<exists>k t s pct. cp_class p = Some k \<and> cc_teacher k = Some t \<and> cp_student p = Some s
          \<and> pct = commission_percentage t
          \<and> r = PostCommission (ct_id t) (ref_id s) (cc_id k) (cp_month p) (cp_amount p * (pct / 100)) pct)
     \<or> r = PutRecorded (cp_id p)"
  by (auto simp: calc_one_def Let_def split: option.splits settled.splits if_splits)

lemma fold_calc_requests:
  "r \<in> set (ca_requests (fold (calc_one post put) ps acc)) \<Longrightarrow> r \<in> set (ca_requests acc)
     \<or> (\<exists>p \<in> set ps. (\<exists>k t s pct. cp_class p = Some k \<and> cc_teacher k = Some t \<and> cp_student p = Some s
          \<and> pct = commission_percentage t
          \<and> r = PostCommission (ct_id t) (ref_id s) (cc_id k) (cp_month p) (cp_amount p * (pct / 100)) pct)
        \<or> r = PutRecorded (cp_id p))"
proof (induction ps arbitrary: acc)
  case (Cons p ps)
  from Cons.IH [OF Cons.prems[simplified]] show ?case
    by (auto dest: calc_one_requests)
qed simp

text \<open>C13. Every commission calculateAllCommissions posts belongs to a fetched payment with a
  teacher and has amount payment.amount * percentage / 100, where percentage is the
  teacher's salaryPercentage, or 70 when it is missing or zero.\<close>

theorem calc_commission_amount:
  assumes "PostCommission tid sid kid m a pct \<in> set (co_requests (calculateAllCommissions True (Some (Some ps)) post put))"
  shows "\<exists>p \<in> set ps. \<exists>k t. cp_class p = Some k \<and> cc_teacher k = Some t \<and> tid = ct_id t
           \<and> pct = commission_percentage t \<and> a = cp_amount p * (pct / 100)"
proof -
  have ne: "ps \<noteq> []" using assms by (auto simp: calculateAllCommissions_def)
  then have "PostCommission tid sid kid m a pct
               \<in> set (ca_requests (fold (calc_one post put) ps \<lparr>ca_processed = 0, ca_errors = 0, ca_requests = []\<rparr>))"
    using assms by (cases ps) (simp_all add: calculateAllCommissions_def Let_def)
  then show ?thesis by (fastforce dest: fold_calc_requests)
qed

theorem zero_percentage_becomes_70:
  "ct_salaryPercentage t = Some 0 \<Longrightarrow> commission_percentage t = 70"
  by (simp add: commission_percentage_def)

text \<open>C39. If the commission POST for a payment succeeds but the PUT marking the payment as
  recorded rejects, the payment is reported as an error although its commission was
  created.\<close>

theorem calc_recorded_failure_counted_as_error:
  assumes "cp_class p = Some k" and "cc_teacher k = Some t" and "cp_student p = Some s"
    and "post (cp_id p) = Fulfilled True" and "put (cp_id p) = Rejected"
  shows "calculateAllCommissions True (Some (Some [p])) post put
           = \<lparr>co_alert = Some (CalcSummary 0 1),
              co_requests = [PostCommission (ct_id t) (ref_id s) (cc_id k) (cp_month p)
                               (cp_amount p * (commission_percentage t / 100)) (commission_percentage t),
                             PutRecorded (cp_id p)],
              co_reload = True\<rparr>"
  using assms by (simp add: calculateAllCommissions_def calc_one_def Let_def)

end
