(* ===== verification/Router.thy ===== *)
theory Router
  imports Prelude
begin

text \<open>
  The section router of \<open>accouning.js\<close>: \<open>showSection\<close> (lines 189--224) and the
  click handler that \<open>setupEventListeners\<close> puts on every \<open>.nav-link\<close> (lines
  63--73). The document is modelled by the ids of its \<open>.section\<close> elements (in
  document order), the ids of all its elements, and the set of element ids that carry
  the class \<open>active\<close>. Entering a section starts that section's loader; the loader is
  returned as a value of \<open>load\<close>, and what it does is modelled by the component it
  belongs to.
\<close>

datatype load =
    LoadDashboardData | LoadPayments | LoadExpenses | LoadReports | LoadTeacherCommissions
  | LoadInvoices | LoadSettings

record dom_sections =
  section_ids :: "string list"
  element_ids :: "string set"
  active :: "string set"
  nav_links :: "string list"
  active_nav :: "nat option"

text \<open>
  The \<open>switch (sectionId)\<close> in the order of its cases; the second
  \<open>case 'expenses'\<close> (line 219) repeats the third and is never reached.
\<close>

definition load_of :: "string \<Rightarrow> load option" where
  "load_of sid =
     (if sid = ''dashboard'' then Some LoadDashboardData
      else if sid = ''payments'' then Some LoadPayments
      else if sid = ''expenses'' then Some LoadExpenses
      else if sid = ''reports'' then Some LoadReports
      else if sid = ''teachers'' then Some LoadTeacherCommissions
      else if sid = ''invoices'' then Some LoadInvoices
      else if sid = ''settings'' then Some LoadSettings
      else if sid = ''expenses'' then Some LoadExpenses
      else None)"

text \<open>
  \<open>showSection(sectionId)\<close>: every \<open>.section\<close> loses \<open>active\<close>; the element with id
  \<open>sectionId + 'Section'\<close> gains it (a \<open>TypeError\<close> when there is none, raised after
  the classes were removed); then the loader of the section starts.
\<close>

definition showSection :: "string \<Rightarrow> dom_sections \<Rightarrow> dom_sections \<times> js_error option \<times> load list" where
  "showSection sid d =
     (let d1 = d\<lparr>active := active d - set (section_ids d)\<rparr>; target = sid @ ''Section'' in
      if target \<notin> element_ids d then (d1, Some (TypeError ''classList''), [])
      else (d1\<lparr>active := insert target (active d1)\<rparr>, None,
            (case load_of sid of None \<Rightarrow> [] | Some l \<Rightarrow> [l])))"

text \<open>
  The \<open>.nav-link\<close> click handler: \<open>showSection\<close> of the link's \<open>data-section\<close>, then
  \<open>active\<close> moves to the clicked link. A \<open>TypeError\<close> of \<open>showSection\<close> ends the
  handler before the link classes change.
\<close>

definition nav_click :: "nat \<Rightarrow> dom_sections \<Rightarrow> dom_sections \<times> js_error option \<times> load list" where
  "nav_click i d =
     (if i < length (nav_links d) then
        (case showSection (nav_links d ! i) d of
           (d', Some e, ls) \<Rightarrow> (d', Some e, ls)
         | (d', None, ls) \<Rightarrow> (d'\<lparr>active_nav := Some i\<rparr>, None, ls))
      else (d, None, []))"

definition visible_sections :: "dom_sections \<Rightarrow> string set" where
  "visible_sections d = active d \<inter> set (section_ids d)"


section \<open>Properties\<close>

lemma showSection_cases:
  "showSection sid d =
     (if sid @ ''Section'' \<notin> element_ids d
      then (d\<lparr>active := active d - set (section_ids d)\<rparr>, Some (TypeError ''classList''), [])
      else (d\<lparr>active := insert (sid @ ''Section'') (active d - set (section_ids d))\<rparr>, None,
            (case load_of sid of None \<Rightarrow> [] | Some l \<Rightarrow> [l])))"
  by (simp add: showSection_def Let_def)

theorem showSection_single_visible:
  assumes "sid @ ''Section'' \<in> set (section_ids d)" and "sid @ ''Section'' \<in> element_ids d"
  shows "visible_sections (fst (showSection sid d)) = {sid @ ''Section''}"
  using assms by (auto simp: showSection_cases visible_sections_def)

lemma insert_reinsert_diff: "insert a (insert a B - C) = insert a (B - C)"
  by auto

theorem showSection_idempotent:
  "showSection sid (fst (showSection sid d)) = showSection sid d"
  by (simp add: showSection_cases insert_reinsert_diff Diff_Diff_Int)

theorem showSection_missing_target:
  assumes "sid @ ''Section'' \<notin> element_ids d"
  shows "snd (showSection sid d) = (Some (TypeError ''classList''), [])
         \<and> visible_sections (fst (showSection sid d)) = {}"
  using assms by (auto simp: showSection_cases visible_sections_def)

lemma nav_click_repeat:
  assumes "i < length (nav_links d)" and "nav_links d ! i @ ''Section'' \<in> element_ids d"
  shows "nav_click i (fst (nav_click i d)) = nav_click i d"
  using assms by (simp add: nav_click_def showSection_cases insert_reinsert_diff Diff_Diff_Int)

theorem nav_click_loads:
  assumes "i < length (nav_links d)" and "nav_links d ! i @ ''Section'' \<in> element_ids d"
    and "load_of (nav_links d ! i) = Some l"
  shows "nav_click i d = ((fst (showSection (nav_links d ! i) d))\<lparr>active_nav := Some i\<rparr>, None, [l])"
  using assms by (simp add: nav_click_def showSection_cases)

end
