(* ===== verification/Session.thy ===== *)
theory Session
  imports Router
begin

text \<open>
  The session store of \<open>accouning.js\<close>: the globals \<open>authToken\<close> and \<open>currentUser\<close>
  (lines 2--3), their copies in \<open>localStorage\<close> under the keys \<open>authToken\<close> and
  \<open>user\<close>, the two screens (\<open>#loginSection\<close>, \<open>#appContainer\<close>), and the functions that
  move between them: \<open>initApp\<close> (31--52), \<open>setupEventListeners\<close> (55--107) as a
  registry of listeners, \<open>handleLogin\<close> (109--147), \<open>handleLogout\<close> (150--156),
  \<open>showLogin\<close> (159--162), \<open>showApp\<close> (166--173), \<open>getRoleName\<close> (177--185) and
  \<open>loadInitialData\<close> (249--256). \<open>localStorage.setItem\<close> stores \<open>String(v)\<close>, so a
  missing value is stored as the text \<open>"undefined"\<close>; the user object is stored by
  \<open>JSON.stringify\<close> and read back by \<open>JSON.parse\<close>, which gives the object back and
  raises a \<open>SyntaxError\<close> on the text \<open>"undefined"\<close>.
\<close>

section \<open>State\<close>

record user =
  u_username :: string
  u_fullName :: "string option"
  u_role :: string

datatype stored_user = UserJson user | UserText string

datatype screen = NoScreen | LoginScreen | AppScreen

datatype listener =
    OnLoginSubmit | OnLogoutClick | OnNavClick nat | OnModalClose | OnWindowClick
  | OnSelectAllChange | OnStudentFilterInput

datatype boot_task =
    BootLoad load | PopulateMonths | PopulateYears | PopulateClasses | PopulateTeachers
  | PopulateStudents | InitializeSettings

record session =
  authToken :: "string option"
  currentUser :: "user option"
  stored_token :: "string option"
  stored_user :: "stored_user option"
  screen :: screen
  userNameText :: string
  userRoleText :: string
  listeners :: "listener list"
  nav_count :: nat

section \<open>Operations\<close>

text \<open>\<open>getRoleName\<close>: \<open>roles[role] || role\<close> over the Arabic labels of the four roles.\<close>

definition roles :: "(string \<times> string) list" where
  "roles =
     [(''admin'', utf8 [217, 133, 216, 175, 217, 138, 216, 177, 32, 216, 167, 217, 132, 217, 134,
                       216, 184, 216, 167, 217, 133]),
      (''accountant'', utf8 [217, 133, 216, 173, 216, 167, 216, 179, 216, 168]),
      (''secretary'', utf8 [216, 179, 217, 131, 216, 177, 216, 170, 217, 138, 216, 177]),
      (''teacher'', utf8 [216, 163, 216, 179, 216, 170, 216, 167, 216, 176])]"

definition getRoleName :: "string \<Rightarrow> string" where
  "getRoleName r = lookup_or roles r"

definition showLogin :: "session \<Rightarrow> session" where
  "showLogin st = st\<lparr>screen := LoginScreen\<rparr>"

text \<open>
  \<open>showApp\<close> switches to the application screen (lines 167--168), then reads
  \<open>currentUser.fullName\<close>: without a user that read raises a \<open>TypeError\<close>, after the
  switch. The result is the state and the exception, if any.
\<close>

definition showApp :: "session \<Rightarrow> session \<times> js_error option" where
  "showApp st =
     (let st1 = st\<lparr>screen := AppScreen\<rparr> in
      case currentUser st of
        None \<Rightarrow> (st1, Some (TypeError ''fullName''))
      | Some u \<Rightarrow> (st1\<lparr>userNameText := js_or (u_fullName u) (u_username u),
                        userRoleText := getRoleName (u_role u)\<rparr>, None))"

definition loadInitialData :: "boot_task list" where
  "loadInitialData = [BootLoad LoadDashboardData, PopulateMonths, PopulateYears, PopulateClasses,
                      PopulateTeachers, PopulateStudents]"

text \<open>
  \<open>setupEventListeners\<close>: \<open>addEventListener\<close> ignores a listener that is already
  registered, which only happens for the named functions \<open>handleLogin\<close> and
  \<open>handleLogout\<close>; every other listener is a closure created by the call (one per
  \<open>.nav-link\<close>, the modal and window handlers, the select-all handler and
  \<open>debounce(loadPayments, 300)\<close>), a new function object each time.
\<close>

definition setupEventListeners :: "session \<Rightarrow> session" where
  "setupEventListeners st =
     st\<lparr>listeners := js_set_add OnLogoutClick (js_set_add OnLoginSubmit (listeners st))
                    @ map OnNavClick [0..<nav_count st]
                    @ [OnModalClose, OnWindowClick, OnSelectAllChange, OnStudentFilterInput]\<rparr>"

text \<open>
  The login request's outcome: the \<open>fetch\<close> rejects, or a response with its \<open>ok\<close> flag
  and its body (\<open>None\<close> when \<open>response.json()\<close> fails). The body's fields are
  \<open>undefined\<close> when absent.
\<close>

record login_body =
  lb_token :: "string option"
  lb_user :: "user option"
  lb_error :: "string option"

datatype login_response = LoginRejected | LoginReply bool "login_body option"

datatype session_alert = LoginFailed string | ConnectionFailed

definition js_string :: "string option \<Rightarrow> string" where
  "js_string v = (case v of None \<Rightarrow> ''undefined'' | Some s \<Rightarrow> s)"

text \<open>
  \<open>handleLogin\<close>: on an ok response it sets both globals, writes both keys, calls
  \<open>showApp\<close> and \<open>loadInitialData\<close>; any exception on the way (including one from
  \<open>showApp\<close>, after the writes) is caught and alerted as a connection error; a non-ok
  response alerts \<open>data.error\<close>.
\<close>

definition handleLogin :: "login_response \<Rightarrow> session \<Rightarrow> session \<times> session_alert option \<times> boot_task list" where
  "handleLogin resp st =
     (case resp of
        LoginRejected \<Rightarrow> (st, Some ConnectionFailed, [])
      | LoginReply ok None \<Rightarrow> (st, Some ConnectionFailed, [])
      | LoginReply ok (Some b) \<Rightarrow>
          if ok then
            (let st1 = st\<lparr>authToken := lb_token b, currentUser := lb_user b,
                          stored_token := Some (js_string (lb_token b)),
                          stored_user := Some (case lb_user b of Some u \<Rightarrow> UserJson u
                                                | None \<Rightarrow> UserText ''undefined'')\<rparr>
             in case showApp st1 of
                  (st2, Some _) \<Rightarrow> (st2, Some ConnectionFailed, [])
                | (st2, None) \<Rightarrow> (st2, None, loadInitialData))
          else (st, Some (LoginFailed (js_string (lb_error b))), []))"

definition handleLogout :: "session \<Rightarrow> session" where
  "handleLogout st =
     showLogin (st\<lparr>authToken := None, currentUser := None, stored_token := None, stored_user := None\<rparr>)"

text \<open>
  \<open>initApp\<close>: with both keys present and non-empty it restores the globals (parsing the
  user; a \<open>SyntaxError\<close> escapes and ends \<open>initApp\<close> before any listener is set up) and
  shows the app, otherwise the login screen; then it registers the listeners, starts
  \<open>loadInitialData\<close> when a token is set, and loads the settings.
\<close>

definition truthy :: "string option \<Rightarrow> bool" where
  "truthy v \<longleftrightarrow> v \<noteq> None \<and> v \<noteq> Some []"

definition parse_user :: "stored_user \<Rightarrow> js_error + user" where
  "parse_user v = (case v of UserJson u \<Rightarrow> Inr u | UserText s \<Rightarrow> Inl (SyntaxError s))"

definition user_truthy :: "stored_user option \<Rightarrow> bool" where
  "user_truthy v \<longleftrightarrow> v \<noteq> None \<and> v \<noteq> Some (UserText [])"

definition initApp :: "session \<Rightarrow> session \<times> js_error option \<times> boot_task list" where
  "initApp st =
     (let restored =
        (if truthy (stored_token st) \<and> user_truthy (stored_user st) then
           (let st0 = st\<lparr>authToken := stored_token st\<rparr> in
            case parse_user (the (stored_user st)) of
              Inl e \<Rightarrow> (st0, Some e)
            | Inr u \<Rightarrow> showApp (st0\<lparr>currentUser := Some u\<rparr>))
         else (showLogin st, None))
      in case restored of
           (st1, Some e) \<Rightarrow> (st1, Some e, [])
         | (st1, None) \<Rightarrow>
             (let st2 = setupEventListeners st1
              in (st2, None, (if truthy (authToken st2) then loadInitialData else []) @ [InitializeSettings])))"

text \<open>A fresh page keeps only \<open>localStorage\<close>.\<close>

definition fresh_page :: "nat \<Rightarrow> session \<Rightarrow> session" where
  "fresh_page n st =
     \<lparr>authToken = None, currentUser = None, stored_token = stored_token st,
      stored_user = stored_user st, screen = NoScreen, userNameText = [], userRoleText = [],
      listeners = [], nav_count = n\<rparr>"

text \<open>
  Loading the page: \<open>DOMContentLoaded\<close> has two listeners, \<open>initApp\<close> itself (line
  1906) and the anonymous handler of lines 2751--2773, which ends by calling
  \<open>initApp()\<close> again. An exception in the first does not stop the second.
\<close>

definition page_load :: "nat \<Rightarrow> session \<Rightarrow> session \<times> js_error option list \<times> boot_task list" where
  "page_load n st =
     (case initApp (fresh_page n st) of
        (st1, e1, t1) \<Rightarrow> (case initApp st1 of (st2, e2, t2) \<Rightarrow> (st2, [e1, e2], t1 @ t2)))"


section \<open>Properties\<close>

lemma initApp_keeps_storage:
  "stored_token (fst (initApp st)) = stored_token st \<and> stored_user (fst (initApp st)) = stored_user st
   \<and> nav_count (fst (initApp st)) = nav_count st"
  by (auto simp: initApp_def Let_def showLogin_def showApp_def setupEventListeners_def
           split: sum.split option.split prod.split)

lemma initApp_error:
  "fst (snd (initApp st)) =
     (if truthy (stored_token st) \<and> user_truthy (stored_user st)
      then (case parse_user (the (stored_user st)) of Inl e \<Rightarrow> Some e | Inr u \<Rightarrow> None) else None)"
  by (auto simp: initApp_def Let_def showApp_def split: sum.split option.split prod.split)

lemma initApp_listeners:
  "fst (snd (initApp st)) = None \<Longrightarrow> listeners (fst (initApp st)) = listeners (setupEventListeners st)"
  by (auto simp: initApp_def Let_def showLogin_def showApp_def setupEventListeners_def
           split: sum.split option.split prod.split if_splits)

lemma count_nav_links:
  "count (mset (map OnNavClick [0..<n])) l =
     (case l of OnNavClick i \<Rightarrow> if i < n then 1 else 0 | _ \<Rightarrow> 0)"
proof -
  have "distinct (map OnNavClick [0..<n])" by (simp add: distinct_map inj_on_def)
  then show ?thesis by (auto simp: distinct_count_atmost_1 split: listener.split)
qed

lemma page_load_listeners_list:
  assumes "fst (snd (initApp (fresh_page n st))) = None"
  shows "fst (snd (page_load n st)) = [None, None]
     \<and> listeners (fst (page_load n st)) =
         [OnLoginSubmit, OnLogoutClick] @ map OnNavClick [0..<n]
         @ [OnModalClose, OnWindowClick, OnSelectAllChange, OnStudentFilterInput]
         @ map OnNavClick [0..<n]
         @ [OnModalClose, OnWindowClick, OnSelectAllChange, OnStudentFilterInput]"
proof -
  obtain st1 e1 t1 where 1: "initApp (fresh_page n st) = (st1, e1, t1)" by (cases "initApp (fresh_page n st)") auto
  obtain st2 e2 t2 where 2: "initApp st1 = (st2, e2, t2)" by (cases "initApp st1") auto
  have e1: "e1 = None" using assms 1 by simp
  have k: "stored_token st1 = stored_token (fresh_page n st)" "stored_user st1 = stored_user (fresh_page n st)"
          "nav_count st1 = n"
    using initApp_keeps_storage[of "fresh_page n st"] 1 by (auto simp: fresh_page_def)
  have e2: "e2 = None" using assms 1 2 k initApp_error[of st1] initApp_error[of "fresh_page n st"]
    by (auto split: if_splits)
  have l1: "listeners st1 = listeners (setupEventListeners (fresh_page n st))"
    using initApp_listeners[of "fresh_page n st"] 1 e1 by simp
  have l2: "listeners st2 = listeners (setupEventListeners st1)"
    using initApp_listeners[of st1] 2 e2 by simp
  have pl: "page_load n st = (st2, [None, None], t1 @ t2)" using 1 2 e1 e2 by (simp add: page_load_def)
  show ?thesis
    using l1 l2 k by (simp add: pl setupEventListeners_def fresh_page_def js_set_add_def)
qed

text \<open>C5. A successful login reply with a token and a user sets both globals, writes both
  localStorage entries, shows the application with the user's name (fullName or
  username) and Arabic role label, and starts the initial loads.\<close>

theorem handleLogin_success:
  assumes "lb_token b = Some t" and "lb_user b = Some u"
  shows "handleLogin (LoginReply True (Some b)) st
           = (st\<lparr>authToken := Some t, currentUser := Some u, stored_token := Some t,
                 stored_user := Some (UserJson u), screen := AppScreen,
                 userNameText := js_or (u_fullName u) (u_username u),
                 userRoleText := getRoleName (u_role u)\<rparr>, None, loadInitialData)"
  using assms by (simp add: handleLogin_def showApp_def js_string_def)

text \<open>C6. After a successful login, reloading the page restores the same token and user from
  localStorage, shows the application, registers the listeners and starts the initial
  loads and the settings load.\<close>

theorem session_restored_after_reload:
  assumes "lb_token b = Some t" and "t \<noteq> []" and "lb_user b = Some u"
    and "handleLogin (LoginReply True (Some b)) st = (st', a, ts)"
  shows "initApp (fresh_page n st')
           = (setupEventListeners ((fresh_page n st')\<lparr>authToken := Some t, currentUser := Some u,
                screen := AppScreen, userNameText := js_or (u_fullName u) (u_username u),
                userRoleText := getRoleName (u_role u)\<rparr>),
              None, loadInitialData @ [InitializeSettings])"
  using assms
  by (auto simp: handleLogin_def showApp_def js_string_def initApp_def fresh_page_def truthy_def
                 user_truthy_def parse_user_def setupEventListeners_def Let_def)

theorem logout_then_reload_shows_login:
  "initApp (fresh_page n (handleLogout st))
     = (setupEventListeners (showLogin (fresh_page n (handleLogout st))), None, [InitializeSettings])"
  by (simp add: initApp_def handleLogout_def fresh_page_def truthy_def showLogin_def
                setupEventListeners_def Let_def)

text \<open>C35. An ok login reply without a user stores the text 'undefined' as the user, switches to
  the application screen before showApp throws, and alerts a connection error; the next
  page load then raises a SyntaxError in JSON.parse before any listener is registered.\<close>

theorem login_without_user_breaks_reload:
  assumes "lb_token b = Some t" and "t \<noteq> []" and "lb_user b = None"
    and "handleLogin (LoginReply True (Some b)) st = (st', a, ts)"
  shows "a = Some ConnectionFailed \<and> ts = [] \<and> stored_user st' = Some (UserText ''undefined'') \<and> screen st' = AppScreen
         \<and> initApp (fresh_page n st')
             = ((fresh_page n st')\<lparr>authToken := Some t\<rparr>, Some (SyntaxError ''undefined''), [])"
  using assms
  by (auto simp: handleLogin_def showApp_def js_string_def initApp_def fresh_page_def truthy_def
                 user_truthy_def parse_user_def Let_def)

text \<open>C31. An ok login reply with a user but no token shows the application with no token set, and
  stores the text 'undefined', which the next page load restores as the token.\<close>

theorem login_without_token_stores_undefined:
  assumes "lb_token b = None" and "lb_user b = Some u"
    and "handleLogin (LoginReply True (Some b)) st = (st', a, ts)"
  shows "a = None \<and> screen st' = AppScreen \<and> authToken st' = None
         \<and> authToken (fst (initApp (fresh_page n st'))) = Some ''undefined''
         \<and> screen (fst (initApp (fresh_page n st'))) = AppScreen"
  using assms
  by (auto simp: handleLogin_def showApp_def js_string_def initApp_def fresh_page_def truthy_def
                 user_truthy_def parse_user_def setupEventListeners_def Let_def)

text \<open>C8. Because initApp runs twice on page load, the named handleLogin and handleLogout
  listeners are registered once (addEventListener ignores duplicates) while every
  anonymous listener (each nav link, select-all, student search) is registered twice.\<close>

theorem page_load_listeners:
  assumes "fst (snd (initApp (fresh_page n st))) = None"
  shows "fst (snd (page_load n st)) = [None, None]
     \<and> count (mset (listeners (fst (page_load n st)))) OnLoginSubmit = 1
     \<and> count (mset (listeners (fst (page_load n st)))) OnLogoutClick = 1
     \<and> (\<forall>i<n. count (mset (listeners (fst (page_load n st)))) (OnNavClick i) = 2)
     \<and> count (mset (listeners (fst (page_load n st)))) OnSelectAllChange = 2
     \<and> count (mset (listeners (fst (page_load n st)))) OnStudentFilterInput = 2"
  using page_load_listeners_list[OF assms] by (simp add: count_nav_links del: mset_map)

end
