(* ===== verification/Query.thy ===== *)
theory Query
  imports Prelude
begin

text \<open>
  The request URLs that the list loaders of \<open>accouning.js\<close> build from their filter
  inputs: \<open>loadPayments\<close> (lines 640--657), \<open>loadExpenses\<close> (1049--1063),
  \<open>loadTeacherCommissions\<close> (1256--1268), \<open>loadInvoices\<close> (1757--1770), \<open>exportData\<close>
  (2201--2218) and \<open>generateReport\<close> (2323--2346). Each pushes \<open>key=value\<close> for every
  non-empty filter and joins with \<open>&\<close>; only \<open>exportData\<close> passes the values through
  \<open>encodeURIComponent\<close>. Strings are byte strings (UTF-8 for non-ASCII text), so
  \<open>encodeURIComponent\<close> is percent-encoding of every byte outside the unreserved set.
  The reading side, \<open>parse_query\<close>, is the server's query parser (outside this
  repository): the browser drops the fragment after \<open>#\<close>, the query after \<open>?\<close> is split
  at \<open>&\<close> and at the first \<open>=\<close>, \<open>+\<close> is read as a space and percent escapes are
  decoded, as Express's query parser and \<open>URLSearchParams\<close> do.
\<close>

section \<open>Strings\<close>

fun js_join :: "string \<Rightarrow> string list \<Rightarrow> string" where
  "js_join sep [] = []"
| "js_join sep [x] = x"
| "js_join sep (x # xs) = x @ sep @ js_join sep xs"

fun nat_str :: "nat \<Rightarrow> string" where
  "nat_str n = (if n < 10 then [char_of (48 + n)] else nat_str (n div 10) @ [char_of (48 + n mod 10)])"

declare nat_str.simps [simp del]

definition int_str :: "int \<Rightarrow> string" where
  "int_str i = (if i < 0 then CHR ''-'' # nat_str (nat (- i)) else nat_str (nat i))"

section \<open>encodeURIComponent\<close>

definition unreserved :: "char \<Rightarrow> bool" where
  "unreserved c \<longleftrightarrow>
     (let n = (of_char c :: nat) in
      (65 \<le> n \<and> n \<le> 90) \<or> (97 \<le> n \<and> n \<le> 122) \<or> (48 \<le> n \<and> n \<le> 57)
      \<or> c \<in> set ''-_.!~*'()'')"

definition hex_digit :: "nat \<Rightarrow> char" where
  "hex_digit n = (if n < 10 then char_of (48 + n) else char_of (55 + n))"

definition encodeURIComponent :: "string \<Rightarrow> string" where
  "encodeURIComponent s =
     concat (map (\<lambda>c. if unreserved c then [c]
                      else [CHR ''%'', hex_digit (of_char c div 16), hex_digit (of_char c mod 16)]) s)"

section \<open>Query strings\<close>

text \<open>\<open>if (v) queryParams.push(`k=${v}`)\<close>: an input's value is falsy only when empty.\<close>

definition query_param :: "string \<Rightarrow> string \<Rightarrow> string list" where
  "query_param k v = (if v = [] then [] else [k @ ''='' @ v])"

definition filter_params :: "(string \<times> string) list \<Rightarrow> string list" where
  "filter_params kvs = concat (map (\<lambda>(k, v). query_param k v) kvs)"

definition query_string :: "string list \<Rightarrow> string" where
  "query_string ps = (if ps = [] then [] else ''?'' @ js_join ''&'' ps)"

record payment_filters =
  pf_status :: string
  pf_month :: string
  pf_method :: string
  pf_class :: string
  pf_student :: string

definition loadPayments_url :: "int \<Rightarrow> int \<Rightarrow> payment_filters \<Rightarrow> string" where
  "loadPayments_url page limit f =
     ''/api/payments'' @ query_string
       ([''page='' @ int_str page, ''limit='' @ int_str limit]
        @ filter_params [(''status'', pf_status f), (''month'', pf_month f),
                         (''paymentMethod'', pf_method f), (''class'', pf_class f),
                         (''student'', pf_student f)])"

definition loadExpenses_url :: "string \<Rightarrow> string \<Rightarrow> string \<Rightarrow> string \<Rightarrow> string" where
  "loadExpenses_url ty cat sd ed =
     ''/api/accounting/expenses'' @ query_string
       (filter_params [(''type'', ty), (''category'', cat), (''startDate'', sd), (''endDate'', ed)])"

definition loadTeacherCommissions_url :: "string \<Rightarrow> string \<Rightarrow> string \<Rightarrow> string \<Rightarrow> string" where
  "loadTeacherCommissions_url t m st cl =
     ''/api/accounting/teacher-commissions-by-class'' @ query_string
       (filter_params [(''teacher'', t), (''month'', m), (''status'', st), (''class'', cl)])"

definition loadInvoices_url :: "string \<Rightarrow> string \<Rightarrow> string \<Rightarrow> string \<Rightarrow> string" where
  "loadInvoices_url ty st sd ed =
     ''/api/accounting/invoices'' @ query_string
       (filter_params [(''type'', ty), (''status'', st), (''startDate'', sd), (''endDate'', ed)])"

text \<open>
  \<open>exportData(endpoint, fileName, filters)\<close>: \<open>for (const key in filters)\<close> visits the
  keys in property order; truthy values are encoded.
\<close>

definition export_param :: "string \<times> string \<Rightarrow> string list" where
  "export_param kv = (case kv of (k, v) \<Rightarrow> if v = [] then [] else [k @ ''='' @ encodeURIComponent v])"

definition exportData_url :: "string \<Rightarrow> (string \<times> string) list \<Rightarrow> string" where
  "exportData_url endpoint filters =
     ''/api/'' @ endpoint @ query_string (concat (map export_param (obj_entries filters)))"

text \<open>
  \<open>generateReport\<close>: the endpoint of the selected report type; any other type leaves
  \<open>endpoint = ''\<close>, and \<open>fetch('')\<close> requests the page itself.
\<close>

definition generateReport_url :: "string \<Rightarrow> string \<Rightarrow> string \<Rightarrow> string" where
  "generateReport_url year month ty =
     (let q = query_string (query_param ''year'' year @ query_param ''month'' month) in
      if ty = ''financial'' then ''/api/accounting/reports/financial'' @ q
      else if ty = ''income'' then ''/api/accounting/reports/summary'' @ q
      else if ty = ''expense'' then ''/api/accounting/expense-report'' @ q
      else if ty = ''teacher'' then ''/api/accounting/reports/teacher-payments'' @ q
      else [])"

section \<open>The server's reading of a URL\<close>

definition is_hex :: "char \<Rightarrow> bool" where
  "is_hex c \<longleftrightarrow> is_digit c \<or> (65 \<le> (of_char c :: nat) \<and> (of_char c :: nat) \<le> 70)
                 \<or> (97 \<le> (of_char c :: nat) \<and> (of_char c :: nat) \<le> 102)"

definition hex_val :: "char \<Rightarrow> nat" where
  "hex_val c = (let n = of_char c in if n \<le> 57 then n - 48 else if n \<le> 70 then n - 55 else n - 87)"

fun decodeURIComponent :: "string \<Rightarrow> string" where
  "decodeURIComponent (c # a # b # r) =
     (if c = CHR ''%'' \<and> is_hex a \<and> is_hex b
      then char_of (16 * hex_val a + hex_val b) # decodeURIComponent r
      else c # decodeURIComponent (a # b # r))"
| "decodeURIComponent s = s"

fun split_on :: "char \<Rightarrow> string \<Rightarrow> string list" where
  "split_on d [] = [[]]"
| "split_on d (x # xs) =
     (if x = d then [] # split_on d xs
      else (case split_on d xs of w # ws \<Rightarrow> (x # w) # ws | [] \<Rightarrow> [[x]]))"

text \<open>The form decoding of a key or value: \<open>+\<close> is a space, then percent escapes.\<close>

definition form_decode :: "string \<Rightarrow> string" where
  "form_decode s = decodeURIComponent (map (\<lambda>c. if c = CHR ''+'' then CHR '' '' else c) s)"

definition parse_pair :: "string \<Rightarrow> string \<times> string" where
  "parse_pair s =
     (form_decode (takeWhile (\<lambda>c. c \<noteq> CHR ''='') s),
      form_decode (drop 1 (dropWhile (\<lambda>c. c \<noteq> CHR ''='') s)))"

definition parse_query :: "string \<Rightarrow> (string \<times> string) list" where
  "parse_query url =
     (case dropWhile (\<lambda>c. c \<noteq> CHR ''?'') (takeWhile (\<lambda>c. c \<noteq> CHR ''#'') url) of
        [] \<Rightarrow> []
      | _ # q \<Rightarrow> if q = [] then [] else map parse_pair (split_on CHR ''&'' q))"


text \<open>
  A value is left intact by the server's reading when it has no \<open>%\<close>, \<open>&\<close>,
  \<open>#\<close> or \<open>+\<close>; a key must also be non-empty and free of \<open>=\<close>.
\<close>

definition url_safe :: "string \<Rightarrow> bool" where
  "url_safe s \<longleftrightarrow> CHR ''%'' \<notin> set s \<and> CHR ''&'' \<notin> set s \<and> CHR ''#'' \<notin> set s \<and> CHR ''+'' \<notin> set s"

definition key_safe :: "string \<Rightarrow> bool" where
  "key_safe k \<longleftrightarrow> k \<noteq> [] \<and> url_safe k \<and> CHR ''='' \<notin> set k"


section \<open>Lemmas on strings, encoding and parsing\<close>

lemma split_on_free: "d \<notin> set w \<Longrightarrow> split_on d w = [w]"
  by (induction w) auto

lemma split_on_append_sep: "d \<notin> set w \<Longrightarrow> split_on d (w @ d # r) = w # split_on d r"
proof (induction w)
  case (Cons x w)
  then show ?case by (cases "split_on d (w @ d # r)") auto
qed simp

lemma split_on_join:
  "ws \<noteq> [] \<Longrightarrow> \<forall>w \<in> set ws. d \<notin> set w \<Longrightarrow> split_on d (js_join [d] ws) = ws"
proof (induction "[d]" ws rule: js_join.induct)
  case (3 x y ys)
  then show ?case by (simp add: split_on_append_sep)
qed (simp_all add: split_on_free)


lemma decode_plain: "CHR ''%'' \<notin> set s \<Longrightarrow> decodeURIComponent s = s"
  by (induction s rule: decodeURIComponent.induct) auto

lemma plus_space_id: "CHR ''+'' \<notin> set s \<Longrightarrow> map (\<lambda>c. if c = CHR ''+'' then CHR '' '' else c) s = s"
  by (induction s) auto

lemma form_decode_plain: "CHR ''%'' \<notin> set s \<Longrightarrow> CHR ''+'' \<notin> set s \<Longrightarrow> form_decode s = s"
  by (simp add: form_decode_def plus_space_id decode_plain)

lemma decode_Cons_plain:
  "c \<noteq> CHR ''%'' \<Longrightarrow> decodeURIComponent (c # r) = c # decodeURIComponent r"
  by (cases r rule: decodeURIComponent.cases) auto

lemma hex_digit_is_hex: "n < 16 \<Longrightarrow> is_hex (hex_digit n)"
  by (auto simp: hex_digit_def is_hex_def is_digit_def)

lemma hex_val_hex_digit: "n < 16 \<Longrightarrow> hex_val (hex_digit n) = n"
  by (auto simp: hex_digit_def hex_val_def)

lemma unreserved_not_pct: "unreserved c \<Longrightarrow> c \<noteq> CHR ''%''"
  by (auto simp: unreserved_def)

lemma decode_encode_char:
  "decodeURIComponent (encodeURIComponent [c] @ r) = c # decodeURIComponent r"
proof (cases "unreserved c")
  case True
  then show ?thesis
    by (simp add: encodeURIComponent_def unreserved_not_pct decode_Cons_plain)
next
  case False
  have lt: "of_char c div 16 < (16::nat)" "of_char c mod 16 < (16::nat)"
    using nat_of_char_less_256[of c] by (simp_all add: less_mult_imp_div_less)
  have "16 * (of_char c div 16) + of_char c mod 16 = (of_char c :: nat)" by simp
  then show ?thesis using False lt
    by (simp add: encodeURIComponent_def hex_digit_is_hex hex_val_hex_digit)
qed

lemma encodeURIComponent_Cons: "encodeURIComponent (c # s) = encodeURIComponent [c] @ encodeURIComponent s"
  by (simp add: encodeURIComponent_def)

lemma decode_encode: "decodeURIComponent (encodeURIComponent s) = s"
proof (induction s)
  case (Cons c s)
  then show ?case by (metis encodeURIComponent_Cons decode_encode_char)
qed (simp add: encodeURIComponent_def)

lemma set_js_join: "set (js_join sep ws) \<subseteq> \<Union> (set ` set ws) \<union> set sep"
  by (induction sep ws rule: js_join.induct) auto

lemma set_nat_str: "set (nat_str n) \<subseteq> {c. is_digit c}"
proof (induction n rule: nat_str.induct)
  case (1 n)
  have d: "m < 10 \<Longrightarrow> is_digit (char_of (48 + m))" for m :: nat
    by (simp add: is_digit_def)
  show ?case
    using 1 d[of n] d[of "n mod 10"] by (subst nat_str.simps) auto
qed

lemma digits_val_snoc: "digits_val (xs @ [c]) = 10 * digits_val xs + (of_char c - 48)"
  by (simp add: digits_val_def)

lemma digits_val_Nil: "digits_val [] = 0"
  by (simp add: digits_val_def)

lemma digits_val_nat_str: "digits_val (nat_str n) = n"
proof (induction n rule: nat_str.induct)
  case (1 n)
  show ?case
  proof (cases "n < 10")
    case True
    then show ?thesis by (subst nat_str.simps) (simp add: digits_val_def)
  next
    case False
    then have "digits_val (nat_str n) = 10 * (n div 10) + n mod 10"
      using 1 by (subst nat_str.simps) (simp add: digits_val_snoc)
    then show ?thesis by simp
  qed
qed

lemma nat_str_Cons: "\<exists>c cs. nat_str n = c # cs \<and> is_digit c"
proof -
  have "nat_str n \<noteq> []" by (subst nat_str.simps) simp
  then obtain c cs where "nat_str n = c # cs" by (cases "nat_str n") auto
  moreover have "is_digit c" using set_nat_str[of n] calculation by auto
  ultimately show ?thesis by blast
qed

lemma length_nat_str_small: "n < 10 \<Longrightarrow> length (nat_str n) = 1"
  by (subst nat_str.simps) simp

lemma length_nat_str_step: "10 \<le> n \<Longrightarrow> length (nat_str n) = Suc (length (nat_str (n div 10)))"
  by (subst nat_str.simps) simp

lemma digits_val_zero_Cons: "digits_val (CHR ''0'' # s) = digits_val s"
  by (simp add: digits_val_def)

lemma set_int_str: "set (int_str i) \<subseteq> insert (CHR ''-'') {c. is_digit c}"
proof -
  have "set (nat_str (nat (- i))) \<subseteq> {c. is_digit c}" "set (nat_str (nat i)) \<subseteq> {c. is_digit c}"
    by (rule set_nat_str)+
  then show ?thesis unfolding int_str_def by auto
qed

lemma set_encodeURIComponent:
  assumes "x \<in> set (encodeURIComponent s)"
  shows "unreserved x \<or> x = CHR ''%'' \<or> (\<exists>n<16. x = hex_digit n)"
proof -
  obtain c where c: "x \<in> set (if unreserved c then [c]
                          else [CHR ''%'', hex_digit (of_char c div 16), hex_digit (of_char c mod 16)])"
    using assms unfolding encodeURIComponent_def set_concat set_map by blast
  have lt: "of_char c div 16 < (16::nat)" "of_char c mod 16 < (16::nat)"
    using nat_of_char_less_256[of c] by (simp_all add: less_mult_imp_div_less)
  show ?thesis
  proof (cases "unreserved c")
    case True
    then show ?thesis using c by simp
  next
    case False
    then have "x = CHR ''%'' \<or> x = hex_digit (of_char c div 16) \<or> x = hex_digit (of_char c mod 16)"
      using c by simp
    then show ?thesis using lt by blast
  qed
qed

lemma of_char_hex_digit:
  "n < 16 \<Longrightarrow> (of_char (hex_digit n) :: nat) = (if n < 10 then 48 + n else 55 + n)"
  by (simp add: hex_digit_def)

lemma unreserved_code:
  "unreserved x \<Longrightarrow> (of_char x :: nat) \<notin> {35, 38, 43, 61}"
  by (auto simp: unreserved_def)

lemma encodeURIComponent_free:
  assumes "x \<in> set (encodeURIComponent s)"
  shows "x \<notin> {CHR ''&'', CHR ''#'', CHR ''='', CHR ''+''}"
proof -
  have "(of_char x :: nat) \<notin> {35, 38, 43, 61}"
    using set_encodeURIComponent[OF assms] unreserved_code
    by (auto simp: of_char_hex_digit split: if_splits)
  then show ?thesis by auto
qed

lemma parse_query_string:
  assumes "CHR ''?'' \<notin> set p" and "CHR ''#'' \<notin> set p"
    and "\<forall>w \<in> set ps. w \<noteq> [] \<and> CHR ''&'' \<notin> set w \<and> CHR ''#'' \<notin> set w"
  shows "parse_query (p @ query_string ps) = map parse_pair ps"
proof (cases "ps = []")
  case True
  have tw: "takeWhile (\<lambda>c. c \<noteq> CHR ''#'') p = p" using assms(2) by (auto simp: takeWhile_eq_all_conv)
  have dw: "dropWhile (\<lambda>c. c \<noteq> CHR ''?'') p = []" using assms(1) by (auto simp: dropWhile_eq_Nil_conv)
  show ?thesis using True
    by (simp add: parse_query_def query_string_def tw dw del: takeWhile_eq_all_conv dropWhile_eq_Nil_conv)
next
  case False
  let ?q = "js_join ''&'' ps"
  have nh: "CHR ''#'' \<notin> set ?q" using assms(3) set_js_join[of "''&''" ps] by auto
  have sp: "split_on CHR ''&'' ?q = ps" using split_on_join[of ps] False assms(3) by simp
  obtain x xs where ps: "ps = x # xs" using False by (cases ps) auto
  have ne: "?q \<noteq> []" using assms(3) unfolding ps by (cases xs) auto
  have tw: "takeWhile (\<lambda>c. c \<noteq> CHR ''#'') (p @ CHR ''?'' # ?q) = p @ CHR ''?'' # ?q"
    using assms(2) nh by (auto simp: takeWhile_eq_all_conv)
  have dw: "dropWhile (\<lambda>c. c \<noteq> CHR ''?'') (p @ CHR ''?'' # ?q) = CHR ''?'' # ?q"
    using assms(1) by (auto simp: dropWhile_append)
  show ?thesis using False sp ne
    by (simp add: parse_query_def query_string_def tw dw del: takeWhile_eq_all_conv)
qed

lemma form_decode_encode: "form_decode (encodeURIComponent s) = s"
proof -
  have "CHR ''+'' \<notin> set (encodeURIComponent s)" using encodeURIComponent_free[of "CHR ''+''" s] by auto
  then show ?thesis by (simp add: form_decode_def plus_space_id decode_encode)
qed

lemma parse_pair_kv:
  "CHR ''='' \<notin> set k \<Longrightarrow> parse_pair (k @ CHR ''='' # v) = (form_decode k, form_decode v)"
  by (simp add: parse_pair_def takeWhile_append dropWhile_append)

lemma filter_params_Cons:
  "filter_params ((k, v) # kvs) = query_param k v @ filter_params kvs"
  by (simp add: filter_params_def)

lemma parse_filter_params:
  "\<forall>(k, v) \<in> set kvs. key_safe k \<and> url_safe v \<Longrightarrow>
     map parse_pair (filter_params kvs) = filter (\<lambda>(k, v). v \<noteq> []) kvs"
proof (induction kvs)
  case (Cons kv kvs)
  obtain k v where kv: "kv = (k, v)" by (cases kv)
  have "key_safe k" "url_safe v" using Cons.prems kv by auto
  then have "map parse_pair [k @ ''='' @ v] = [(k, v)]"
    by (simp add: parse_pair_kv form_decode_plain key_safe_def url_safe_def)
  then show ?case using Cons kv by (simp add: filter_params_Cons query_param_def)
qed (simp add: filter_params_def)

lemma filter_params_safe:
  "\<forall>(k, v) \<in> set kvs. key_safe k \<and> url_safe v \<Longrightarrow>
     \<forall>w \<in> set (filter_params kvs). w \<noteq> [] \<and> CHR ''&'' \<notin> set w \<and> CHR ''#'' \<notin> set w"
proof (induction kvs)
  case (Cons kv kvs)
  obtain k v where kv: "kv = (k, v)" by (cases kv)
  have "key_safe k" "url_safe v" using Cons.prems kv by auto
  then have "\<forall>w \<in> set (query_param k v). w \<noteq> [] \<and> CHR ''&'' \<notin> set w \<and> CHR ''#'' \<notin> set w"
    by (simp add: query_param_def key_safe_def url_safe_def)
  then show ?case using Cons kv by (simp add: filter_params_Cons ball_Un)
qed (simp add: filter_params_def)

lemma int_str_safe: "url_safe (int_str i)"
  using set_int_str[of i] by (auto simp: url_safe_def is_digit_def)

lemma parse_encoded_params:
  "\<forall>(k, v) \<in> set kvs. key_safe k \<Longrightarrow>
     map parse_pair (concat (map export_param kvs)) = filter (\<lambda>(k, v). v \<noteq> []) kvs"
proof (induction kvs)
  case (Cons kv kvs)
  obtain k v where kv: "kv = (k, v)" by (cases kv)
  have "key_safe k" using Cons.prems kv by auto
  then have "map parse_pair (export_param (k, v)) = filter (\<lambda>(k, v). v \<noteq> []) [(k, v)]"
    by (simp add: export_param_def parse_pair_kv form_decode_plain form_decode_encode key_safe_def url_safe_def)
  then show ?case using Cons kv by simp
qed simp

lemma encoded_params_safe:
  "\<forall>(k, v) \<in> set kvs. key_safe k \<Longrightarrow>
     \<forall>w \<in> set (concat (map export_param kvs)). w \<noteq> [] \<and> CHR ''&'' \<notin> set w \<and> CHR ''#'' \<notin> set w"
proof (induction kvs)
  case (Cons kv kvs)
  obtain k v where kv: "kv = (k, v)" by (cases kv)
  have k: "key_safe k" using Cons.prems kv by auto
  have "CHR ''&'' \<notin> set (encodeURIComponent v)" "CHR ''#'' \<notin> set (encodeURIComponent v)"
    using encodeURIComponent_free[of "CHR ''&''" v] encodeURIComponent_free[of "CHR ''#''" v] by auto
  then have "\<forall>w \<in> set (export_param (k, v)). w \<noteq> [] \<and> CHR ''&'' \<notin> set w \<and> CHR ''#'' \<notin> set w"
    using k by (simp add: export_param_def key_safe_def url_safe_def)
  then show ?case using Cons kv by (simp add: ball_Un)
qed simp

lemma parse_filter_url:
  assumes "CHR ''?'' \<notin> set p" and "CHR ''#'' \<notin> set p"
    and "\<forall>(k, v) \<in> set kvs. key_safe k \<and> url_safe v"
  shows "parse_query (p @ query_string (filter_params kvs)) = filter (\<lambda>(k, v). v \<noteq> []) kvs"
proof -
  have "parse_query (p @ query_string (filter_params kvs)) = map parse_pair (filter_params kvs)"
    by (rule parse_query_string) (use assms filter_params_safe[OF assms(3)] in simp_all)
  then show ?thesis unfolding parse_filter_params[OF assms(3)] .
qed

lemma loadTeacherCommissions_url_parse:
  "list_all url_safe [a, b, c, d] \<Longrightarrow> parse_query (loadTeacherCommissions_url a b c d)
     = filter (\<lambda>(k, v). v \<noteq> []) [(''teacher'', a), (''month'', b), (''status'', c), (''class'', d)]"
  unfolding loadTeacherCommissions_url_def
  by (rule parse_filter_url) (simp_all add: key_safe_def url_safe_def)

section \<open>Properties of the request URLs\<close>

text \<open>C10. When no filter value contains '%', '&', '#' or '+', the payments request carries page
  and limit followed by exactly the non-empty filters, in the code's order.\<close>

theorem loadPayments_url_parse:
  assumes "url_safe (pf_status f)" "url_safe (pf_month f)" "url_safe (pf_method f)"
    "url_safe (pf_class f)" "url_safe (pf_student f)"
  shows "parse_query (loadPayments_url page limit f)
           = [(''page'', int_str page), (''limit'', int_str limit)]
             @ filter (\<lambda>(k, v). v \<noteq> [])
                 [(''status'', pf_status f), (''month'', pf_month f), (''paymentMethod'', pf_method f),
                  (''class'', pf_class f), (''student'', pf_student f)]"
proof -
  let ?kvs = "[(''status'', pf_status f), (''month'', pf_month f), (''paymentMethod'', pf_method f),
               (''class'', pf_class f), (''student'', pf_student f)]"
  have kv: "\<forall>(k, v) \<in> set ?kvs. key_safe k \<and> url_safe v"
    using assms by (simp add: key_safe_def url_safe_def)
  let ?pre = "[''page='' @ int_str page, ''limit='' @ int_str limit]"
  have pre: "map parse_pair ?pre = [(''page'', int_str page), (''limit'', int_str limit)]"
    using int_str_safe[of page] int_str_safe[of limit]
      parse_pair_kv[of "''page''" "int_str page"] parse_pair_kv[of "''limit''" "int_str limit"]
      form_decode_plain[of "''page''"] form_decode_plain[of "''limit''"]
      form_decode_plain[of "int_str page"] form_decode_plain[of "int_str limit"]
    by (simp add: url_safe_def)
  have w: "\<forall>w \<in> set (?pre @ filter_params ?kvs). w \<noteq> [] \<and> CHR ''&'' \<notin> set w \<and> CHR ''#'' \<notin> set w"
    using filter_params_safe[OF kv] int_str_safe[of page] int_str_safe[of limit]
    by (simp add: url_safe_def)
  have "parse_query (''/api/payments'' @ query_string (?pre @ filter_params ?kvs))
          = map parse_pair (?pre @ filter_params ?kvs)"
    by (rule parse_query_string) (use w in simp_all)
  then show ?thesis
    unfolding loadPayments_url_def map_append pre parse_filter_params[OF kv] .
qed

text \<open>C34. When the filter values contain no '%', '&', '#' or '+', the expense, teacher-commission
  and invoice list requests are read by the server as exactly their non-empty filters in
  the code's order.\<close>

theorem filter_loader_urls_parse:
  assumes "list_all url_safe [a, b, c, d]"
  shows "parse_query (loadExpenses_url a b c d)
           = filter (\<lambda>(k, v). v \<noteq> []) [(''type'', a), (''category'', b), (''startDate'', c), (''endDate'', d)]
     \<and> parse_query (loadTeacherCommissions_url a b c d)
           = filter (\<lambda>(k, v). v \<noteq> []) [(''teacher'', a), (''month'', b), (''status'', c), (''class'', d)]
     \<and> parse_query (loadInvoices_url a b c d)
           = filter (\<lambda>(k, v). v \<noteq> []) [(''type'', a), (''status'', b), (''startDate'', c), (''endDate'', d)]"
  unfolding loadExpenses_url_def loadTeacherCommissions_url_def loadInvoices_url_def
  by (intro conjI; rule parse_filter_url) (use assms in \<open>simp_all add: key_safe_def url_safe_def\<close>)

text \<open>C9. The query string exportData builds is read back by the server as exactly the non-empty
  filters in property order, whatever characters the values contain, because every value
  goes through encodeURIComponent.\<close>

theorem exportData_roundtrip:
  assumes "CHR ''?'' \<notin> set endpoint" and "CHR ''#'' \<notin> set endpoint"
    and "\<forall>(k, v) \<in> set filters. key_safe k"
  shows "parse_query (exportData_url endpoint filters) = filter (\<lambda>(k, v). v \<noteq> []) (obj_entries filters)"
proof -
  have kv: "\<forall>(k, v) \<in> set (obj_entries filters). key_safe k"
    using assms(3) by (simp add: set_obj_entries)
  have "parse_query ((''/api/'' @ endpoint) @ query_string (concat (map export_param (obj_entries filters))))
        = map parse_pair (concat (map export_param (obj_entries filters)))"
    by (rule parse_query_string) (use assms(1,2) encoded_params_safe[OF kv] in simp_all)
  then show ?thesis unfolding parse_encoded_params[OF kv] by (simp add: exportData_url_def)
qed

text \<open>C36. Because loadPayments does not encode filter values, a student search text can add
  parameters: some filter state with an empty status filter sends a request the server
  reads as status=paid.\<close>

theorem loadPayments_filter_injection:
  "\<exists>f. pf_status f = [] \<and> (''status'', ''paid'') \<in> set (parse_query (loadPayments_url page limit f))"
proof -
  let ?f = "\<lparr>pf_status = [], pf_month = [], pf_method = [], pf_class = [],
             pf_student = ''a&status=paid''\<rparr>"
  let ?ps = "[''page='' @ int_str page, ''limit='' @ int_str limit, ''student=a'', ''status=paid'']"
  have url: "loadPayments_url page limit ?f = ''/api/payments'' @ query_string ?ps"
    by (simp add: loadPayments_url_def filter_params_def query_param_def query_string_def)
  have "parse_query (''/api/payments'' @ query_string ?ps) = map parse_pair ?ps"
    by (rule parse_query_string) (use int_str_safe[of page] int_str_safe[of limit] in \<open>simp_all add: url_safe_def\<close>)
  moreover have "parse_pair ''status=paid'' = (''status'', ''paid'')"
    by (simp add: parse_pair_def form_decode_def)
  ultimately show ?thesis using url by (intro exI[of _ ?f]) simp
qed


end
