(* ===== verification/Pagination.thy ===== *)
theory Pagination
  imports Query
begin

text \<open>
  The list pages' client state of \<open>accouning.js\<close>: the pagination globals (lines
  7--13), the filter inputs of the payments and teacher-commission lists, and the
  handlers that change them: \<open>changePaymentsPage\<close> (836--846), \<open>clearPaymentFilters\<close>
  (849--858), the debounced \<open>input\<close> listener of \<open>#paymentStudentFilter\<close> (106),
  \<open>changeTeachersPage\<close> (1731--1742), \<open>clearTeacherFilters\<close> (1745--1751), and the
  \<open>totalPages\<close> update at the end of \<open>loadPayments\<close> (668--673). Each step returns the
  URLs it requests, built by the Query theory from the state at the time of the call.
  Reachable states are an inductive predicate; the invariants are proved by rule
  induction.
\<close>

section \<open>State\<close>

record teacher_filters =
  tf_teacher :: string
  tf_month :: string
  tf_status :: string
  tf_class :: string

record list_state =
  currentPaymentsPage :: int
  totalPaymentsPages :: int
  paymentsPerPage :: int
  currentTeachersPage :: int
  totalTeachersPages :: int
  teachersPerPage :: int
  pay_filters :: payment_filters
  teacher_filters :: teacher_filters

definition no_payment_filters :: payment_filters where
  "no_payment_filters = \<lparr>pf_status = [], pf_month = [], pf_method = [], pf_class = [], pf_student = []\<rparr>"

definition list_init :: list_state where
  "list_init =
     \<lparr>currentPaymentsPage = 1, totalPaymentsPages = 1, paymentsPerPage = 20,
      currentTeachersPage = 1, totalTeachersPages = 1, teachersPerPage = 10,
      pay_filters = no_payment_filters,
      teacher_filters = \<lparr>tf_teacher = [], tf_month = [], tf_status = [], tf_class = []\<rparr>\<rparr>"

section \<open>Requests\<close>

text \<open>\<open>loadPayments\<close> and \<open>loadTeacherCommissions\<close> read the globals and inputs when called.\<close>

definition loadPayments_req :: "list_state \<Rightarrow> string" where
  "loadPayments_req s = loadPayments_url (currentPaymentsPage s) (paymentsPerPage s) (pay_filters s)"

definition loadTeacherCommissions_req :: "list_state \<Rightarrow> string" where
  "loadTeacherCommissions_req s =
     (let f = teacher_filters s in
      loadTeacherCommissions_url (tf_teacher f) (tf_month f) (tf_status f) (tf_class f))"

section \<open>Handlers\<close>

definition changePaymentsPage :: "string \<Rightarrow> list_state \<Rightarrow> list_state \<times> string list" where
  "changePaymentsPage direction s =
     (if direction = ''next'' \<and> currentPaymentsPage s < totalPaymentsPages s then
        (let s' = s\<lparr>currentPaymentsPage := currentPaymentsPage s + 1\<rparr> in (s', [loadPayments_req s']))
      else if direction = ''prev'' \<and> currentPaymentsPage s > 1 then
        (let s' = s\<lparr>currentPaymentsPage := currentPaymentsPage s - 1\<rparr> in (s', [loadPayments_req s']))
      else (s, []))"

definition clearPaymentFilters :: "list_state \<Rightarrow> list_state \<times> string list" where
  "clearPaymentFilters s =
     (let s' = s\<lparr>pay_filters := no_payment_filters, currentPaymentsPage := 1\<rparr> in (s', [loadPayments_req s']))"

definition changeTeachersPage :: "string \<Rightarrow> list_state \<Rightarrow> list_state \<times> string list" where
  "changeTeachersPage direction s =
     (if direction = ''next'' \<and> currentTeachersPage s < totalTeachersPages s then
        (let s' = s\<lparr>currentTeachersPage := currentTeachersPage s + 1\<rparr> in (s', [loadTeacherCommissions_req s']))
      else if direction = ''prev'' \<and> currentTeachersPage s > 1 then
        (let s' = s\<lparr>currentTeachersPage := currentTeachersPage s - 1\<rparr> in (s', [loadTeacherCommissions_req s']))
      else (s, []))"

text \<open>\<open>clearTeacherFilters\<close> empties three of the four inputs that \<open>loadTeacherCommissions\<close> reads.\<close>

definition clearTeacherFilters :: "list_state \<Rightarrow> list_state \<times> string list" where
  "clearTeacherFilters s =
     (let s' = s\<lparr>teacher_filters := (teacher_filters s)\<lparr>tf_teacher := [], tf_month := [], tf_status := []\<rparr>,
                 currentTeachersPage := 1\<rparr>
      in (s', [loadTeacherCommissions_req s']))"

text \<open>
  The end of a successful \<open>loadPayments\<close>: \<open>if (data.totalPages)\<close> copies a truthy
  (non-zero) page count; \<open>None\<close> is a reply without one or a failed request.
\<close>

definition payments_loaded :: "int option \<Rightarrow> list_state \<Rightarrow> list_state" where
  "payments_loaded tp s =
     (case tp of Some n \<Rightarrow> if n \<noteq> 0 then s\<lparr>totalPaymentsPages := n\<rparr> else s | None \<Rightarrow> s)"

datatype pay_field = FStatus | FMonth | FMethod | FClass | FStudent

definition set_pay_field :: "pay_field \<Rightarrow> string \<Rightarrow> payment_filters \<Rightarrow> payment_filters" where
  "set_pay_field fld v f =
     (case fld of FStatus \<Rightarrow> f\<lparr>pf_status := v\<rparr> | FMonth \<Rightarrow> f\<lparr>pf_month := v\<rparr>
      | FMethod \<Rightarrow> f\<lparr>pf_method := v\<rparr> | FClass \<Rightarrow> f\<lparr>pf_class := v\<rparr> | FStudent \<Rightarrow> f\<lparr>pf_student := v\<rparr>)"

text \<open>
  Page events: the pager buttons, the clear buttons, editing a filter input, the
  debounced student search (which calls \<open>loadPayments\<close> with the page unchanged), any
  other call of a loader, and the arrival of a payments reply.
\<close>

datatype list_event =
    PaymentsPage string | TeachersPage string | ClearPayments | ClearTeachers
  | EditPayFilter pay_field string | EditTeacherFilter teacher_filters | StudentSearch string
  | ReloadPayments | ReloadTeachers | PaymentsLoaded "int option"

fun list_step :: "list_event \<Rightarrow> list_state \<Rightarrow> list_state \<times> string list" where
  "list_step (PaymentsPage d) s = changePaymentsPage d s"
| "list_step (TeachersPage d) s = changeTeachersPage d s"
| "list_step ClearPayments s = clearPaymentFilters s"
| "list_step ClearTeachers s = clearTeacherFilters s"
| "list_step (EditPayFilter fld v) s = (s\<lparr>pay_filters := set_pay_field fld v (pay_filters s)\<rparr>, [])"
| "list_step (EditTeacherFilter f) s = (s\<lparr>teacher_filters := f\<rparr>, [])"
| "list_step (StudentSearch v) s =
     (let s' = s\<lparr>pay_filters := (pay_filters s)\<lparr>pf_student := v\<rparr>\<rparr> in (s', [loadPayments_req s']))"
| "list_step ReloadPayments s = (s, [loadPayments_req s])"
| "list_step ReloadTeachers s = (s, [loadTeacherCommissions_req s])"
| "list_step (PaymentsLoaded tp) s = (payments_loaded tp s, [])"

inductive list_reach :: "list_state \<Rightarrow> bool" where
  init: "list_reach list_init"
| step: "list_reach s \<Longrightarrow> list_reach (fst (list_step e s))"

fun list_run :: "list_event list \<Rightarrow> list_state \<Rightarrow> list_state \<times> string list" where
  "list_run [] s = (s, [])"
| "list_run (e # es) s =
     (case list_step e s of (s1, r1) \<Rightarrow> (case list_run es s1 of (s2, r2) \<Rightarrow> (s2, r1 @ r2)))"

section \<open>Properties\<close>

lemmas list_step_defs = changePaymentsPage_def clearPaymentFilters_def changeTeachersPage_def
  clearTeacherFilters_def payments_loaded_def Let_def

lemma list_reach_invariant:
  "list_reach s \<Longrightarrow> 1 \<le> currentPaymentsPage s \<and> paymentsPerPage s = 20
     \<and> currentTeachersPage s = 1 \<and> totalTeachersPages s = 1"
proof (induction rule: list_reach.induct)
  case (step s e)
  then show ?case by (cases e) (auto simp: list_step_defs split: option.split)
qed (simp add: list_init_def)

lemma list_reach_run: "list_reach s \<Longrightarrow> list_reach (fst (list_run es s))"
proof (induction es arbitrary: s)
  case (Cons e es)
  then show ?case using list_reach.step[OF Cons.prems, of e]
    by (auto split: prod.split) (metis fst_conv)
qed simp

theorem teachers_pager_inert:
  "list_reach s \<Longrightarrow> currentTeachersPage s = 1 \<and> totalTeachersPages s = 1
                     \<and> list_step (TeachersPage d) s = (s, [])"
  using list_reach_invariant[of s] by (simp add: changeTeachersPage_def)

text \<open>C23. A pager click moves the payments page by at most one and keeps it within
  1..totalPaymentsPages when it started there.\<close>

theorem changePaymentsPage_bounds:
  "currentPaymentsPage s \<le> totalPaymentsPages s \<Longrightarrow> 1 \<le> currentPaymentsPage s \<Longrightarrow>
   s' = fst (changePaymentsPage d s) \<Longrightarrow>
   1 \<le> currentPaymentsPage s' \<and> currentPaymentsPage s' \<le> totalPaymentsPages s'
   \<and> \<bar>currentPaymentsPage s' - currentPaymentsPage s\<bar> \<le> 1"
  by (auto simp: changePaymentsPage_def Let_def)

theorem page_beyond_total:
  "\<exists>s. list_reach s \<and> totalPaymentsPages s < currentPaymentsPage s
       \<and> snd (list_step (StudentSearch ''Amina'') s) = [''/api/payments?page=3&limit=20&student=Amina'']"
proof -
  let ?es = "[PaymentsLoaded (Some 3), PaymentsPage ''next'', PaymentsPage ''next'', PaymentsLoaded (Some 1)]"
  have r: "list_reach (fst (list_run ?es list_init))" by (rule list_reach_run) (rule list_reach.init)
  have s: "fst (list_run ?es list_init) = list_init\<lparr>currentPaymentsPage := 3, totalPaymentsPages := 1\<rparr>"
    by (simp add: list_init_def list_step_defs)
  show ?thesis
    using r unfolding s
    by (intro exI[of _ "list_init\<lparr>currentPaymentsPage := 3, totalPaymentsPages := 1\<rparr>"])
       (simp add: list_init_def no_payment_filters_def loadPayments_req_def loadPayments_url_def
          int_str_def nat_str.simps char_of_def bit_simps filter_params_def query_param_def query_string_def)
qed

theorem clearPayments_request:
  "list_reach s \<Longrightarrow> snd (list_step ClearPayments s) = [''/api/payments?page=1&limit=20'']"
  using list_reach_invariant[of s]
  by (simp add: clearPaymentFilters_def Let_def loadPayments_req_def loadPayments_url_def no_payment_filters_def
      int_str_def nat_str.simps char_of_def bit_simps filter_params_def query_param_def query_string_def)

theorem clearTeachers_keeps_class:
  "url_safe c \<Longrightarrow> tf_class (teacher_filters s) = c \<Longrightarrow>
   map parse_query (snd (list_step ClearTeachers s)) = [filter (\<lambda>(k, v). v \<noteq> []) [(''class'', c)]]"
  using loadTeacherCommissions_url_parse[of "[]" "[]" "[]" c]
  by (simp add: clearTeacherFilters_def Let_def loadTeacherCommissions_req_def url_safe_def)


end
