(* ===== verification/Settings.thy ===== *)
theory Settings
  imports Prelude
begin

text \<open>
  The settings page of \<open>accouning.js\<close>: \<open>loadSettings\<close> (lines 2714--2727) fills the
  eight inputs from the \<open>accountingSettings\<close> entry of \<open>localStorage\<close>, each with
  \<open>settings.f || default\<close>, and \<open>saveSettings\<close> (2730--2744) stores the eight input
  values as a JSON object. Input values are strings, so a stored field is falsy only
  when it is empty. The entry is only ever written by \<open>saveSettings\<close>, so it is either
  absent or the JSON text of such an object, which \<open>JSON.parse\<close> reads back unchanged.
\<close>

record settings =
  schoolName :: string
  currency :: string
  taxRate :: string
  invoicePrefix :: string
  paymentTerms :: string
  lateFee :: string
  schoolAddress :: string
  schoolContact :: string

text \<open>The literals of \<open>loadSettings\<close>; the numbers \<open>0\<close>, \<open>30\<close>, \<open>5\<close> become input text.\<close>

definition settings_defaults :: settings where
  "settings_defaults =
     \<lparr>schoolName = utf8 [216, 167, 217, 132, 217, 133, 216, 164, 216, 179, 216, 179, 216, 169, 32, 216,
                         167, 217, 132, 216, 170, 216, 185, 217, 132, 217, 138, 217, 133, 217, 138, 216, 169],
      currency = ''DZD'', taxRate = ''0'', invoicePrefix = ''INV'', paymentTerms = ''30'', lateFee = ''5'',
      schoolAddress = utf8 [216, 167, 217, 132, 216, 185, 217, 134, 217, 136, 216, 167, 217, 134, 58, 32, 216,
                            167, 217, 132, 216, 172, 216, 178, 216, 167, 216, 166, 216, 177],
      schoolContact = utf8 [217, 135, 216, 167, 216, 170, 217, 129, 58, 32, 48, 48, 48, 48, 48, 48, 48, 48, 48,
                            48, 10, 216, 168, 216, 177, 217, 138, 216, 175, 32, 216, 165, 217, 132, 217, 131,
                            216, 170, 216, 177, 217, 136, 217, 134, 217, 138, 58, 32, 105, 110, 102, 111, 64,
                            115, 99, 104, 111, 111, 108, 46, 99, 111, 109]\<rparr>"

text \<open>
  \<open>loadSettings\<close>: \<open>JSON.parse(null) || {}\<close> gives an object without fields when the
  entry is absent; every input gets the stored field or its default.
\<close>

definition loadSettings :: "settings option \<Rightarrow> settings" where
  "loadSettings stored =
     (let d = settings_defaults; fld = (\<lambda>f. map_option f stored) in
      \<lparr>schoolName = js_or (fld schoolName) (schoolName d),
       currency = js_or (fld currency) (currency d),
       taxRate = js_or (fld taxRate) (taxRate d),
       invoicePrefix = js_or (fld invoicePrefix) (invoicePrefix d),
       paymentTerms = js_or (fld paymentTerms) (paymentTerms d),
       lateFee = js_or (fld lateFee) (lateFee d),
       schoolAddress = js_or (fld schoolAddress) (schoolAddress d),
       schoolContact = js_or (fld schoolContact) (schoolContact d)\<rparr>)"

text \<open>\<open>saveSettings\<close>: the entry becomes the inputs' values; the result is the new entry.\<close>

definition saveSettings :: "settings \<Rightarrow> settings option" where
  "saveSettings form = Some form"

definition settings_fields :: "settings \<Rightarrow> string list" where
  "settings_fields s =
     [schoolName s, currency s, taxRate s, invoicePrefix s, paymentTerms s, lateFee s,
      schoolAddress s, schoolContact s]"

section \<open>Properties\<close>

lemma utf8_nonempty: "bs \<noteq> [] \<Longrightarrow> utf8 bs \<noteq> []"
  by (simp add: utf8_def)

lemma settings_defaults_nonempty: "list_all (\<lambda>v. v \<noteq> []) (settings_fields settings_defaults)"
  by (simp add: settings_fields_def settings_defaults_def utf8_nonempty)

lemma loadSettings_nonempty: "list_all (\<lambda>v. v \<noteq> []) (settings_fields (loadSettings st))"
  using settings_defaults_nonempty
  by (cases st) (simp_all add: loadSettings_def settings_fields_def Let_def)

text \<open>C24. Saving settings whose eight fields are all non-empty and loading them again gives the
  same values back.\<close>

theorem settings_roundtrip:
  assumes "list_all (\<lambda>v. v \<noteq> []) (settings_fields form)"
  shows "loadSettings (saveSettings form) = form"
  using assms by (simp add: loadSettings_def saveSettings_def settings_fields_def Let_def)

theorem settings_empty_field_reverts:
  "settings_fields (loadSettings (saveSettings form))
     = map2 (\<lambda>v d. if v = [] then d else v) (settings_fields form) (settings_fields settings_defaults)"
  by (simp add: loadSettings_def saveSettings_def settings_fields_def Let_def)

theorem settings_load_save_stable:
  "loadSettings (saveSettings (loadSettings st)) = loadSettings st"
  using loadSettings_nonempty[of st]
  by (simp add: loadSettings_def saveSettings_def settings_fields_def Let_def)

end
