(* ===== verification/Dashboard.thy ===== *)
theory Dashboard
  imports Prelude
begin

text \<open>
  The dashboard of \<open>accouning.js\<close>: \<open>loadDashboardData\<close> (lines 359--377) awaits
  \<open>updateDashboardStats\<close>, \<open>loadTransactions\<close> and \<open>loadChartData\<close>. Of the two
  declarations of \<open>updateDashboardStats\<close> (lines 380 and 2822) hoisting keeps the second,
  which fetches the paid payments, the paid expenses and the pending payments and sums
  the first two with \<open>reduce\<close>. \<open>renderTransactions\<close> (421--459) turns the recent
  transactions into rows; \<open>loadChartData\<close> (462--496) and \<open>renderChart\<close> (498--578)
  build the monthly income/expense chart, with hard-coded figures when the request
  fails. A reply is a rejected request (or a body that is not JSON) or an HTTP reply
  with its \<open>ok\<close> flag and body; a list endpoint answers either with an array or with
  a paginated object \<open>{payments: [...], totalPages}\<close>, the shape \<open>loadPayments\<close> also
  accepts (\<open>data.payments || data\<close>).
\<close>

section \<open>Replies\<close>

datatype list_body = JArray "amount list" | JPaged "amount list"

section \<open>Statistics\<close>

record dash =
  totalIncome :: "amount option"
  totalExpenses :: "amount option"
  netProfit :: "amount option"
  pendingPayments :: "nat option"

text \<open>
  \<open>if (r.ok) total = (await r.json()).reduce((sum, x) => sum + x.amount, 0)\<close>: zero for
  a non-ok reply; \<open>reduce\<close> of a paginated object is not a function.
\<close>

definition reply_total :: "list_body reply \<Rightarrow> js_error + amount" where
  "reply_total r =
     (case r of
        NetError \<Rightarrow> Inl fetch_error
      | HttpReply False _ \<Rightarrow> Inr 0
      | HttpReply True (JArray xs) \<Rightarrow> Inr (foldl (\<lambda>s a. s + a) 0 xs)
      | HttpReply True (JPaged _) \<Rightarrow> Inl (TypeError ''reduce is not a function''))"

text \<open>\<open>pendingPayments.length || 0\<close>: a paginated object has no \<open>length\<close>.\<close>

definition pending_count :: "list_body \<Rightarrow> nat" where
  "pending_count b = (case b of JArray xs \<Rightarrow> length xs | JPaged _ \<Rightarrow> 0)"

text \<open>
  \<open>updateDashboardStats\<close> (2822--2873): both sums are computed after both requests were
  awaited; any exception reaches the \<open>catch\<close>, which only logs. The three figures are
  written before the pending request.
\<close>

definition updateDashboardStats ::
  "list_body reply \<Rightarrow> list_body reply \<Rightarrow> list_body reply \<Rightarrow> dash \<Rightarrow> dash \<times> js_error option" where
  "updateDashboardStats pays exps pend d =
     (if pays = NetError \<or> exps = NetError then (d, Some fetch_error)
      else case reply_total pays of
        Inl e \<Rightarrow> (d, Some e)
      | Inr inc \<Rightarrow> (case reply_total exps of
          Inl e \<Rightarrow> (d, Some e)
        | Inr ex \<Rightarrow>
            (let d1 = d\<lparr>totalIncome := Some inc, totalExpenses := Some ex, netProfit := Some (inc - ex)\<rparr>
             in case pend of
                  NetError \<Rightarrow> (d1, Some fetch_error)
                | HttpReply False _ \<Rightarrow> (d1, None)
                | HttpReply True b \<Rightarrow> (d1\<lparr>pendingPayments := Some (pending_count b)\<rparr>, None))))"

section \<open>Recent transactions\<close>

record txn =
  tx_type :: string
  tx_description :: string
  tx_amount :: amount
  tx_status :: "string option"

datatype tx_badge = TxPaid | TxPending | TxLate | TxNone

record tx_row =
  row_type :: string
  row_class :: string
  row_sign :: string
  row_description :: string
  row_amount :: amount
  row_badge :: tx_badge

definition income_label :: string where
  "income_label = utf8 [216, 165, 217, 138, 216, 177, 216, 167, 216, 175]"

definition expense_label :: string where
  "expense_label = utf8 [217, 133, 216, 181, 216, 177, 217, 136, 217, 129]"

definition tx_badge_of :: "string option \<Rightarrow> tx_badge" where
  "tx_badge_of s =
     (case s of
        None \<Rightarrow> TxNone
      | Some st \<Rightarrow> if st = ''paid'' then TxPaid else if st = ''pending'' then TxPending
                  else if st = ''late'' then TxLate else TxNone)"

definition tx_row_of :: "txn \<Rightarrow> tx_row" where
  "tx_row_of t =
     (let inc = (tx_type t = ''income'') in
      \<lparr>row_type = (if inc then income_label else expense_label),
       row_class = (if inc then ''text-success'' else ''text-danger''),
       row_sign = (if inc then ''+'' else ''-''),
       row_description = tx_description t, row_amount = tx_amount t,
       row_badge = tx_badge_of (tx_status t)\<rparr>)"

datatype tx_table = NoTransactions | TxRows "tx_row list"

definition renderTransactions :: "txn list \<Rightarrow> tx_table" where
  "renderTransactions ts = (if ts = [] then NoTransactions else TxRows (map tx_row_of ts))"

section \<open>Monthly chart\<close>

record month_total =
  mt_id :: int
  mt_total :: amount

record chart =
  ch_labels :: "string list"
  ch_income :: "amount list"
  ch_expenses :: "amount list"

definition month_names :: "string list" where
  "month_names =
     map utf8 [[217, 138, 217, 134, 216, 167, 217, 138, 216, 177],
               [217, 129, 216, 168, 216, 177, 216, 167, 217, 138, 216, 177],
               [217, 133, 216, 167, 216, 177, 216, 179],
               [216, 163, 216, 168, 216, 177, 217, 138, 217, 132],
               [217, 133, 216, 167, 217, 138, 217, 136],
               [217, 138, 217, 136, 217, 134, 217, 138, 217, 136],
               [217, 138, 217, 136, 217, 132, 217, 138, 217, 136],
               [216, 163, 216, 186, 216, 179, 216, 183, 216, 179],
               [216, 179, 216, 168, 216, 170, 217, 133, 216, 168, 216, 177],
               [216, 163, 217, 131, 216, 170, 217, 136, 216, 168, 216, 177],
               [217, 134, 217, 136, 217, 129, 217, 133, 216, 168, 216, 177],
               [216, 175, 217, 138, 216, 179, 217, 133, 216, 168, 216, 177]]"

text \<open>\<open>`${months[item._id - 1]}`\<close>: outside \<open>1..12\<close> the label is the text \<open>undefined\<close>.\<close>

definition month_label :: "int \<Rightarrow> string" where
  "month_label i = (if 1 \<le> i \<and> i \<le> 12 then month_names ! nat (i - 1) else ''undefined'')"

text \<open>
  \<open>renderChart(data)\<close>: the previous chart is destroyed first; a missing data object
  or list ends the function with no chart. Labels come from the income list only; the
  two series are mapped independently, position by position.
\<close>

definition renderChart :: "(month_total list \<times> month_total list) option \<Rightarrow> chart option" where
  "renderChart data =
     (case data of
        None \<Rightarrow> None
      | Some (incs, exps) \<Rightarrow>
          Some \<lparr>ch_labels = map (\<lambda>m. month_label (mt_id m)) incs,
                ch_income = map mt_total incs, ch_expenses = map mt_total exps\<rparr>)"

definition demo_chart_data :: "month_total list \<times> month_total list" where
  "demo_chart_data =
     (map (\<lambda>(i, t). \<lparr>mt_id = i, mt_total = t\<rparr>)
        [(1, 500000), (2, 750000), (3, 600000), (4, 900000), (5, 800000), (6, 950000)],
      map (\<lambda>(i, t). \<lparr>mt_id = i, mt_total = t\<rparr>)
        [(1, 300000), (2, 400000), (3, 350000), (4, 500000), (5, 450000), (6, 550000)])"

text \<open>
  \<open>loadChartData\<close>: an ok reply is rendered; a rejected request (or a body that is not
  JSON) renders the demonstration figures; a non-ok reply leaves the current chart.
  The result is the chart on screen afterwards.
\<close>

definition loadChartData ::
  "(month_total list \<times> month_total list) option reply \<Rightarrow> chart option \<Rightarrow> chart option" where
  "loadChartData r cur =
     (case r of
        NetError \<Rightarrow> renderChart (Some demo_chart_data)
      | HttpReply True data \<Rightarrow> renderChart data
      | HttpReply False _ \<Rightarrow> cur)"

section \<open>Properties\<close>

lemma foldl_plus_sum_list: "foldl (+) a xs = a + sum_list (xs :: amount list)"
  by (induction xs arbitrary: a) (simp_all add: add.assoc)

lemma reply_total_array:
  "reply_total (HttpReply True (JArray xs)) = Inr (sum_list xs)"
  by (simp add: reply_total_def foldl_plus_sum_list)

theorem dashboard_profit:
  assumes "pays = HttpReply True (JArray ps)" and "exps = HttpReply ok (JArray es)"
    and "updateDashboardStats pays exps pend d = (d', err)"
  shows "totalIncome d' = Some (sum_list ps)
       \<and> totalExpenses d' = Some (if ok then sum_list es else 0)
       \<and> netProfit d' = Some (sum_list ps - (if ok then sum_list es else 0))"
  using assms
  by (auto simp: updateDashboardStats_def Let_def reply_total_def foldl_plus_sum_list
           split: reply.splits bool.splits)

text \<open>C16. If the paid-payments or paid-expenses reply is a paginated object instead of an array,
  updateDashboardStats raises a TypeError in reduce and leaves every dashboard figure
  unchanged.\<close>

theorem dashboard_paged_reply_fails:
  assumes "pays \<noteq> NetError" and "exps \<noteq> NetError"
    and "pays = HttpReply True (JPaged ps) \<or> exps = HttpReply True (JPaged es)"
  shows "\<exists>e. updateDashboardStats pays exps pend d = (d, Some e)"
  using assms
  by (auto simp: updateDashboardStats_def reply_total_def split: reply.splits bool.splits list_body.splits)

theorem pending_paged_shows_zero:
  "updateDashboardStats (HttpReply True (JArray ps)) (HttpReply True (JArray es))
     (HttpReply True (JPaged xs)) d
   = (d\<lparr>totalIncome := Some (sum_list ps), totalExpenses := Some (sum_list es),
        netProfit := Some (sum_list ps - sum_list es), pendingPayments := Some 0\<rparr>, None)"
  by (simp add: updateDashboardStats_def reply_total_array pending_count_def)

theorem transaction_sign:
  "renderTransactions ts = TxRows rows \<Longrightarrow>
     ts \<noteq> [] \<and> length rows = length ts
     \<and> (\<forall>i < length ts. (row_sign (rows ! i) = ''+'' \<longleftrightarrow> tx_type (ts ! i) = ''income'')
                        \<and> row_amount (rows ! i) = tx_amount (ts ! i))"
  by (auto simp: renderTransactions_def tx_row_of_def Let_def split: if_splits)

theorem chart_misaligned:
  "renderChart (Some ([\<lparr>mt_id = 1, mt_total = 100\<rparr>, \<lparr>mt_id = 2, mt_total = 200\<rparr>],
                      [\<lparr>mt_id = 2, mt_total = 50\<rparr>]))
   = Some \<lparr>ch_labels = [month_names ! 0, month_names ! 1], ch_income = [100, 200], ch_expenses = [50]\<rparr>"
  by (simp add: renderChart_def month_label_def)

theorem chart_fallback_on_error:
  "loadChartData NetError cur = renderChart (Some demo_chart_data)
   \<and> ch_income (the (loadChartData NetError cur)) = [500000, 750000, 600000, 900000, 800000, 950000]"
  by (simp add: loadChartData_def renderChart_def demo_chart_data_def)

end
