(* ===== verification/Invoices.thy ===== *)
theory Invoices
  imports Commissions Query
begin

text \<open>
  Invoices in \<open>accouning.js\<close>: \<open>viewInvoice\<close> (lines 1827--1880) shows a stored invoice
  with its line totals, subtotal, tax and total; \<open>generateInvoice\<close> (1951--1990) lays
  out an invoice for printing from a description, a recipient and items with amounts;
  \<open>payTeacherCommissionsAndPrint\<close> (1994--2056) pays a teacher's month, fetches the
  month's paid commissions and prints them with \<open>generateInvoice\<close>. Replies are the
  \<open>reply\<close> values of the Prelude; \<open>Date.now()\<close> is a parameter.
\<close>

section \<open>Viewing a stored invoice\<close>

record inv_item =
  ii_description :: string
  ii_quantity :: amount
  ii_amount :: amount

record recipient_details =
  rd_name :: string
  rd_phone :: string
  rd_email :: string

record invoice =
  iv_number :: string
  iv_type :: string
  iv_status :: string
  iv_recipient :: "recipient_details option"
  iv_items :: "inv_item list"
  iv_taxRate :: "amount option"
  iv_notes :: "string option"

record invoice_view =
  vw_number :: string
  vw_recipient :: string
  vw_status_class :: string
  vw_lines :: "(string \<times> amount \<times> amount \<times> amount) list"
  vw_subtotal :: amount
  vw_tax :: amount
  vw_total :: amount
  vw_notes :: string

datatype view_out = InvoiceShown invoice_view | InvoiceNotShown | InvoiceAlert js_error

text \<open>\<open>invoice.items.reduce((sum, item) => sum + (item.quantity * item.amount), 0)\<close>\<close>

definition invoice_subtotal :: "inv_item list \<Rightarrow> amount" where
  "invoice_subtotal its = foldl (\<lambda>s it. s + ii_quantity it * ii_amount it) 0 its"

definition status_class :: "string \<Rightarrow> string" where
  "status_class s =
     (if s = ''paid'' then ''badge badge-success'' else if s = ''pending'' then ''badge badge-warning''
      else ''badge badge-danger'')"

definition default_notes :: string where
  "default_notes = utf8 [216, 180, 217, 131, 216, 177, 216, 167, 217, 139, 32, 217, 132, 216, 170, 216, 185,
                         216, 167, 217, 133, 217, 132, 217, 131, 217, 133, 32, 217, 133, 216, 185, 217, 134, 216, 167]"

text \<open>
  \<open>viewInvoice\<close>: a non-ok reply shows nothing; \<open>invoice.recipientDetails.name\<close> is read
  unguarded; \<open>invoice.taxRate || 0\<close>.
\<close>

definition viewInvoice :: "invoice reply \<Rightarrow> view_out" where
  "viewInvoice r =
     (case r of
        NetError \<Rightarrow> InvoiceAlert fetch_error
      | HttpReply False _ \<Rightarrow> InvoiceNotShown
      | HttpReply True iv \<Rightarrow>
          (case iv_recipient iv of
             None \<Rightarrow> InvoiceAlert (TypeError ''name'')
           | Some rd \<Rightarrow>
               (let sub = invoice_subtotal (iv_items iv);
                    tax = sub * (case iv_taxRate iv of None \<Rightarrow> 0 | Some t \<Rightarrow> t) / 100
                in InvoiceShown
                     \<lparr>vw_number = iv_number iv, vw_recipient = rd_name rd,
                      vw_status_class = status_class (iv_status iv),
                      vw_lines = map (\<lambda>it. (ii_description it, ii_quantity it, ii_amount it,
                                           ii_quantity it * ii_amount it)) (iv_items iv),
                      vw_subtotal = sub, vw_tax = tax, vw_total = sub + tax,
                      vw_notes = js_or (iv_notes iv) default_notes\<rparr>)))"

section \<open>Printing an invoice\<close>

record invoice_data =
  id_number :: "string option"
  id_recipient :: string
  id_description :: string
  id_items :: "(string \<times> amount) list"

record invoice_doc =
  doc_number :: string
  doc_recipient :: string
  doc_description :: string
  doc_rows :: "(nat \<times> string \<times> amount) list"
  doc_total :: amount

text \<open>\<open>generateInvoice(invoiceData)\<close>: rows numbered from 1, \<open>total += item.amount\<close>.\<close>

definition generateInvoice :: "nat \<Rightarrow> invoice_data \<Rightarrow> invoice_doc" where
  "generateInvoice now d =
     \<lparr>doc_number = js_or (id_number d) (''INV-'' @ nat_str now),
      doc_recipient = id_recipient d, doc_description = id_description d,
      doc_rows = map (\<lambda>(i, (desc, a)). (i + 1, desc, a)) (enumerate 0 (id_items d)),
      doc_total = foldl (\<lambda>s (desc, a). s + a) 0 (id_items d)\<rparr>"

section \<open>Paying a teacher's month and printing it\<close>

text \<open>The first error of a \<open>map\<close> whose callback may throw.\<close>

fun js_map :: "('a \<Rightarrow> js_error + 'b) \<Rightarrow> 'a list \<Rightarrow> js_error + 'b list" where
  "js_map f [] = Inr []"
| "js_map f (x # xs) =
     (case f x of Inl e \<Rightarrow> Inl e | Inr y \<Rightarrow> (case js_map f xs of Inl e \<Rightarrow> Inl e | Inr ys \<Rightarrow> Inr (y # ys)))"

text \<open>The item text \<open>`hissa ${commission.class.name} - al-talib ${commission.student.name}`\<close> (in Arabic), both names read unguarded.\<close>

definition commission_item :: "commission \<Rightarrow> js_error + (string \<times> amount)" where
  "commission_item c =
     (case cm_class c of
        None \<Rightarrow> Inl (TypeError ''name'')
      | Some k \<Rightarrow> (case cm_student c of
          None \<Rightarrow> Inl (TypeError ''name'')
        | Some s \<Rightarrow> Inr (utf8 [216, 173, 216, 181, 216, 169, 32] @ ref_name k
                         @ utf8 [32, 45, 32, 216, 167, 217, 132, 216, 183, 216, 167, 217, 132, 216, 168, 32]
                         @ ref_name s, cm_amount c)))"

record pay_body =
  pb_totalAmount :: "amount option"
  pb_error :: "string option"

datatype print_alert = PaidNoData | PaidSummary nat amount | PrintFailed js_error | PayRefused string

record print_out =
  pr_requests :: "string list"
  pr_invoice :: "invoice_doc option"
  pr_alert :: "print_alert option"

definition pay_salary_url :: "string \<Rightarrow> string" where
  "pay_salary_url tid = ''/api/teachers/'' @ tid @ ''/pay-salary''"

definition paid_commissions_url :: "string \<Rightarrow> string \<Rightarrow> string" where
  "paid_commissions_url tid month =
     ''/api/accounting/teacher-commissions?teacher='' @ tid @ ''&month='' @ month @ ''&status=paid''"

definition pay_refused_default :: string where
  "pay_refused_default = utf8 [217, 129, 216, 180, 217, 132, 32, 217, 129, 217, 138, 32, 216, 175, 217, 129,
                               216, 185, 32, 216, 167, 217, 132, 217, 133, 216, 179, 216, 170, 216, 173,
                               217, 130, 216, 167, 216, 170]"

text \<open>
  The invoice data of \<open>payTeacherCommissionsAndPrint\<close>: the recipient is read from the
  first commission's teacher, then the items; both reads are unguarded.
\<close>

definition teacher_invoice :: "string \<Rightarrow> string \<Rightarrow> nat \<Rightarrow> commission list \<Rightarrow> js_error + invoice_data" where
  "teacher_invoice tid month now cs =
     (case cm_teacher (hd cs) of
        None \<Rightarrow> Inl (TypeError ''name'')
      | Some t \<Rightarrow> (case js_map commission_item cs of
          Inl e \<Rightarrow> Inl e
        | Inr its \<Rightarrow> Inr \<lparr>id_number = Some (''TCH-'' @ tid @ ''-'' @ month @ ''-'' @ nat_str now),
                          id_recipient = ref_name t,
                          id_description = utf8 [217, 133, 216, 179, 216, 170, 216, 173, 217, 130, 216, 167,
                                                 216, 170, 32, 216, 167, 217, 132, 216, 173, 216, 181, 216,
                                                 181, 32, 217, 132, 216, 180, 217, 135, 216, 177, 32] @ month,
                          id_items = its\<rparr>))"

definition payTeacherCommissionsAndPrint ::
  "string \<Rightarrow> string \<Rightarrow> nat \<Rightarrow> pay_body reply \<Rightarrow> commission list reply \<Rightarrow> print_out" where
  "payTeacherCommissionsAndPrint tid month now pay comms =
     (case pay of
        NetError \<Rightarrow> \<lparr>pr_requests = [pay_salary_url tid], pr_invoice = None, pr_alert = Some (PrintFailed fetch_error)\<rparr>
      | HttpReply False b \<Rightarrow>
          \<lparr>pr_requests = [pay_salary_url tid], pr_invoice = None,
           pr_alert = Some (PayRefused (js_or (pb_error b) pay_refused_default))\<rparr>
      | HttpReply True b \<Rightarrow>
          (let rs = [pay_salary_url tid, paid_commissions_url tid month] in
           case comms of
             NetError \<Rightarrow> \<lparr>pr_requests = rs, pr_invoice = None, pr_alert = Some (PrintFailed fetch_error)\<rparr>
           | HttpReply False _ \<Rightarrow> \<lparr>pr_requests = rs, pr_invoice = None, pr_alert = None\<rparr>
           | HttpReply True cs \<Rightarrow>
               if cs = [] then \<lparr>pr_requests = rs, pr_invoice = None, pr_alert = Some PaidNoData\<rparr>
               else (case teacher_invoice tid month now cs of
                       Inl e \<Rightarrow> \<lparr>pr_requests = rs, pr_invoice = None, pr_alert = Some (PrintFailed e)\<rparr>
                     | Inr d \<Rightarrow>
                         \<lparr>pr_requests = rs, pr_invoice = Some (generateInvoice now d),
                          pr_alert = Some (case pb_totalAmount b of
                                             None \<Rightarrow> PrintFailed (TypeError ''toLocaleString'')
                                           | Some tot \<Rightarrow> PaidSummary (length cs) tot)\<rparr>)))"

section \<open>Properties\<close>

lemma invoice_subtotal_sum: "invoice_subtotal its = (\<Sum>it \<leftarrow> its. ii_quantity it * ii_amount it)"
  by (simp add: invoice_subtotal_def foldl_add_sum_list)

lemma foldl_pair_sum: "foldl (\<lambda>s (d, a). s + a) s0 xs = s0 + sum_list (map snd xs)"
  by (induction xs arbitrary: s0) (auto simp: add.assoc)

lemma js_map_Inr:
  "(\<forall>x \<in> set xs. \<exists>y. f x = Inr y) \<Longrightarrow> \<exists>ys. js_map f xs = Inr ys \<and> length ys = length xs
     \<and> (\<forall>i < length xs. f (xs ! i) = Inr (ys ! i))"
proof (induction xs)
  case (Cons x xs)
  then obtain y ys where "f x = Inr y" "js_map f xs = Inr ys" "length ys = length xs"
    "\<forall>i < length xs. f (xs ! i) = Inr (ys ! i)" by auto
  then show ?case by (intro exI[of _ "y # ys"]) (auto simp: nth_Cons split: nat.split)
qed simp

lemma commission_item_amount: "commission_item c = Inr it \<Longrightarrow> snd it = cm_amount c"
  by (auto simp: commission_item_def split: option.splits)

theorem viewInvoice_totals:
  assumes "viewInvoice r = InvoiceShown v"
  shows "vw_subtotal v = (\<Sum>(d, q, a, t) \<leftarrow> vw_lines v. t)
       \<and> (\<forall>(d, q, a, t) \<in> set (vw_lines v). t = q * a)
       \<and> (\<exists>rate. vw_total v = vw_subtotal v + vw_subtotal v * rate / 100)"
  using assms
  by (auto simp: viewInvoice_def Let_def invoice_subtotal_sum comp_def
           split: reply.splits bool.splits option.splits)

lemma js_map_Inl:
  "js_map f xs = Inl e \<Longrightarrow> \<exists>x \<in> set xs. f x = Inl e"
  by (induction xs) (auto split: sum.splits)

lemma js_map_fails: "x \<in> set xs \<Longrightarrow> f x = Inl e \<Longrightarrow> \<exists>e'. js_map f xs = Inl e'"
  by (induction xs) (auto split: sum.splits)

lemma commission_item_Inl: "commission_item c = Inl e \<Longrightarrow> e = TypeError ''name''"
  by (auto simp: commission_item_def split: option.splits)

text \<open>C14. When the salary payment and the fetch of the month's paid commissions succeed and every
  commission has a teacher, class and student, the printed invoice lists every paid
  commission of the month and totals their amounts, while the alert reports the count
  and the server's total of this payment.\<close>

theorem print_invoice_total:
  assumes "pay = HttpReply True b" and "comms = HttpReply True cs" and "cs \<noteq> []"
    and "cm_teacher (hd cs) \<noteq> None" and "\<forall>c \<in> set cs. cm_class c \<noteq> None \<and> cm_student c \<noteq> None"
    and "pb_totalAmount b = Some tot"
  shows "\<exists>doc. payTeacherCommissionsAndPrint tid month now pay comms
               = \<lparr>pr_requests = [pay_salary_url tid, paid_commissions_url tid month], pr_invoice = Some doc,
                  pr_alert = Some (PaidSummary (length cs) tot)\<rparr>
             \<and> doc_total doc = (\<Sum>c \<leftarrow> cs. cm_amount c) \<and> length (doc_rows doc) = length cs"
proof -
  have "\<forall>c \<in> set cs. \<exists>y. commission_item c = Inr y"
    using assms(5) by (auto simp: commission_item_def split: option.splits)
  then obtain its where its: "js_map commission_item cs = Inr its" "length its = length cs"
    "\<forall>i < length cs. commission_item (cs ! i) = Inr (its ! i)"
    using js_map_Inr by blast
  have "map snd its = map cm_amount cs"
  proof (rule nth_equalityI)
    fix i assume "i < length (map snd its)"
    then show "map snd its ! i = map cm_amount cs ! i"
      using its(2,3) commission_item_amount[of "cs ! i" "its ! i"] by simp
  qed (use its(2) in simp)
  then have "sum_list (map snd its) = (\<Sum>c \<leftarrow> cs. cm_amount c)" by (metis map_map comp_def)
  then show ?thesis
    using assms its(1,2)
    by (auto simp: payTeacherCommissionsAndPrint_def teacher_invoice_def generateInvoice_def
                   foldl_pair_sum Let_def)
qed

text \<open>C37. If the salary payment succeeds but one of the month's paid commissions has no student,
  no invoice is printed and the user gets the error alert, although the payment request
  was sent.\<close>

theorem paid_then_print_error:
  assumes "pay = HttpReply True b" and "comms = HttpReply True cs"
    and "c \<in> set cs" and "cm_student c = None"
  shows "pr_alert (payTeacherCommissionsAndPrint tid month now pay comms) = Some (PrintFailed (TypeError ''name''))
       \<and> pr_invoice (payTeacherCommissionsAndPrint tid month now pay comms) = None
       \<and> pr_requests (payTeacherCommissionsAndPrint tid month now pay comms)
            = [pay_salary_url tid, paid_commissions_url tid month]"
proof -
  have "commission_item c = Inl (TypeError ''name'')"
    using assms(4) by (simp add: commission_item_def split: option.split)
  then obtain e where e: "js_map commission_item cs = Inl e" using js_map_fails[OF assms(3)] by blast
  then have "e = TypeError ''name''" using js_map_Inl commission_item_Inl by blast
  then have "teacher_invoice tid month now cs = Inl (TypeError ''name'')"
    using e by (simp add: teacher_invoice_def split: option.split)
  then show ?thesis using assms by (auto simp: payTeacherCommissionsAndPrint_def Let_def)
qed

end
