(* ===== verification/Reports.thy ===== *)
theory Reports
  imports Query
begin

text \<open>
  The report table of \<open>accouning.js\<close>: \<open>renderReport(report, type)\<close> (lines 2377--2427)
  shows one row per entry of the report with its amount and its share in percent,
  computed with JavaScript division, which gives \<open>NaN\<close> or \<open>Infinity\<close> when the divisor
  is zero, and printed with \<open>toFixed(2)\<close> (the row's \<open>rr_percent\<close> is the text before
  the \<open>%\<close> sign). The report's shape depends on the endpoint \<open>generateReport\<close> called (see
  the Query theory): an array of entries for the financial and teacher reports, an
  object with \<open>income\<close> for the income report, an object with \<open>expenses\<close> and
  \<open>totalExpenses\<close> for the expense report. A body of another shape makes the unguarded
  reads raise a \<open>TypeError\<close>.
\<close>

section \<open>JavaScript numbers\<close>

datatype js_num = JNum rat | JNaN | JInf bool

text \<open>\<open>a / b\<close> on numbers: \<open>0 / 0\<close> is \<open>NaN\<close>, \<open>a / 0\<close> is an infinity of the sign of \<open>a\<close>.\<close>

definition js_div :: "rat \<Rightarrow> rat \<Rightarrow> js_num" where
  "js_div a b = (if b = 0 then (if a = 0 then JNaN else JInf (0 < a)) else JNum (a / b))"

text \<open>\<open>s.padStart(n, c)\<close> for a one-character pad.\<close>

definition pad_start :: "nat \<Rightarrow> char \<Rightarrow> string \<Rightarrow> string" where
  "pad_start n c s = replicate (n - length s) c @ s"

text \<open>
  \<open>x.toFixed(2)\<close> of a finite number: the sign, then the integer \<open>n\<close> nearest to
  \<open>|x| * 100\<close> (the larger on a tie) written with two decimals. The model rounds the
  exact value. \<open>NaN\<close> and the infinities print as their names.
\<close>

definition to_fixed2 :: "rat \<Rightarrow> string" where
  "to_fixed2 q =
     (let n = nat (floor (abs q * 100 + 1 / 2)) in
      (if q < 0 then ''-'' else []) @ nat_str (n div 100) @ ''.'' @ pad_start 2 CHR ''0'' (nat_str (n mod 100)))"

definition js_to_fixed2 :: "js_num \<Rightarrow> string" where
  "js_to_fixed2 n = (case n of JNum q \<Rightarrow> to_fixed2 q | JNaN \<Rightarrow> ''NaN''
                     | JInf b \<Rightarrow> if b then ''Infinity'' else ''-Infinity'')"

text \<open>\<open>((x / total) * 100).toFixed(2)\<close>\<close>

definition percent_of :: "rat \<Rightarrow> rat \<Rightarrow> string" where
  "percent_of x tot = js_to_fixed2 (case js_div x tot of JNum q \<Rightarrow> JNum (q * 100) | v \<Rightarrow> v)"

section \<open>Report data and rows\<close>

datatype report_data =
    RItems "(string \<times> string \<times> amount) list"
  | RIncome amount
  | RExpenses "(string \<times> amount) list" amount

record report_row =
  rr_label :: string
  rr_amount :: amount
  rr_percent :: string

definition income_row_label :: string where
  "income_row_label = utf8 [216, 167, 217, 132, 216, 165, 217, 138, 216, 177, 216, 167, 216, 175, 216, 167, 216, 170]"

text \<open>\<open>report.reduce((sum, i) => sum + i.totalAmount, 0)\<close>\<close>

definition items_total :: "(string \<times> string \<times> amount) list \<Rightarrow> amount" where
  "items_total its = foldl (\<lambda>s (t, c, a). s + a) 0 its"

definition renderReport :: "report_data \<Rightarrow> string \<Rightarrow> js_error + report_row list" where
  "renderReport r ty =
     (if ty = ''financial'' then
        (case r of
           RItems its \<Rightarrow> Inr (map (\<lambda>(t, c, a). \<lparr>rr_label = t @ '' - '' @ c, rr_amount = a,
                                               rr_percent = percent_of a (items_total its)\<rparr>) its)
         | _ \<Rightarrow> Inl (TypeError ''report.forEach is not a function''))
      else if ty = ''income'' then
        (case r of
           RIncome x \<Rightarrow> Inr [\<lparr>rr_label = income_row_label, rr_amount = x, rr_percent = ''100''\<rparr>]
         | _ \<Rightarrow> Inl (TypeError ''toLocaleString''))
      else if ty = ''expense'' then
        (case r of
           RExpenses es tot \<Rightarrow> Inr (map (\<lambda>(i, a). \<lparr>rr_label = i, rr_amount = a, rr_percent = percent_of a tot\<rparr>) es)
         | _ \<Rightarrow> Inl (TypeError ''forEach''))
      else if ty = ''teacher'' then
        (case r of
           RItems its \<Rightarrow> Inr (map (\<lambda>(i, c, a). \<lparr>rr_label = i, rr_amount = a,
                                               rr_percent = percent_of a (items_total its)\<rparr>) its)
         | _ \<Rightarrow> Inl (TypeError ''report.forEach is not a function''))
      else Inr [])"

text \<open>
  The number \<open>x.toFixed(2)\<close> writes for a rational \<open>x\<close>: \<open>x\<close> rounded to hundredths,
  halves away from zero (the reference for \<open>to_fixed2\<close>).
\<close>

definition fixed2_round :: "rat \<Rightarrow> rat" where
  "fixed2_round q = (if q < 0 then - 1 else 1) * of_int (floor (abs q * 100 + 1 / 2)) / 100"

section \<open>Properties\<close>

lemma items_total_sum: "items_total its = (\<Sum>x \<leftarrow> its. snd (snd x))"
proof -
  have "foldl (\<lambda>s (t, c, a). s + a) s0 its = s0 + (\<Sum>x \<leftarrow> its. snd (snd x))" for s0
    by (induction its arbitrary: s0) (auto simp: algebra_simps)
  then show ?thesis by (simp add: items_total_def)
qed

lemma percent_of_nonzero: "tot \<noteq> 0 \<Longrightarrow> percent_of x tot = to_fixed2 (x / tot * 100)"
  by (simp add: percent_of_def js_div_def js_to_fixed2_def)

lemma sum_list_div_distrib:
  "(\<Sum>x \<leftarrow> xs. f x / (d :: rat) * 100) = (\<Sum>x \<leftarrow> xs. f x) * 100 / d"
  by (induction xs) (simp_all add: add_divide_distrib algebra_simps)

lemma fixed2_round_bound: "\<bar>fixed2_round q - q\<bar> \<le> 1 / 200"
proof -
  let ?m = "of_int (floor (\<bar>q\<bar> * 100 + 1 / 2)) :: rat"
  have "?m \<le> \<bar>q\<bar> * 100 + 1 / 2" "\<bar>q\<bar> * 100 - 1 / 2 < ?m" by linarith+
  then have a: "\<bar>?m - \<bar>q\<bar> * 100\<bar> \<le> 1 / 2" by linarith
  have e: "?m / 100 - \<bar>q\<bar> = (?m - \<bar>q\<bar> * 100) / 100" by (simp add: field_simps)
  have m: "\<bar>?m / 100 - \<bar>q\<bar>\<bar> \<le> 1 / 200" unfolding e abs_divide using a by simp
  show ?thesis
  proof (cases "q < 0")
    case True
    then have "fixed2_round q - q = - (?m / 100 - \<bar>q\<bar>)" by (simp add: fixed2_round_def)
    then show ?thesis using m by (simp add: abs_minus_commute)
  next
    case False
    then have "fixed2_round q - q = ?m / 100 - \<bar>q\<bar>" by (simp add: fixed2_round_def)
    then show ?thesis using m by (simp add: abs_minus_commute)
  qed
qed

lemma fixed2_round_sum:
  "\<bar>(\<Sum>x \<leftarrow> xs. fixed2_round (f x)) - (\<Sum>x \<leftarrow> xs. f x)\<bar> \<le> of_nat (length xs) / 200"
proof (induction xs)
  case (Cons x xs)
  let ?d = "fixed2_round (f x) - f x" and ?D = "(\<Sum>x \<leftarrow> xs. fixed2_round (f x)) - (\<Sum>x \<leftarrow> xs. f x)"
  have "\<bar>?d + ?D\<bar> \<le> \<bar>?d\<bar> + \<bar>?D\<bar>" by (rule abs_triangle_ineq)
  moreover have "\<bar>?d\<bar> \<le> 1 / 200" by (rule fixed2_round_bound)
  ultimately have "\<bar>?d + ?D\<bar> \<le> (1 + of_nat (length xs)) / 200" using Cons.IH by (simp add: add_divide_distrib)
  moreover have "?d + ?D = (\<Sum>x \<leftarrow> x # xs. fixed2_round (f x)) - (\<Sum>x \<leftarrow> x # xs. f x)" by simp
  ultimately show ?case by simp
qed simp

lemma pad2_digits:
  assumes "k < 100"
  shows "length (pad_start 2 CHR ''0'' (nat_str k)) = 2 \<and> list_all is_digit (pad_start 2 CHR ''0'' (nat_str k))
       \<and> digits_val (pad_start 2 CHR ''0'' (nat_str k)) = k"
proof -
  have len: "length (nat_str k) = (if k < 10 then 1 else 2)"
    using assms by (simp add: length_nat_str_step length_nat_str_small)
  have dig: "list_all is_digit (nat_str k)" using set_nat_str[of k] by (auto simp: list_all_iff)
  show ?thesis
    using len dig by (simp add: pad_start_def numeral_2_eq_2 digits_val_zero_Cons digits_val_nat_str
                               is_digit_def split: if_splits)
qed

text \<open>C15. When every amount of a financial report is zero, the total is zero and every row's
  percentage is printed as NaN.\<close>

theorem zero_report_shows_nan:
  assumes "renderReport (RItems its) ''financial'' = Inr rows" and "\<forall>(t, c, a) \<in> set its. a = 0"
  shows "\<forall>r \<in> set rows. rr_percent r = ''NaN''"
proof -
  have "items_total its = 0"
    using assms(2) unfolding items_total_sum by (induction its) auto
  then show ?thesis using assms by (fastforce simp: renderReport_def percent_of_def js_div_def js_to_fixed2_def)
qed

theorem report_shape_mismatch:
  "renderReport (RIncome x) ''financial'' = Inl (TypeError ''report.forEach is not a function'')
   \<and> renderReport (RItems its) ''income'' = Inl (TypeError ''toLocaleString'')"
  by (simp add: renderReport_def)

end
