(* ===== verification/Actions.thy ===== *)
theory Actions
  imports Router Query Reports
begin

text \<open>
  The record actions of \<open>accouning.js\<close>: the handlers behind the row buttons and the modal
  forms, which send one request for one record and then report and refresh.
  \<open>markAsPaid\<close> (lines 894--924), \<open>submitPayment\<close> (950--991), \<open>paySingleCommission\<close>
  (1006--1038, declared again identically at 2059), \<open>submitClassCommissionPayment\<close>
  (1286--1328), \<open>submitCommissionPayment\<close> (1493--1529), \<open>payAllTeachers\<close> (1686--1721),
  \<open>deleteExpense\<close> (2630--2661) and \<open>submitExpense\<close> (2669--2711) share one shape: an
  awaited request; on an ok reply a success alert, the modal hidden and the loaders
  started; on another reply \<open>`khata: ${error.error}`\<close>; every exception (a rejected
  request, a body that is not JSON, a missing modal) ends in the handler's \<open>catch\<close>
  with its generic alert. \<open>viewPayment\<close> (873--890) shows a record; \<open>exportData\<close>
  (2201--2243) and its callers \<open>exportPayments\<close>, \<open>exportExpenses\<close>, \<open>exportInvoices\<close>
  download a sheet; \<open>addNewExpense\<close> (2246--2275) rethrows; \<open>exportClassCommissions\<close>
  (1330--1353) downloads a file. Request bodies are \<open>JSON.stringify\<close> of the object
  literal, numbers read with \<open>parseFloat\<close>. The loaders a handler starts are the
  \<open>load\<close> values of the Router theory; \<open>new Date().toISOString()\<close> is a parameter.
\<close>

section \<open>Requests and replies\<close>

datatype jval = JStr string | JNumber rat | JNull

text \<open>\<open>JSON.stringify\<close> of a number: \<open>NaN\<close> and the infinities become \<open>null\<close>.\<close>

definition json_number :: "js_num \<Rightarrow> jval" where
  "json_number n = (case n of JNum q \<Rightarrow> JNumber q | _ \<Rightarrow> JNull)"

record request =
  rq_method :: string
  rq_path :: string
  rq_body :: "(string \<times> jval) list"

text \<open>
  The body of a reply: a JSON object (its string fields), or a text that is not JSON,
  on which \<open>response.json()\<close> rejects with a \<open>SyntaxError\<close> of that message.
\<close>

datatype json_body = JObj "(string \<times> string) list" | NotJson string

text \<open>\<open>${obj.k}\<close> for a field that is a string or missing.\<close>

definition field :: "(string \<times> string) list \<Rightarrow> string \<Rightarrow> string" where
  "field obj k = (case map_of obj k of Some v \<Rightarrow> v | None \<Rightarrow> ''undefined'')"

text \<open>\<open>new Date().toISOString().split('T')[0]\<close>\<close>

definition iso_date :: "string \<Rightarrow> string" where
  "iso_date now = takeWhile (\<lambda>c. c \<noteq> CHR ''T'') now"

section \<open>parseFloat\<close>

text \<open>
  \<open>parseFloat(s)\<close>: leading white space is skipped (the ASCII white space; strings are
  bytes), then the longest prefix that is a signed decimal literal or \<open>Infinity\<close> is
  read; with none the result is \<open>NaN\<close>.
\<close>

definition js_ws :: "char \<Rightarrow> bool" where
  "js_ws c \<longleftrightarrow> (of_char c :: nat) \<in> {9, 10, 11, 12, 13, 32}"

definition sign_split :: "string \<Rightarrow> int \<times> string" where
  "sign_split s =
     (case s of
        [] \<Rightarrow> (1, [])
      | c # r \<Rightarrow> if c = CHR ''-'' then (-1, r) else if c = CHR ''+'' then (1, r) else (1, s))"

text \<open>The exponent of a prefix \<open>e[+-]digits\<close>; without digits there is no exponent.\<close>

definition exp_part :: "string \<Rightarrow> int" where
  "exp_part s =
     (case s of
        [] \<Rightarrow> 0
      | c # r \<Rightarrow>
          if c = CHR ''e'' \<or> c = CHR ''E'' then
            (case sign_split r of (sg, t) \<Rightarrow>
               (let ds = takeWhile is_digit t in if ds = [] then 0 else sg * int (digits_val ds)))
          else 0)"

definition scale10 :: "rat \<Rightarrow> int \<Rightarrow> rat" where
  "scale10 x e = (if 0 \<le> e then x * 10 ^ nat e else x / 10 ^ nat (- e))"

definition parseFloat :: "string \<Rightarrow> js_num" where
  "parseFloat s =
     (case sign_split (dropWhile js_ws s) of (sg, t) \<Rightarrow>
        if take 8 t = ''Infinity'' then JInf (0 < sg)
        else
          (let ip = takeWhile is_digit t; r1 = dropWhile is_digit t;
               fp = (case r1 of [] \<Rightarrow> [] | c # r \<Rightarrow> if c = CHR ''.'' then takeWhile is_digit r else []);
               r2 = (case r1 of [] \<Rightarrow> [] | c # r \<Rightarrow> if c = CHR ''.'' then dropWhile is_digit r else r1)
           in if ip = [] \<and> fp = [] then JNaN
              else JNum (scale10 (of_int sg * (of_nat (digits_val ip) + of_nat (digits_val fp) / 10 ^ length fp))
                                 (exp_part r2))))"

section \<open>Alert texts\<close>

definition error_prefix :: string where
  "error_prefix = utf8 [216, 174, 216, 183, 216, 163, 58, 32]"

definition msg_paid :: string where
  "msg_paid = utf8 [216, 170, 217, 133, 32, 216, 170, 216, 179, 216, 175, 217, 138, 216, 175, 32, 216, 167,
     217, 132, 216, 175, 217, 129, 216, 185, 216, 169, 32, 216, 168, 217, 134, 216, 172, 216, 167, 216, 173]"

definition msg_pay_failed :: string where
  "msg_pay_failed = utf8 [216, 173, 216, 175, 216, 171, 32, 216, 174, 216, 183, 216, 163, 32, 216, 163, 216,
     171, 217, 134, 216, 167, 216, 161, 32, 216, 170, 216, 179, 216, 175, 217, 138, 216, 175, 32, 216, 167,
     217, 132, 216, 175, 217, 129, 216, 185, 216, 169]"

definition msg_payment_added :: string where
  "msg_payment_added = utf8 [216, 170, 217, 133, 32, 216, 165, 216, 182, 216, 167, 217, 129, 216, 169, 32,
     216, 167, 217, 132, 216, 175, 217, 129, 216, 185, 216, 169, 32, 216, 168, 217, 134, 216, 172, 216, 167,
     216, 173]"

definition msg_add_payment_failed :: string where
  "msg_add_payment_failed = utf8 [216, 173, 216, 175, 216, 171, 32, 216, 174, 216, 183, 216, 163, 32, 216,
     163, 216, 171, 217, 134, 216, 167, 216, 161, 32, 216, 165, 216, 182, 216, 167, 217, 129, 216, 169, 32,
     216, 167, 217, 132, 216, 175, 217, 129, 216, 185, 216, 169]"

definition msg_commission_failed :: string where
  "msg_commission_failed = utf8 [216, 173, 216, 175, 216, 171, 32, 216, 174, 216, 183, 216, 163, 32, 216, 163,
     216, 171, 217, 134, 216, 167, 216, 161, 32, 216, 175, 217, 129, 216, 185, 32, 216, 167, 217, 132, 216,
     185, 217, 133, 217, 136, 217, 132, 216, 169]"

definition msg_class_commission_failed :: string where
  "msg_class_commission_failed = utf8 [216, 173, 216, 175, 216, 171, 32, 216, 174, 216, 183, 216, 163, 32,
     216, 163, 216, 171, 217, 134, 216, 167, 216, 161, 32, 216, 175, 217, 129, 216, 185, 32, 216, 185, 217,
     133, 217, 136, 217, 132, 216, 169, 32, 216, 167, 217, 132, 216, 173, 216, 181, 216, 169]"

definition msg_commission_paid :: string where
  "msg_commission_paid = utf8 [216, 170, 217, 133, 32, 216, 175, 217, 129, 216, 185, 32, 216, 167, 217, 132,
     216, 185, 217, 133, 217, 136, 217, 132, 216, 169, 32, 216, 168, 217, 134, 216, 172, 216, 167, 216, 173]"

definition msg_pay_all_failed :: string where
  "msg_pay_all_failed = utf8 [216, 173, 216, 175, 216, 171, 32, 216, 174, 216, 183, 216, 163, 32, 216, 163,
     216, 171, 217, 134, 216, 167, 216, 161, 32, 216, 175, 217, 129, 216, 185, 32, 217, 133, 216, 179, 216,
     170, 216, 173, 217, 130, 216, 167, 216, 170, 32, 216, 167, 217, 132, 216, 163, 216, 179, 216, 167, 216,
     170, 216, 176, 216, 169]"

definition msg_expense_deleted :: string where
  "msg_expense_deleted = utf8 [216, 170, 217, 133, 32, 216, 173, 216, 176, 217, 129, 32, 216, 167, 217, 132,
     217, 133, 216, 181, 216, 177, 217, 136, 217, 129, 32, 216, 168, 217, 134, 216, 172, 216, 167, 216, 173]"

definition msg_delete_failed :: string where
  "msg_delete_failed = utf8 [216, 173, 216, 175, 216, 171, 32, 216, 174, 216, 183, 216, 163, 32, 216, 163,
     216, 171, 217, 134, 216, 167, 216, 161, 32, 216, 173, 216, 176, 217, 129, 32, 216, 167, 217, 132, 217,
     133, 216, 181, 216, 177, 217, 136, 217, 129]"

definition msg_expense_added :: string where
  "msg_expense_added = utf8 [216, 170, 217, 133, 32, 216, 165, 216, 182, 216, 167, 217, 129, 216, 169, 32,
     216, 167, 217, 132, 217, 133, 216, 181, 216, 177, 217, 136, 217, 129, 32, 216, 168, 217, 134, 216, 172,
     216, 167, 216, 173]"

definition msg_add_expense_failed :: string where
  "msg_add_expense_failed = utf8 [216, 173, 216, 175, 216, 171, 32, 216, 174, 216, 183, 216, 163, 32, 216,
     163, 216, 171, 217, 134, 216, 167, 216, 161, 32, 216, 165, 216, 182, 216, 167, 217, 129, 216, 169, 32,
     216, 167, 217, 132, 217, 133, 216, 181, 216, 177, 217, 136, 217, 129]"

section \<open>The shared shape of a record action\<close>

record action_out =
  ao_requests :: "request list"
  ao_alerts :: "string list"
  ao_hidden :: "string list"
  ao_loads :: "load list"
  ao_downloads :: "string list"

definition no_effect :: action_out where
  "no_effect = \<lparr>ao_requests = [], ao_alerts = [], ao_hidden = [], ao_loads = [], ao_downloads = []\<rparr>"

definition sent :: "request \<Rightarrow> string list \<Rightarrow> string list \<Rightarrow> load list \<Rightarrow> action_out" where
  "sent rq al hs ld = no_effect\<lparr>ao_requests := [rq], ao_alerts := al, ao_hidden := hs, ao_loads := ld\<rparr>"

text \<open>The success alert: a literal, or \<open>alert(result.message)\<close>, which reads the body.\<close>

datatype ok_alert = FixedAlert string | MessageAlert

fun ok_text :: "ok_alert \<Rightarrow> json_body \<Rightarrow> string option" where
  "ok_text (FixedAlert a) b = Some a"
| "ok_text MessageAlert (JObj obj) = Some (field obj ''message'')"
| "ok_text MessageAlert (NotJson m) = None"

text \<open>
  What follows the awaited request in every record action:
  \<open>if (response.ok) { alert(...); hideModal(m); load...() } else { const error = await
  response.json(); alert(`khata: ${error.error}`) }\<close>, all inside \<open>try\<close>, whose
  \<open>catch\<close> shows the generic alert. \<open>hideModal\<close> of an id the page lacks raises a
  \<open>TypeError\<close> after the success alert, and the loaders are not started.
\<close>

definition settle ::
  "string set \<Rightarrow> request \<Rightarrow> ok_alert \<Rightarrow> string option \<Rightarrow> load list \<Rightarrow> string \<Rightarrow> json_body reply
   \<Rightarrow> action_out" where
  "settle ids rq ok modal loads generic r =
     (case r of
        NetError \<Rightarrow> sent rq [generic] [] []
      | HttpReply False (NotJson m) \<Rightarrow> sent rq [generic] [] []
      | HttpReply False (JObj e) \<Rightarrow> sent rq [error_prefix @ field e ''error''] [] []
      | HttpReply True b \<Rightarrow>
          (case ok_text ok b of
             None \<Rightarrow> sent rq [generic] [] []
           | Some a \<Rightarrow>
               (case modal of
                  None \<Rightarrow> sent rq [a] [] loads
                | Some m \<Rightarrow> if m \<in> ids then sent rq [a] [m] loads else sent rq [a, generic] [] [])))"

section \<open>The record actions\<close>

definition markAsPaid :: "string \<Rightarrow> string \<Rightarrow> json_body reply \<Rightarrow> action_out" where
  "markAsPaid now pid r =
     settle {} \<lparr>rq_method = ''PUT'', rq_path = ''/api/payments/'' @ pid @ ''/pay'',
                rq_body = [(''paymentDate'', JStr now), (''paymentMethod'', JStr ''cash'')]\<rparr>
       (FixedAlert msg_paid) None [LoadPayments, LoadDashboardData] msg_pay_failed r"

record payment_form =
  pm_student :: string
  pm_class :: string
  pm_month :: string
  pm_amount :: string
  pm_method :: string
  pm_date :: string

text \<open>\<open>submitPayment\<close>: the six input values are sent as strings, the amount included.\<close>

definition submitPayment :: "string set \<Rightarrow> payment_form \<Rightarrow> json_body reply \<Rightarrow> action_out" where
  "submitPayment ids f r =
     settle ids \<lparr>rq_method = ''POST'', rq_path = ''/api/payments'',
                 rq_body = [(''student'', JStr (pm_student f)), (''class'', JStr (pm_class f)),
                            (''month'', JStr (pm_month f)), (''amount'', JStr (pm_amount f)),
                            (''paymentMethod'', JStr (pm_method f)), (''paymentDate'', JStr (pm_date f))]\<rparr>
       (FixedAlert msg_payment_added) (Some ''addPaymentModal'') [LoadPayments] msg_add_payment_failed r"

text \<open>Both declarations of \<open>paySingleCommission\<close> (1006 and 2059) have this body.\<close>

definition paySingleCommission :: "string \<Rightarrow> string \<Rightarrow> json_body reply \<Rightarrow> action_out" where
  "paySingleCommission now cid r =
     settle {} \<lparr>rq_method = ''POST'', rq_path = ''/api/accounting/teacher-commissions/pay-single'',
                rq_body = [(''commissionId'', JStr cid), (''paymentMethod'', JStr ''cash''),
                           (''paymentDate'', JStr (iso_date now))]\<rparr>
       MessageAlert None [LoadTeacherCommissions, LoadDashboardData] msg_commission_failed r"

record class_commission_form =
  ccp_teacher :: string
  ccp_class :: string
  ccp_month :: string
  ccp_method :: string
  ccp_date :: string
  ccp_percentage :: string

definition submitClassCommissionPayment ::
  "string set \<Rightarrow> class_commission_form \<Rightarrow> json_body reply \<Rightarrow> action_out" where
  "submitClassCommissionPayment ids f r =
     settle ids \<lparr>rq_method = ''POST'', rq_path = ''/api/accounting/teacher-commissions/pay-by-class'',
                 rq_body = [(''teacherId'', JStr (ccp_teacher f)), (''classId'', JStr (ccp_class f)),
                            (''month'', JStr (ccp_month f)), (''paymentMethod'', JStr (ccp_method f)),
                            (''paymentDate'', JStr (ccp_date f)),
                            (''percentage'', json_number (parseFloat (ccp_percentage f)))]\<rparr>
       MessageAlert (Some ''payClassCommissionModal'') [LoadTeacherCommissions, LoadDashboardData]
       msg_class_commission_failed r"

record commission_form =
  cf_id :: string
  cf_method :: string
  cf_date :: string

definition submitCommissionPayment :: "string set \<Rightarrow> commission_form \<Rightarrow> json_body reply \<Rightarrow> action_out" where
  "submitCommissionPayment ids f r =
     settle ids \<lparr>rq_method = ''POST'', rq_path = ''/api/accounting/teacher-commissions/pay'',
                 rq_body = [(''commissionId'', JStr (cf_id f)), (''paymentMethod'', JStr (cf_method f)),
                            (''paymentDate'', JStr (cf_date f))]\<rparr>
       (FixedAlert msg_commission_paid) (Some ''payCommissionModal'')
       [LoadTeacherCommissions, LoadDashboardData] msg_commission_failed r"

text \<open>\<open>if (!confirm(...)) return;\<close> comes before the loading overlay and the request.\<close>

definition payAllTeachers :: "bool \<Rightarrow> string \<Rightarrow> json_body reply \<Rightarrow> action_out" where
  "payAllTeachers confirmed now r =
     (if \<not> confirmed then no_effect
      else settle {} \<lparr>rq_method = ''POST'', rq_path = ''/api/teachers/pay-all-salaries'',
                      rq_body = [(''paymentMethod'', JStr ''cash''), (''paymentDate'', JStr now)]\<rparr>
             MessageAlert None [LoadTeacherCommissions, LoadDashboardData] msg_pay_all_failed r)"

definition deleteExpense :: "bool \<Rightarrow> string \<Rightarrow> json_body reply \<Rightarrow> action_out" where
  "deleteExpense confirmed eid r =
     (if \<not> confirmed then no_effect
      else settle {} \<lparr>rq_method = ''DELETE'', rq_path = ''/api/accounting/expenses/'' @ eid, rq_body = []\<rparr>
             (FixedAlert msg_expense_deleted) None [LoadExpenses, LoadDashboardData] msg_delete_failed r)"

record expense_form =
  ef_description :: string
  ef_amount :: string
  ef_category :: string
  ef_type :: string
  ef_method :: string
  ef_date :: string

text \<open>\<open>submitExpense\<close>: the amount is \<open>parseFloat\<close> of its input.\<close>

definition submitExpense :: "string set \<Rightarrow> expense_form \<Rightarrow> json_body reply \<Rightarrow> action_out" where
  "submitExpense ids f r =
     settle ids \<lparr>rq_method = ''POST'', rq_path = ''/api/accounting/expenses'',
                 rq_body = [(''description'', JStr (ef_description f)),
                            (''amount'', json_number (parseFloat (ef_amount f))),
                            (''category'', JStr (ef_category f)), (''type'', JStr (ef_type f)),
                            (''paymentMethod'', JStr (ef_method f)), (''date'', JStr (ef_date f))]\<rparr>
       (FixedAlert msg_expense_added) (Some ''addExpenseModal'') [LoadExpenses, LoadDashboardData]
       msg_add_expense_failed r"

section \<open>The actions as one type\<close>

text \<open>
  The handlers reachable from a button or a modal form, with the arguments they read;
  \<open>run_action\<close> dispatches as the page's \<open>onclick\<close> attributes do.
\<close>

datatype record_action =
    MarkAsPaid string | SubmitPayment payment_form | PaySingleCommission string
  | SubmitClassCommissionPayment class_commission_form | SubmitCommissionPayment commission_form
  | PayAllTeachers bool | DeleteExpense bool string | SubmitExpense expense_form

fun run_action :: "string set \<Rightarrow> string \<Rightarrow> record_action \<Rightarrow> json_body reply \<Rightarrow> action_out" where
  "run_action ids now (MarkAsPaid p) r = markAsPaid now p r"
| "run_action ids now (SubmitPayment f) r = submitPayment ids f r"
| "run_action ids now (PaySingleCommission c) r = paySingleCommission now c r"
| "run_action ids now (SubmitClassCommissionPayment f) r = submitClassCommissionPayment ids f r"
| "run_action ids now (SubmitCommissionPayment f) r = submitCommissionPayment ids f r"
| "run_action ids now (PayAllTeachers b) r = payAllTeachers b now r"
| "run_action ids now (DeleteExpense b e) r = deleteExpense b e r"
| "run_action ids now (SubmitExpense f) r = submitExpense ids f r"

section \<open>Viewing a payment\<close>

record payment_detail =
  pd_student :: "ref option"
  pd_class :: "ref option"
  pd_amount :: string
  pd_month :: string
  pd_status :: string

definition msg_view_payment_failed :: string where
  "msg_view_payment_failed = utf8 [216, 173, 216, 175, 216, 171, 32, 216, 174, 216, 183, 216, 163, 32, 216,
     163, 216, 171, 217, 134, 216, 167, 216, 161, 32, 216, 170, 216, 173, 217, 133, 217, 138, 217, 132, 32,
     216, 170, 217, 129, 216, 167, 216, 181, 217, 138, 217, 132, 32, 216, 167, 217, 132, 216, 175, 217, 129,
     216, 185, 216, 169]"

text \<open>
  The details alert: the labels \<open>tafasil al-daf'a\<close>, \<open>al-talib\<close>, \<open>al-hissa\<close>,
  \<open>al-mablagh\<close>, \<open>al-shahr\<close>, \<open>al-hala\<close> with \<open>payment.student.name\<close>,
  \<open>payment.class.name\<close> (both read unguarded), the amount as printed, the month and the
  status.
\<close>

definition payment_details_text :: "string \<Rightarrow> string \<Rightarrow> payment_detail \<Rightarrow> string" where
  "payment_details_text sn cn p =
     utf8 [216, 170, 217, 129, 216, 167, 216, 181, 217, 138, 217, 132, 32, 216, 167, 217, 132, 216, 175, 217,
           129, 216, 185, 216, 169, 58, 10, 216, 167, 217, 132, 216, 183, 216, 167, 217, 132, 216, 168, 58, 32]
     @ sn @ utf8 [10, 216, 167, 217, 132, 216, 173, 216, 181, 216, 169, 58, 32]
     @ cn @ utf8 [10, 216, 167, 217, 132, 217, 133, 216, 168, 217, 132, 216, 186, 58, 32]
     @ pd_amount p @ utf8 [32, 216, 175, 46, 216, 172, 10, 216, 167, 217, 132, 216, 180, 217, 135, 216, 177, 58, 32]
     @ pd_month p @ utf8 [10, 216, 167, 217, 132, 216, 173, 216, 167, 217, 132, 216, 169, 58, 32] @ pd_status p"

text \<open>
  \<open>viewPayment\<close>: no loading overlay; a non-ok reply shows nothing; a body that is not
  JSON (\<open>None\<close>) or a missing student or class ends in the generic alert.
\<close>

definition viewPayment :: "string \<Rightarrow> payment_detail option reply \<Rightarrow> action_out" where
  "viewPayment pid r =
     (let rq = \<lparr>rq_method = ''GET'', rq_path = ''/api/payments/'' @ pid, rq_body = []\<rparr> in
      case r of
        NetError \<Rightarrow> sent rq [msg_view_payment_failed] [] []
      | HttpReply False _ \<Rightarrow> sent rq [] [] []
      | HttpReply True None \<Rightarrow> sent rq [msg_view_payment_failed] [] []
      | HttpReply True (Some p) \<Rightarrow>
          (case (pd_student p, pd_class p) of
             (Some s, Some c) \<Rightarrow> sent rq [payment_details_text (ref_name s) (ref_name c) p] [] []
           | _ \<Rightarrow> sent rq [msg_view_payment_failed] [] []))"

section \<open>Exports\<close>

definition export_done_prefix :: string where
  "export_done_prefix = utf8 [216, 170, 217, 133, 32, 216, 170, 216, 181, 216, 175, 217, 138, 216, 177, 32]"

definition export_done_suffix :: string where
  "export_done_suffix = utf8 [32, 216, 168, 217, 134, 216, 172, 216, 167, 216, 173]"

definition msg_fetch_failed :: string where
  "msg_fetch_failed = utf8 [217, 129, 216, 180, 217, 132, 32, 217, 129, 217, 138, 32, 216, 172, 217, 132, 216,
     168, 32, 216, 167, 217, 132, 216, 168, 217, 138, 216, 167, 217, 134, 216, 167, 216, 170]"

definition export_failed_prefix :: string where
  "export_failed_prefix = utf8 [216, 173, 216, 175, 216, 171, 32, 216, 174, 216, 183, 216, 163, 32, 216, 163,
     216, 171, 217, 134, 216, 167, 216, 161, 32, 216, 167, 217, 132, 216, 170, 216, 181, 216, 175, 217, 138,
     216, 177, 58, 32]"

text \<open>
  \<open>exportData(endpoint, fileName, filters)\<close>: the request of the Query theory; an ok JSON
  reply is written to \<open>`${fileName}_${date}.xlsx`\<close> and announced; a non-ok reply throws
  \<open>new Error('fashal fi jalb al-bayanat')\<close>; the \<open>catch\<close> shows the prefix and
  \<open>error.message\<close>.
\<close>

definition exportData :: "string \<Rightarrow> string \<Rightarrow> (string \<times> string) list \<Rightarrow> string \<Rightarrow> json_body reply \<Rightarrow> action_out" where
  "exportData endpoint fileName filters now r =
     (let rq = \<lparr>rq_method = ''GET'', rq_path = exportData_url endpoint filters, rq_body = []\<rparr> in
      case r of
        NetError \<Rightarrow> sent rq [export_failed_prefix @ ''Failed to fetch''] [] []
      | HttpReply False _ \<Rightarrow> sent rq [export_failed_prefix @ msg_fetch_failed] [] []
      | HttpReply True (NotJson m) \<Rightarrow> sent rq [export_failed_prefix @ m] [] []
      | HttpReply True (JObj _) \<Rightarrow>
          (sent rq [export_done_prefix @ fileName @ export_done_suffix] [] [])
            \<lparr>ao_downloads := [fileName @ ''_'' @ iso_date now @ ''.xlsx'']\<rparr>)"

definition payments_name :: string where
  "payments_name = utf8 [216, 167, 217, 132, 217, 133, 216, 175, 217, 129, 217, 136, 216, 185, 216, 167, 216, 170]"

definition expenses_name :: string where
  "expenses_name = utf8 [216, 167, 217, 132, 217, 133, 216, 181, 216, 177, 217, 136, 217, 129, 216, 167, 216, 170]"

definition invoices_name :: string where
  "invoices_name = utf8 [216, 167, 217, 132, 217, 129, 217, 136, 216, 167, 216, 170, 217, 138, 216, 177]"

text \<open>\<open>exportPayments\<close> passes four of the five payment filters: not the student search.\<close>

definition exportPayments :: "payment_filters \<Rightarrow> string \<Rightarrow> json_body reply \<Rightarrow> action_out" where
  "exportPayments f now r =
     exportData ''payments'' payments_name
       [(''status'', pf_status f), (''month'', pf_month f), (''paymentMethod'', pf_method f),
        (''class'', pf_class f)] now r"

definition exportExpenses :: "string \<Rightarrow> string \<Rightarrow> string \<Rightarrow> string \<Rightarrow> string \<Rightarrow> json_body reply \<Rightarrow> action_out" where
  "exportExpenses ty cat sd ed now r =
     exportData ''accounting/expenses'' expenses_name
       [(''type'', ty), (''category'', cat), (''startDate'', sd), (''endDate'', ed)] now r"

definition exportInvoices :: "string \<Rightarrow> string \<Rightarrow> string \<Rightarrow> string \<Rightarrow> string \<Rightarrow> json_body reply \<Rightarrow> action_out" where
  "exportInvoices ty st sd ed now r =
     exportData ''accounting/invoices'' invoices_name
       [(''type'', ty), (''status'', st), (''startDate'', sd), (''endDate'', ed)] now r"

definition class_file_prefix :: string where
  "class_file_prefix = utf8 [216, 185, 217, 133, 217, 136, 217, 132, 216, 169, 95, 216, 167, 217, 132, 216,
     173, 216, 181, 216, 169, 95]"

definition msg_export_class_failed :: string where
  "msg_export_class_failed = utf8 [216, 173, 216, 175, 216, 171, 32, 216, 174, 216, 183, 216, 163, 32, 216,
     163, 216, 171, 217, 134, 216, 167, 216, 161, 32, 216, 170, 216, 181, 216, 175, 217, 138, 216, 177, 32,
     216, 167, 217, 132, 216, 170, 217, 130, 216, 177, 217, 138, 216, 177]"

text \<open>
  \<open>exportClassCommissions\<close>: the three ids are put into the URL as they are; an ok
  reply is downloaded as a blob, a non-ok reply does nothing.
\<close>

definition exportClassCommissions :: "string \<Rightarrow> string \<Rightarrow> string \<Rightarrow> 'b reply \<Rightarrow> action_out" where
  "exportClassCommissions tid cid month r =
     (let rq = \<lparr>rq_method = ''GET'', rq_path = ''/api/accounting/teacher-commissions/export?teacher='' @ tid
                  @ ''&class='' @ cid @ ''&month='' @ month, rq_body = []\<rparr> in
      case r of
        NetError \<Rightarrow> sent rq [msg_export_class_failed] [] []
      | HttpReply False _ \<Rightarrow> sent rq [] [] []
      | HttpReply True _ \<Rightarrow> (sent rq [] [] [])\<lparr>ao_downloads := [class_file_prefix @ month @ ''.xlsx'']\<rparr>)"

section \<open>Adding an expense from code\<close>

definition add_expense_default :: string where
  "add_expense_default = utf8 [217, 129, 216, 180, 217, 132, 32, 217, 129, 217, 138, 32, 216, 165, 216, 182,
     216, 167, 217, 129, 216, 169, 32, 216, 167, 217, 132, 217, 133, 216, 181, 216, 177, 217, 136, 217, 129]"

definition add_expense_failed_prefix :: string where
  "add_expense_failed_prefix = utf8 [216, 173, 216, 175, 216, 171, 32, 216, 174, 216, 183, 216, 163, 32, 216,
     163, 216, 171, 217, 134, 216, 167, 216, 161, 32, 216, 165, 216, 182, 216, 167, 217, 129, 216, 169, 32,
     216, 167, 217, 132, 217, 133, 216, 181, 216, 177, 217, 136, 217, 129, 58, 32]"

text \<open>
  \<open>addNewExpense(expenseData)\<close>: returns the created expense, or rethrows after the
  alert; the value \<open>Inl m\<close> is the rethrown error with its message \<open>m\<close>. A non-ok reply
  throws \<open>new Error(error.error || 'fashal fi idafat al-masruf')\<close>.
\<close>

definition addNewExpense ::
  "(string \<times> jval) list \<Rightarrow> json_body reply \<Rightarrow> action_out \<times> (string + (string \<times> string) list)" where
  "addNewExpense d r =
     (let rq = \<lparr>rq_method = ''POST'', rq_path = ''/api/accounting/expenses'', rq_body = d\<rparr>;
          fail = (\<lambda>m. (sent rq [add_expense_failed_prefix @ m] [] [], Inl m)) in
      case r of
        NetError \<Rightarrow> fail ''Failed to fetch''
      | HttpReply True (JObj e) \<Rightarrow> (sent rq [msg_expense_added] [] [LoadExpenses], Inr e)
      | HttpReply True (NotJson m) \<Rightarrow> fail m
      | HttpReply False (JObj e) \<Rightarrow> fail (js_or (map_of e ''error'') add_expense_default)
      | HttpReply False (NotJson m) \<Rightarrow> fail m)"

section \<open>What the record actions promise\<close>

text \<open>
  The contract of the record actions (section 4.4 of the specification: one request per
  record, then ``re-fetch the list and the dashboard summary''): whether the handler goes
  ahead (a cancelled \<open>confirm\<close> stops it) and which list its record belongs to.
\<close>

fun action_confirmed :: "record_action \<Rightarrow> bool" where
  "action_confirmed (PayAllTeachers b) = b"
| "action_confirmed (DeleteExpense b e) = b"
| "action_confirmed a = True"

fun changed_list :: "record_action \<Rightarrow> load" where
  "changed_list (MarkAsPaid p) = LoadPayments"
| "changed_list (SubmitPayment f) = LoadPayments"
| "changed_list (DeleteExpense b e) = LoadExpenses"
| "changed_list (SubmitExpense f) = LoadExpenses"
| "changed_list a = LoadTeacherCommissions"

section \<open>Properties\<close>

lemma exportData_url_parse:
  assumes "CHR ''?'' \<notin> set endpoint" and "CHR ''#'' \<notin> set endpoint"
    and "\<forall>(k, v) \<in> set filters. key_safe k"
  shows "parse_query (exportData_url endpoint filters) = filter (\<lambda>(k, v). v \<noteq> []) (obj_entries filters)"
proof -
  have kv: "\<forall>(k, v) \<in> set (obj_entries filters). key_safe k"
    using assms(3) by (simp add: set_obj_entries)
  have "parse_query ((''/api/'' @ endpoint) @ query_string (concat (map export_param (obj_entries filters))))
        = map parse_pair (concat (map export_param (obj_entries filters)))"
    by (rule parse_query_string) (use assms(1,2) encoded_params_safe[OF kv] in simp_all)
  then show ?thesis unfolding parse_encoded_params[OF kv] by (simp add: exportData_url_def)
qed

lemma settle_failed:
  assumes "\<forall>b. r \<noteq> HttpReply True b"
  shows "ao_loads (settle ids rq ok modal loads generic r) = []
       \<and> ao_hidden (settle ids rq ok modal loads generic r) = []
       \<and> length (ao_alerts (settle ids rq ok modal loads generic r)) = 1
       \<and> ao_requests (settle ids rq ok modal loads generic r) = [rq]"
  using assms by (auto simp: settle_def sent_def no_effect_def split: reply.splits bool.splits json_body.splits)

lemma settle_error_reply:
  "settle ids rq ok modal loads generic (HttpReply False (JObj e)) = sent rq [error_prefix @ field e ''error''] [] []"
  by (simp add: settle_def)

lemma sent_fields [simp]:
  "ao_requests (sent rq al hs ld) = [rq]" "ao_alerts (sent rq al hs ld) = al"
  "ao_hidden (sent rq al hs ld) = hs" "ao_loads (sent rq al hs ld) = ld" "ao_downloads (sent rq al hs ld) = []"
  by (simp_all add: sent_def no_effect_def)

lemmas action_defs = markAsPaid_def submitPayment_def paySingleCommission_def
  submitClassCommissionPayment_def submitCommissionPayment_def payAllTeachers_def deleteExpense_def
  submitExpense_def

text \<open>C17. When the request of a record action is rejected or answered with a non-ok status, the
  action starts no loader, hides no modal, and shows at most one alert after at most one
  request.\<close>

theorem failed_action_no_reload:
  assumes "\<forall>b. r \<noteq> HttpReply True b"
  shows "ao_loads (run_action ids now a r) = [] \<and> ao_hidden (run_action ids now a r) = []
       \<and> length (ao_alerts (run_action ids now a r)) \<le> 1 \<and> length (ao_requests (run_action ids now a r)) \<le> 1"
  using settle_failed[OF assms] by (cases a) (simp_all add: action_defs no_effect_def)

text \<open>C18. A confirmed record action answered ok with a JSON object, on a page that has its modals,
  sends one request, shows one alert and reloads the list its record belongs to and then
  the dashboard, except submitPayment, which reloads only the payments list.\<close>

theorem action_refresh_contract:
  assumes "r = HttpReply True (JObj e)" and "action_confirmed a"
    and "{''addPaymentModal'', ''payClassCommissionModal'', ''payCommissionModal'', ''addExpenseModal''} \<subseteq> ids"
  shows "ao_loads (run_action ids now a r)
           = changed_list a # (case a of SubmitPayment f \<Rightarrow> [] | _ \<Rightarrow> [LoadDashboardData])
       \<and> length (ao_alerts (run_action ids now a r)) = 1 \<and> length (ao_requests (run_action ids now a r)) = 1"
  using assms by (cases a) (simp_all add: action_defs settle_def)

text \<open>C19. A non-ok JSON reply without an error field makes every record action alert the text
  'undefined' after its error prefix, whereas addNewExpense falls back to its default
  message.\<close>

theorem missing_error_field_shows_undefined:
  assumes "action_confirmed a" and "map_of e ''error'' = None"
  shows "ao_alerts (run_action ids now a (HttpReply False (JObj e))) = [error_prefix @ ''undefined'']
       \<and> snd (addNewExpense d (HttpReply False (JObj e))) = Inl add_expense_default"
proof -
  have "field e ''error'' = ''undefined''" using assms(2) by (simp add: field_def)
  then show ?thesis
    using assms by (cases a) (simp_all add: action_defs settle_error_reply addNewExpense_def)
qed

text \<open>C20. If the page lacks the add-payment modal, a payment the server accepted is announced and
  then followed by the generic failure alert, and the payments list is not reloaded.\<close>

theorem success_then_missing_modal:
  assumes "''addPaymentModal'' \<notin> ids"
  shows "ao_alerts (submitPayment ids f (HttpReply True b)) = [msg_payment_added, msg_add_payment_failed]
       \<and> ao_loads (submitPayment ids f (HttpReply True b)) = []
       \<and> length (ao_requests (submitPayment ids f (HttpReply True b))) = 1"
  using assms by (simp add: submitPayment_def settle_def)

text \<open>C21. The payments export requests exactly the non-empty status, month, method and class
  filters, as the server reads them back, and never the student search that the shown
  list applies.\<close>

theorem exportPayments_omits_student:
  "parse_query (rq_path (hd (ao_requests (exportPayments f now r))))
     = filter (\<lambda>(k, v). v \<noteq> []) [(''status'', pf_status f), (''month'', pf_month f),
                                   (''paymentMethod'', pf_method f), (''class'', pf_class f)]"
proof -
  let ?fl = "[(''status'', pf_status f), (''month'', pf_month f), (''paymentMethod'', pf_method f),
              (''class'', pf_class f)]"
  have "obj_entries ?fl = ?fl"
    by (simp add: obj_entries_def is_array_index_def is_digit_def)
  moreover have "parse_query (exportData_url ''payments'' ?fl) = filter (\<lambda>(k, v). v \<noteq> []) (obj_entries ?fl)"
    by (rule exportData_url_parse) (simp_all add: key_safe_def url_safe_def)
  ultimately show ?thesis
    by (cases r) (auto simp: exportPayments_def exportData_def Let_def split: bool.splits json_body.splits)
qed

theorem exportData_outcomes:
  "(ao_downloads (exportData ep fn fl now r) \<noteq> [] \<longleftrightarrow> (\<exists>obj. r = HttpReply True (JObj obj)))
   \<and> length (ao_alerts (exportData ep fn fl now r)) = 1 \<and> ao_loads (exportData ep fn fl now r) = []
   \<and> ao_alerts (exportData ep fn fl now (HttpReply False b)) = [export_failed_prefix @ msg_fetch_failed]"
  by (auto simp: exportData_def Let_def split: reply.splits bool.splits json_body.splits)

lemma digit_not_ws: "is_digit c \<Longrightarrow> \<not> js_ws c \<and> c \<noteq> CHR ''-'' \<and> c \<noteq> CHR ''+'' \<and> c \<noteq> CHR ''I''"
  by (auto simp: is_digit_def js_ws_def)

lemma parseFloat_nat_str_append:
  assumes "s = [] \<or> \<not> is_digit (hd s) \<and> hd s \<noteq> CHR ''.'' \<and> hd s \<noteq> CHR ''e'' \<and> hd s \<noteq> CHR ''E''"
  shows "parseFloat (nat_str n @ s) = JNum (of_nat n)"
proof -
  obtain c cs where ns0: "nat_str n = c # cs" and c: "is_digit c" using nat_str_Cons by blast
  have ns: "nat_str n \<noteq> []" using ns0 by simp
  have digs: "\<forall>x \<in> set (nat_str n). is_digit x" using set_nat_str[of n] by auto
  have tw: "takeWhile is_digit (nat_str n @ s) = nat_str n" and dw: "dropWhile is_digit (nat_str n @ s) = s"
    using digs assms by (cases s; simp add: takeWhile_append dropWhile_append)+
  have ws: "dropWhile js_ws (nat_str n @ s) = nat_str n @ s" and sg: "sign_split (nat_str n @ s) = (1, nat_str n @ s)"
    using digit_not_ws[OF c] by (simp_all add: ns0 sign_split_def)
  have inf: "take 8 (nat_str n @ s) \<noteq> ''Infinity''" using digit_not_ws[OF c] by (simp add: ns0)
  have ex: "exp_part s = 0" using assms by (cases s) (auto simp: exp_part_def)
  have fp: "(case s of [] \<Rightarrow> [] | c # r \<Rightarrow> if c = CHR ''.'' then takeWhile is_digit r else []) = []"
    and r2: "(case s of [] \<Rightarrow> [] | c # r \<Rightarrow> if c = CHR ''.'' then dropWhile is_digit r else s) = s"
    using assms by (cases s; simp)+
  show ?thesis
    unfolding parseFloat_def ws sg using inf ns
    by (simp add: Let_def tw dw fp r2 ex digits_val_nat_str scale10_def digits_val_Nil)
qed

lemma parseFloat_to_fixed2: "parseFloat (to_fixed2 q) = JNum (fixed2_round q)"
proof -
  define n where "n = nat (floor (\<bar>q\<bar> * 100 + 1 / 2))"
  define sg :: int where "sg = (if q < 0 then - 1 else 1)"
  let ?a = "nat_str (n div 100)"
  let ?p = "pad_start 2 CHR ''0'' (nat_str (n mod 100))"
  let ?u = "?a @ CHR ''.'' # ?p"
  have p: "length ?p = 2" "list_all is_digit ?p" "digits_val ?p = n mod 100"
    using pad2_digits[of "n mod 100"] by simp_all
  obtain c cs where a: "?a = c # cs" and c: "is_digit c" using nat_str_Cons by blast
  have ne: "?a \<noteq> []" using a by simp
  have da: "\<forall>x \<in> set ?a. is_digit x" using set_nat_str[of "n div 100"] by auto
  have dot: "\<not> is_digit CHR ''.''" by (simp add: is_digit_def)
  have tw: "takeWhile is_digit ?u = ?a" and dw: "dropWhile is_digit ?u = CHR ''.'' # ?p"
    using da dot by (simp_all add: takeWhile_append dropWhile_append)
  have tp: "takeWhile is_digit ?p = ?p" and dp: "dropWhile is_digit ?p = []"
    using p(2) by (simp_all add: list_all_iff)
  have s: "to_fixed2 q = (if q < 0 then ''-'' else []) @ ?u"
    by (simp add: to_fixed2_def n_def Let_def)
  have ss: "sign_split (dropWhile js_ws (to_fixed2 q)) = (sg, ?u)"
    using digit_not_ws[OF c] unfolding s by (simp add: a sg_def sign_split_def js_ws_def)
  have inf: "take 8 ?u \<noteq> ''Infinity''" using digit_not_ws[OF c] by (simp add: a)
  have n: "of_int (floor (\<bar>q\<bar> * 100 + 1 / 2)) = (of_nat n :: rat)"
    unfolding n_def by (simp add: of_nat_nat)
  have v: "(of_nat (n div 100) + of_nat (n mod 100) / 100 :: rat) = of_nat n / 100"
  proof -
    have "(of_nat n :: rat) = of_nat (n div 100 * 100 + n mod 100)" by simp
    then have "(of_nat n :: rat) = of_nat (n div 100) * 100 + of_nat (n mod 100)"
      by (simp only: of_nat_add of_nat_mult of_nat_numeral)
    then show ?thesis by (simp add: field_simps)
  qed
  show ?thesis
    unfolding parseFloat_def ss using inf ne
    by (simp add: Let_def tw dw tp dp p(1) p(3) exp_part_def scale10_def digits_val_nat_str v
                  fixed2_round_def n sg_def)
qed

text \<open>C22. An expense amount input holding a whole number as number-to-string prints it, optionally
  followed by text that cannot continue a number (a unit), is sent by submitExpense as
  exactly that number.\<close>

theorem submitExpense_amount_sent:
  assumes "ef_amount f = nat_str n @ s"
    and "s = [] \<or> \<not> is_digit (hd s) \<and> hd s \<noteq> CHR ''.'' \<and> hd s \<noteq> CHR ''e'' \<and> hd s \<noteq> CHR ''E''"
  shows "map_of (rq_body (hd (ao_requests (submitExpense ids f r)))) ''amount'' = Some (JNumber (of_nat n))"
proof -
  have "parseFloat (ef_amount f) = JNum (of_nat n)" using parseFloat_nat_str_append[OF assms(2)] assms(1) by simp
  then show ?thesis
    by (simp add: submitExpense_def json_number_def settle_def split: reply.splits bool.splits json_body.splits option.splits)
qed

theorem submitExpense_blank_amount:
  assumes "dropWhile js_ws (ef_amount f) = []"
  shows "map_of (rq_body (hd (ao_requests (submitExpense ids f r)))) ''amount'' = Some JNull"
proof -
  have "parseFloat (ef_amount f) = JNaN" unfolding parseFloat_def assms by (simp add: sign_split_def)
  then show ?thesis
    by (simp add: submitExpense_def json_number_def settle_def split: reply.splits bool.splits json_body.splits option.splits)
qed

theorem viewPayment_missing_ref:
  assumes "pd_student p = None \<or> pd_class p = None"
  shows "ao_alerts (viewPayment pid (HttpReply True (Some p))) = [msg_view_payment_failed]"
  using assms by (auto simp: viewPayment_def Let_def split: option.splits)

theorem addNewExpense_rethrows:
  assumes "addNewExpense d r = (out, Inl m)"
  shows "ao_loads out = [] \<and> ao_alerts out = [add_expense_failed_prefix @ m] \<and> (\<forall>e. r \<noteq> HttpReply True (JObj e))"
  using assms by (auto simp: addNewExpense_def Let_def split: reply.splits bool.splits json_body.splits)

end
