(* ===== verification/ReportFlow.thy ===== *)
theory ReportFlow
  imports Reports Query Actions
begin

text \<open>
  Generating a report in \<open>accouning.js\<close>: \<open>generateReport\<close> (lines 2319--2372) requests
  the endpoint of the selected type (\<open>generateReport_url\<close> of the Query theory), fills
  the table with \<open>renderReport\<close> (Reports theory), whose last statement (line 2426)
  draws the bar chart with \<open>renderReportChart\<close> (2429--2489), and then enables the
  print and export buttons. Every exception reaches the \<open>catch\<close>, which alerts the
  error's message. The view is the table rows, the chart on the report canvas and whether
  the report buttons are enabled. \<open>renderReportChart\<close> creates its chart with
  \<open>new Chart(ctx, ...)\<close> and never destroys the previous one.
\<close>

section \<open>The report chart\<close>

record report_chart =
  rc_labels :: "string list"
  rc_data :: "amount option list"

text \<open>
  \<open>renderReportChart(report, type)\<close>: labels and data by type; \<open>report.map\<close> of an
  object and \<open>report.expenses.map\<close> of a report without \<open>expenses\<close> raise a
  \<open>TypeError\<close>; \<open>[report.income]\<close> of a report without \<open>income\<close> is
  \<open>[undefined]\<close> (\<open>None\<close>); any other type draws an empty chart.
\<close>

definition renderReportChart :: "report_data \<Rightarrow> string \<Rightarrow> js_error + report_chart" where
  "renderReportChart r ty =
     (if ty = ''financial'' then
        (case r of
           RItems its \<Rightarrow> Inr \<lparr>rc_labels = map (\<lambda>(t, c, a). t @ '' - '' @ c) its,
                               rc_data = map (\<lambda>(t, c, a). Some a) its\<rparr>
         | _ \<Rightarrow> Inl (TypeError ''report.map is not a function''))
      else if ty = ''income'' then
        (case r of
           RIncome x \<Rightarrow> Inr \<lparr>rc_labels = [income_row_label], rc_data = [Some x]\<rparr>
         | _ \<Rightarrow> Inr \<lparr>rc_labels = [income_row_label], rc_data = [None]\<rparr>)
      else if ty = ''expense'' then
        (case r of
           RExpenses es tot \<Rightarrow> Inr \<lparr>rc_labels = map fst es, rc_data = map (\<lambda>(i, a). Some a) es\<rparr>
         | _ \<Rightarrow> Inl (TypeError ''map''))
      else if ty = ''teacher'' then
        (case r of
           RItems its \<Rightarrow> Inr \<lparr>rc_labels = map (\<lambda>(i, c, a). i) its, rc_data = map (\<lambda>(i, c, a). Some a) its\<rparr>
         | _ \<Rightarrow> Inl (TypeError ''report.map is not a function''))
      else Inr \<lparr>rc_labels = [], rc_data = []\<rparr>)"

text \<open>
  \<open>new Chart(ctx, config)\<close> of Chart.js (outside this repository). The options of lines
  2464--2485 (\<open>plugins.title\<close>, \<open>scales.y\<close>) are the syntax of Chart.js 3 and later,
  which refuses a canvas that still holds a chart: the constructor throws
  \<open>Canvas is already in use. Chart with ID ... must be destroyed before the canvas ...
  can be reused.\<close> The model keeps the message's first sentence. \<open>renderChart\<close> (lines
  498--526) destroys its previous chart first; \<open>renderReportChart\<close> does not.
\<close>

definition canvas_in_use :: string where
  "canvas_in_use = ''Canvas is already in use.''"

definition new_chart :: "report_chart option \<Rightarrow> report_chart \<Rightarrow> string + report_chart" where
  "new_chart cur cfg = (case cur of None \<Rightarrow> Inr cfg | Some _ \<Rightarrow> Inl canvas_in_use)"

section \<open>generateReport\<close>

datatype report_body = ReportJson report_data | ReportNotJson string

record report_view =
  rv_rows :: "report_row list"
  rv_chart :: "report_chart option"
  rv_buttons :: bool

text \<open>\<open>error.message\<close> of the errors the model raises.\<close>

fun js_error_message :: "js_error \<Rightarrow> string" where
  "js_error_message (TypeError m) = m"
| "js_error_message (ReferenceError m) = m"
| "js_error_message (SyntaxError m) = m"

definition report_failed_prefix :: string where
  "report_failed_prefix = utf8 [216, 173, 216, 175, 216, 171, 32, 216, 174, 216, 183, 216, 163, 32, 216, 163,
     216, 171, 217, 134, 216, 167, 216, 161, 32, 216, 165, 217, 134, 216, 180, 216, 167, 216, 161, 32, 216,
     167, 217, 132, 216, 170, 217, 130, 216, 177, 217, 138, 216, 177, 58, 32]"

definition msg_report_failed :: string where
  "msg_report_failed = utf8 [217, 129, 216, 180, 217, 132, 32, 217, 129, 217, 138, 32, 216, 165, 217, 134,
     216, 180, 216, 167, 216, 161, 32, 216, 167, 217, 132, 216, 170, 217, 130, 216, 177, 217, 138, 216, 177]"

text \<open>
  \<open>generateReport\<close>: the URL requested, the view afterwards and the alert. The table is
  cleared by \<open>renderReport\<close> before its first row, so an exception in it leaves the
  table empty; the chart is drawn after the table; the buttons are enabled last.
\<close>

definition generateReport ::
  "string \<Rightarrow> string \<Rightarrow> string \<Rightarrow> report_body reply \<Rightarrow> report_view \<Rightarrow> string \<times> report_view \<times> string option" where
  "generateReport year month ty r v =
     (let url = generateReport_url year month ty in
      case r of
        NetError \<Rightarrow> (url, v, Some (report_failed_prefix @ ''Failed to fetch''))
      | HttpReply False _ \<Rightarrow> (url, v, Some (report_failed_prefix @ msg_report_failed))
      | HttpReply True (ReportNotJson m) \<Rightarrow> (url, v, Some (report_failed_prefix @ m))
      | HttpReply True (ReportJson rep) \<Rightarrow>
          (case renderReport rep ty of
             Inl e \<Rightarrow> (url, v\<lparr>rv_rows := []\<rparr>, Some (report_failed_prefix @ js_error_message e))
           | Inr rows \<Rightarrow>
               (case renderReportChart rep ty of
                  Inl e \<Rightarrow> (url, v\<lparr>rv_rows := rows\<rparr>, Some (report_failed_prefix @ js_error_message e))
                | Inr cfg \<Rightarrow>
                    (case new_chart (rv_chart v) cfg of
                       Inl m \<Rightarrow> (url, v\<lparr>rv_rows := rows\<rparr>, Some (report_failed_prefix @ m))
                     | Inr ch \<Rightarrow> (url, v\<lparr>rv_rows := rows, rv_chart := Some ch, rv_buttons := True\<rparr>, None)))))"

text \<open>Whether a report body has the shape the endpoint of the type sends.\<close>

fun report_shape_fits :: "string \<Rightarrow> report_data \<Rightarrow> bool" where
  "report_shape_fits ty (RItems its) = (ty \<noteq> ''income'' \<and> ty \<noteq> ''expense'')"
| "report_shape_fits ty (RIncome x) = (ty \<noteq> ''financial'' \<and> ty \<noteq> ''expense'' \<and> ty \<noteq> ''teacher'')"
| "report_shape_fits ty (RExpenses es t) = (ty \<noteq> ''financial'' \<and> ty \<noteq> ''income'' \<and> ty \<noteq> ''teacher'')"

section \<open>Properties\<close>

lemma chart_of_table:
  "renderReport r ty = Inr rows \<Longrightarrow>
     renderReportChart r ty = Inr \<lparr>rc_labels = map rr_label rows, rc_data = map (\<lambda>x. Some (rr_amount x)) rows\<rparr>"
  by (auto simp: renderReport_def renderReportChart_def comp_def case_prod_beta split: report_data.splits if_splits)

text \<open>C29. Whenever renderReport fills the table, renderReportChart draws a chart whose labels and
  values are exactly the table rows' labels and amounts, in the same order.\<close>

theorem report_chart_matches_table:
  assumes "renderReport r ty = Inr rows"
  shows "renderReportChart r ty = Inr \<lparr>rc_labels = map rr_label rows, rc_data = map (\<lambda>x. Some (rr_amount x)) rows\<rparr>"
  using assms
  by (auto simp: renderReport_def renderReportChart_def comp_def case_prod_beta split: report_data.splits if_splits)

lemma generateReport_rendered:
  assumes "renderReport rep ty = Inr rows"
  shows "generateReport year month ty (HttpReply True (ReportJson rep)) v
     = (generateReport_url year month ty,
        (if rv_chart v = None
         then v\<lparr>rv_rows := rows, rv_chart := Some \<lparr>rc_labels = map rr_label rows,
                                                 rc_data = map (\<lambda>x. Some (rr_amount x)) rows\<rparr>,
                 rv_buttons := True\<rparr>
         else v\<lparr>rv_rows := rows\<rparr>),
        (if rv_chart v = None then None else Some (report_failed_prefix @ canvas_in_use)))"
  using assms chart_of_table[OF assms]
  by (auto simp: generateReport_def Let_def new_chart_def split: option.splits)

theorem generateReport_outcome:
  assumes "generateReport year month ty r v = (url, v', al)"
  shows "url = generateReport_url year month ty
       \<and> (al = None \<longleftrightarrow> (\<exists>rep. r = HttpReply True (ReportJson rep) \<and> renderReport rep ty = Inr (rv_rows v'))
                         \<and> rv_chart v = None)
       \<and> (al = None \<longrightarrow> rv_buttons v' \<and> rv_chart v' \<noteq> None)
       \<and> (al \<noteq> None \<longrightarrow> rv_chart v' = rv_chart v \<and> rv_buttons v' = rv_buttons v)"
  using assms
  by (auto simp: generateReport_def Let_def new_chart_def dest: chart_of_table
           split: reply.splits bool.splits report_body.splits sum.splits option.splits)

text \<open>C30. For every report type, a reply whose body does not have the shape that type's endpoint
  sends makes generateReport empty the table and alert the error, while the chart and
  the report buttons stay as the previous report left them.\<close>

theorem report_error_keeps_old_chart:
  assumes "\<not> report_shape_fits ty rep"
  shows "\<exists>m. generateReport year month ty (HttpReply True (ReportJson rep)) v
               = (generateReport_url year month ty, v\<lparr>rv_rows := []\<rparr>, Some (report_failed_prefix @ m))"
  using assms by (cases rep) (auto simp: generateReport_def renderReport_def Let_def)

text \<open>C4. Two successful reports in a row on a fresh page: the first draws its chart; the second
  fills the table with its own rows, but new Chart throws because the canvas is still in
  use, so an error is alerted and the chart keeps showing the first report.\<close>

theorem second_report_keeps_first_chart:
  assumes "renderReport rep1 ty1 = Inr rows1" and "renderReport rep2 ty2 = Inr rows2"
    and "rv_chart v = None"
    and "generateReport y1 m1 ty1 (HttpReply True (ReportJson rep1)) v = (u1, v1, a1)"
    and "generateReport y2 m2 ty2 (HttpReply True (ReportJson rep2)) v1 = (u2, v2, a2)"
  shows "a1 = None \<and> a2 = Some (report_failed_prefix @ canvas_in_use) \<and> rv_rows v2 = rows2
       \<and> rv_chart v2 = Some \<lparr>rc_labels = map rr_label rows1, rc_data = map (\<lambda>x. Some (rr_amount x)) rows1\<rparr>"
  using assms generateReport_rendered[OF assms(1), of y1 m1 v] generateReport_rendered[OF assms(2), of y2 m2 v1]
  by auto

text \<open>C38. In the financial and teacher reports with a non-zero total, each displayed percentage
  read back as a number is the row's exact share rounded to hundredths by toFixed(2), so
  the displayed percentages add up to 100 only within half a hundredth per row.\<close>

theorem financial_percentages_rounded:
  assumes "renderReport (RItems its) ty = Inr rows" and "ty = ''financial'' \<or> ty = ''teacher''"
    and "items_total its \<noteq> 0"
  shows "map (\<lambda>r. parseFloat (rr_percent r)) rows
           = map (\<lambda>(t, c, a). JNum (fixed2_round (a / items_total its * 100))) its
       \<and> \<bar>(\<Sum>(t, c, a) \<leftarrow> its. fixed2_round (a / items_total its * 100)) - 100\<bar> \<le> of_nat (length its) / 200
       \<and> map rr_amount rows = map (\<lambda>(t, c, a). a) its"
proof -
  let ?s = "\<lambda>x :: string \<times> string \<times> amount. snd (snd x) / items_total its * 100"
  have rows: "rows = map (\<lambda>(t, c, a). \<lparr>rr_label = (if ty = ''financial'' then t @ '' - '' @ c else t),
                      rr_amount = a, rr_percent = percent_of a (items_total its)\<rparr>) its"
    using assms(1,2) by (auto simp: renderReport_def)
  have "(\<Sum>x \<leftarrow> its. ?s x) = 100"
    using sum_list_div_distrib[where f = "\<lambda>x. snd (snd x)" and xs = its and d = "items_total its"] assms(3)
    by (simp add: items_total_sum)
  then have b: "\<bar>(\<Sum>x \<leftarrow> its. fixed2_round (?s x)) - 100\<bar> \<le> of_nat (length its) / 200"
    using fixed2_round_sum[of ?s its] by simp
  have e: "(\<Sum>(t, c, a) \<leftarrow> its. fixed2_round (a / items_total its * 100)) = (\<Sum>x \<leftarrow> its. fixed2_round (?s x))"
    by (intro arg_cong[where f = sum_list] map_cong) auto
  have "map (\<lambda>r. parseFloat (rr_percent r)) rows
           = map (\<lambda>(t, c, a). JNum (fixed2_round (a / items_total its * 100))) its"
    unfolding rows using assms(3) by (simp add: case_prod_beta percent_of_nonzero parseFloat_to_fixed2)
  moreover have "map rr_amount rows = map (\<lambda>(t, c, a). a) its" unfolding rows by (simp add: case_prod_beta)
  ultimately show ?thesis using b unfolding e by blast
qed

end
