(* ===== verification/Budgets.thy ===== *)
theory Budgets
  imports Actions
begin

text \<open>
  The budget functions of \<open>accouning.js\<close>: \<open>loadBudgets\<close> (lines 2778--2793),
  \<open>createBudget\<close> (2796--2819) and \<open>generateBudgetReport\<close> (2876--2895). They hand the
  reply to \<open>renderBudgets\<close> and \<open>renderBudgetReport\<close>, which are declared nowhere in
  the file, so each such call raises a \<open>ReferenceError\<close> that the function's own
  \<open>catch\<close> receives. Effects are the \<open>action_out\<close> records of the Actions theory; the
  error a \<open>catch\<close> only logs is returned beside them.
\<close>

definition budgets_path :: string where
  "budgets_path = ''/api/accounting/budgets''"

text \<open>
  \<open>loadBudgets\<close>: the \<open>catch\<close> only logs, so nothing is ever shown; a non-ok reply is
  ignored.
\<close>

definition loadBudgets :: "json_body reply \<Rightarrow> action_out \<times> js_error option" where
  "loadBudgets r =
     (let out = sent \<lparr>rq_method = ''GET'', rq_path = budgets_path, rq_body = []\<rparr> [] [] [] in
      case r of
        NetError \<Rightarrow> (out, Some fetch_error)
      | HttpReply False _ \<Rightarrow> (out, None)
      | HttpReply True (NotJson m) \<Rightarrow> (out, Some (SyntaxError m))
      | HttpReply True (JObj b) \<Rightarrow> (out, Some (ReferenceError ''renderBudgets is not defined'')))"

definition msg_budget_created :: string where
  "msg_budget_created = utf8 [216, 170, 217, 133, 32, 216, 165, 217, 134, 216, 180, 216, 167, 216, 161, 32,
     216, 167, 217, 132, 217, 133, 217, 138, 216, 178, 216, 167, 217, 134, 217, 138, 216, 169, 32, 216, 168,
     217, 134, 216, 172, 216, 167, 216, 173]"

definition budget_failed_prefix :: string where
  "budget_failed_prefix = utf8 [216, 173, 216, 175, 216, 171, 32, 216, 174, 216, 183, 216, 163, 32, 216, 163,
     216, 171, 217, 134, 216, 167, 216, 161, 32, 216, 165, 217, 134, 216, 180, 216, 167, 216, 161, 32, 216,
     167, 217, 132, 217, 133, 217, 138, 216, 178, 216, 167, 217, 134, 217, 138, 216, 169, 58, 32]"

text \<open>
  \<open>new Error(error.error).message\<close>: a missing field gives the empty message
  (\<open>Error.prototype.message\<close>).
\<close>

definition error_message_of :: "(string \<times> string) list \<Rightarrow> string" where
  "error_message_of e = (case map_of e ''error'' of Some s \<Rightarrow> s | None \<Rightarrow> [])"

text \<open>
  \<open>createBudget(budgetData)\<close>: on success it alerts, starts \<open>loadBudgets()\<close> without
  awaiting it (its request is sent before \<open>createBudget\<close> returns) and returns the new
  budget; every error is alerted and rethrown (\<open>Inl\<close> with its message).
\<close>

definition createBudget ::
  "(string \<times> jval) list \<Rightarrow> json_body reply \<Rightarrow> action_out \<times> (string + (string \<times> string) list)" where
  "createBudget d r =
     (let rq = \<lparr>rq_method = ''POST'', rq_path = budgets_path, rq_body = d\<rparr>;
          fail = (\<lambda>m. (sent rq [budget_failed_prefix @ m] [] [], Inl m)) in
      case r of
        NetError \<Rightarrow> fail ''Failed to fetch''
      | HttpReply True (JObj b) \<Rightarrow>
          ((sent rq [msg_budget_created] [] [])
             \<lparr>ao_requests := [rq, \<lparr>rq_method = ''GET'', rq_path = budgets_path, rq_body = []\<rparr>]\<rparr>, Inr b)
      | HttpReply True (NotJson m) \<Rightarrow> fail m
      | HttpReply False (JObj e) \<Rightarrow> fail (error_message_of e)
      | HttpReply False (NotJson m) \<Rightarrow> fail m)"

definition msg_budget_report_failed :: string where
  "msg_budget_report_failed = utf8 [216, 173, 216, 175, 216, 171, 32, 216, 174, 216, 183, 216, 163, 32, 216,
     163, 216, 171, 217, 134, 216, 167, 216, 161, 32, 216, 170, 217, 136, 217, 132, 217, 138, 216, 175, 32,
     216, 167, 217, 132, 216, 170, 217, 130, 216, 177, 217, 138, 216, 177]"

text \<open>\<open>generateBudgetReport\<close>: the two dates go into the URL unencoded.\<close>

definition generateBudgetReport :: "string \<Rightarrow> string \<Rightarrow> json_body reply \<Rightarrow> action_out \<times> js_error option" where
  "generateBudgetReport sd ed r =
     (let rq = \<lparr>rq_method = ''GET'', rq_path = ''/api/accounting/budget-report?startDate='' @ sd
                  @ ''&endDate='' @ ed, rq_body = []\<rparr> in
      case r of
        NetError \<Rightarrow> (sent rq [msg_budget_report_failed] [] [], Some fetch_error)
      | HttpReply False _ \<Rightarrow> (sent rq [] [] [], None)
      | HttpReply True (NotJson m) \<Rightarrow> (sent rq [msg_budget_report_failed] [] [], Some (SyntaxError m))
      | HttpReply True (JObj b) \<Rightarrow>
          (sent rq [msg_budget_report_failed] [] [], Some (ReferenceError ''renderBudgetReport is not defined'')))"

section \<open>Properties\<close>

theorem loadBudgets_silent:
  "ao_alerts (fst (loadBudgets r)) = [] \<and> ao_loads (fst (loadBudgets r)) = []
   \<and> (r = HttpReply True (JObj b) \<longrightarrow> snd (loadBudgets r) = Some (ReferenceError ''renderBudgets is not defined''))"
  by (simp add: loadBudgets_def Let_def split: reply.splits bool.splits json_body.splits)

theorem createBudget_missing_error_field:
  assumes "map_of e ''error'' = None"
  shows "createBudget d (HttpReply False (JObj e))
           = (sent \<lparr>rq_method = ''POST'', rq_path = budgets_path, rq_body = d\<rparr> [budget_failed_prefix] [] [], Inl [])"
  using assms by (simp add: createBudget_def error_message_of_def)

end
