(* ===== verification/Dropdowns.thy ===== *)
theory Dropdowns
  imports Actions Dashboard "HOL-Library.While_Combinator"
begin

text \<open>
  The dropdowns of \<open>accouning.js\<close>: \<open>populateClasses\<close> (lines 259--291),
  \<open>populateTeachers\<close> (297--323), \<open>populateStudents\<close> (328--354), \<open>populateMonths\<close>
  (580--614) and \<open>populateYears\<close> (616--634). A select
  element is the list of its options, each a value and a text; the first option is the
  placeholder the code keeps. \<open>while (select.options.length > 1) select.remove(1)\<close>
  is the loop \<open>clear_options\<close>, written with \<open>while_option\<close> so that its termination
  is a theorem. The lists of classes, teachers and students are replies of the
  Prelude's \<open>reply\<close> type (\<open>None\<close>: a body that is not JSON).
\<close>

type_synonym select = "(string \<times> string) list"

section \<open>Clearing a select\<close>

text \<open>\<open>select.remove(1)\<close>: the option at index 1 leaves the list.\<close>

definition remove_second :: "'a list \<Rightarrow> 'a list" where
  "remove_second os = take 1 os @ drop 2 os"

definition clear_options :: "'a list \<Rightarrow> 'a list option" where
  "clear_options os = while_option (\<lambda>os. 1 < length os) remove_second os"

section \<open>Lists fetched from the server\<close>

text \<open>
  \<open>items.forEach(x => { option.value = x._id; option.textContent = x.name; sel.appendChild(option) })\<close>
\<close>

definition fill_select :: "select \<Rightarrow> (js_id \<times> string) list \<Rightarrow> select option" where
  "fill_select sel items = map_option (\<lambda>s. s @ items) (clear_options sel)"

text \<open>
  \<open>populateClasses\<close>: both the class filter and the payment form's class select are
  cleared and receive the same options (the filter gets clones). A rejected request,
  a non-ok reply or a body that is not JSON leaves both unchanged (the \<open>catch\<close> logs).
\<close>

definition populateClasses ::
  "(js_id \<times> string) list option reply \<Rightarrow> select \<times> select \<Rightarrow> (select \<times> select) option" where
  "populateClasses r sels =
     (case r of
        HttpReply True (Some cls) \<Rightarrow>
          (case (fill_select (fst sels) cls, fill_select (snd sels) cls) of
             (Some a, Some b) \<Rightarrow> Some (a, b)
           | _ \<Rightarrow> None)
      | _ \<Rightarrow> Some sels)"

definition populateTeachers :: "(js_id \<times> string) list option reply \<Rightarrow> select \<Rightarrow> select option" where
  "populateTeachers r sel = (case r of HttpReply True (Some ts) \<Rightarrow> fill_select sel ts | _ \<Rightarrow> Some sel)"

definition populateStudents :: "(js_id \<times> string) list option reply \<Rightarrow> select \<Rightarrow> select option" where
  "populateStudents r sel = (case r of HttpReply True (Some ss) \<Rightarrow> fill_select sel ss | _ \<Rightarrow> Some sel)"

section \<open>Months and years\<close>

text \<open>
  One option of \<open>populateMonths\<close>: value \<open>`${year}-${(i + 1).toString().padStart(2, '0')}`\<close>,
  text \<open>`${months[i]} ${year}`\<close>.
\<close>

definition month_option :: "nat \<Rightarrow> nat \<Rightarrow> string \<times> string" where
  "month_option y i = (nat_str y @ ''-'' @ pad_start 2 CHR ''0'' (nat_str (i + 1)), month_names ! i @ '' '' @ nat_str y)"

text \<open>
  \<open>populateMonths\<close> on one select, with \<open>getFullYear()\<close> = \<open>y\<close> and
  \<open>getMonth()\<close> = \<open>m\<close>: the months of this year up to the current one, then the twelve
  months of the previous year.
\<close>

text \<open>The two \<open>for\<close> loops of \<open>populateMonths\<close>.\<close>

definition month_options :: "nat \<Rightarrow> nat \<Rightarrow> select" where
  "month_options y m = map (month_option y) [0..<m + 1] @ map (month_option (y - 1)) [0..<12]"

definition fill_months :: "nat \<Rightarrow> nat \<Rightarrow> select \<Rightarrow> select option" where
  "fill_months y m sel = map_option (\<lambda>s. s @ month_options y m) (clear_options sel)"

text \<open>The three selects \<open>#paymentMonthFilter, #teacherMonthFilter, #paymentMonth\<close>.\<close>

definition populateMonths :: "nat \<Rightarrow> nat \<Rightarrow> select list \<Rightarrow> select list option" where
  "populateMonths y m sels = those (map (fill_months y m) sels)"

text \<open>\<open>for (let i = currentYear; i >= currentYear - 5; i--)\<close>\<close>

function years_down :: "int \<Rightarrow> int \<Rightarrow> int list" where
  "years_down i lo = (if i < lo then [] else i # years_down (i - 1) lo)"
  by pat_completeness auto
termination by (relation "measure (\<lambda>(i, lo). nat (i - lo + 1))") auto

text \<open>
  \<open>populateYears\<close>: the select is emptied (\<open>innerHTML = ''\<close>) and gets the years with
  value and text \<open>i\<close>, the current one selected.
\<close>

definition populateYears :: "int \<Rightarrow> (string \<times> string \<times> bool) list" where
  "populateYears y = map (\<lambda>i. (int_str i, int_str i, i = y)) (years_down y (y - 5))"

section \<open>Well-formed month values\<close>

text \<open>A month value as the server and the month inputs read it: \<open>YYYY-MM\<close>, \<open>MM\<close> in 01..12.\<close>

definition month_value_ok :: "string \<Rightarrow> bool" where
  "month_value_ok v \<longleftrightarrow>
     length v = 7 \<and> v ! 4 = CHR ''-'' \<and> list_all is_digit (take 4 v @ drop 5 v)
     \<and> 1 \<le> digits_val (drop 5 v) \<and> digits_val (drop 5 v) \<le> 12"

section \<open>Properties\<close>

lemma while_remove_second: "while_option (\<lambda>os. 1 < length os) remove_second os = Some (take 1 os)"
proof (induction "length os" arbitrary: os rule: less_induct)
  case less
  show ?case
  proof (cases "1 < length os")
    case True
    then have l: "length (remove_second os) < length os" and t: "take 1 (remove_second os) = take 1 os"
      by (simp_all add: remove_second_def)
    have "while_option (\<lambda>os. 1 < length os) remove_second (remove_second os) = Some (take 1 (remove_second os))"
      using less.hyps[OF l] .
    then show ?thesis using True t by (simp add: while_option_unfold[of _ _ os])
  next
    case False
    then show ?thesis by (simp add: while_option_unfold[of _ _ os] take_all)
  qed
qed

text \<open>C25. The loop while (select.options.length > 1) select.remove(1) terminates on every select
  and leaves exactly its first option (none if it had none).\<close>

theorem clear_options_terminates: "clear_options os = Some (take 1 os)"
  unfolding clear_options_def by (rule while_remove_second)

lemma length_nat_str_4: "1000 \<le> y \<Longrightarrow> y \<le> 9999 \<Longrightarrow> length (nat_str y) = 4"
proof -
  assume a: "1000 \<le> y" "y \<le> 9999"
  have "10 \<le> y div 10 div 10" "y div 10 div 10 div 10 < 10" "10 \<le> y div 10" "10 \<le> y"
    using a by (simp_all add: div_mult2_eq[symmetric] less_eq_div_iff_mult_less_eq div_less_iff_less_mult)
  then show ?thesis by (simp add: length_nat_str_step length_nat_str_small)
qed

lemma month_option_value:
  assumes "1000 \<le> y" "y \<le> 9999" "i < 12"
  shows "month_value_ok (fst (month_option y i)) \<and> digits_val (take 4 (fst (month_option y i))) = y
       \<and> digits_val (drop 5 (fst (month_option y i))) = Suc i"
proof -
  let ?p = "pad_start 2 CHR ''0'' (nat_str (i + 1))"
  have l4: "length (nat_str y) = 4" using assms by (simp add: length_nat_str_4)
  have p: "length ?p = 2" "list_all is_digit ?p" "digits_val ?p = Suc i"
    using pad2_digits[of "i + 1"] assms by simp_all
  have dy: "list_all is_digit (nat_str y)" using set_nat_str[of y] by (auto simp: list_all_iff)
  have v: "fst (month_option y i) = nat_str y @ CHR ''-'' # ?p" by (simp add: month_option_def)
  show ?thesis
    unfolding v month_value_ok_def using l4 p dy assms(3)
    by (simp add: nth_append digits_val_nat_str)
qed

text \<open>C26. For a four-digit current year and a month index below 12, every option populateMonths
  adds has a well-formed YYYY-MM value with MM in 01..12, the values are pairwise
  distinct, and there are month+13 of them.\<close>

theorem month_options_wellformed:
  assumes "1001 \<le> y" "y \<le> 9999" "m < 12"
  shows "(\<forall>(v, t) \<in> set (month_options y m). month_value_ok v)
       \<and> distinct (map fst (month_options y m)) \<and> length (month_options y m) = m + 13"
proof -
  let ?ps = "map (Pair y) [0..<m + 1] @ map (Pair (y - 1)) [0..<12]"
  let ?f = "\<lambda>(yy, i). fst (month_option yy i)"
  have ps: "\<forall>(yy, i) \<in> set ?ps. 1000 \<le> yy \<and> yy \<le> 9999 \<and> i < 12" using assms by auto
  have mo: "map fst (month_options y m) = map ?f ?ps" by (simp add: month_options_def)
  have ok: "\<forall>p \<in> set ?ps. month_value_ok (?f p)" using ps month_option_value by fastforce
  have "inj_on ?f (set ?ps)"
  proof (rule inj_onI)
    fix p q assume pq: "p \<in> set ?ps" "q \<in> set ?ps" "?f p = ?f q"
    obtain a i b j where p: "p = (a, i)" and q: "q = (b, j)" by (cases p, cases q)
    have "1000 \<le> a" "a \<le> 9999" "i < 12" "1000 \<le> b" "b \<le> 9999" "j < 12"
      using ps pq(1,2) p q by auto
    then have "digits_val (take 4 (fst (month_option a i))) = a" "digits_val (drop 5 (fst (month_option a i))) = Suc i"
      "digits_val (take 4 (fst (month_option b j))) = b" "digits_val (drop 5 (fst (month_option b j))) = Suc j"
      using month_option_value by blast+
    then show "p = q" using pq(3) p q by simp
  qed
  moreover have "distinct ?ps" using assms by (auto simp: distinct_map inj_on_def)
  ultimately have d: "distinct (map ?f ?ps)" unfolding distinct_map by blast
  have w0: "\<forall>v \<in> set (map fst (month_options y m)). month_value_ok v"
    unfolding mo set_map using ok by blast
  have w: "\<forall>(v, t) \<in> set (month_options y m). month_value_ok v"
    using w0 by force
  have l: "length (month_options y m) = m + 13" by (simp add: month_options_def)
  show ?thesis using w l d unfolding mo by blast
qed

lemma those_map_Some: "those (map (\<lambda>x. Some (f x)) xs) = Some (map f xs)"
  by (induction xs) simp_all

lemma fill_months_Some: "fill_months y m = (\<lambda>s. Some (take 1 s @ month_options y m))"
  unfolding fill_months_def clear_options_def while_remove_second by (simp add: fun_eq_iff)

theorem populateMonths_fills:
  "populateMonths y m sels = Some (map (\<lambda>s. take 1 s @ month_options y m) sels)"
  unfolding populateMonths_def fill_months_Some by (rule those_map_Some)

theorem populate_lists:
  "populateClasses r (a, b)
     = Some (case r of HttpReply True (Some cls) \<Rightarrow> (take 1 a @ cls, take 1 b @ cls) | _ \<Rightarrow> (a, b))
   \<and> populateTeachers r a = Some (case r of HttpReply True (Some ts) \<Rightarrow> take 1 a @ ts | _ \<Rightarrow> a)
   \<and> populateStudents r a = Some (case r of HttpReply True (Some ss) \<Rightarrow> take 1 a @ ss | _ \<Rightarrow> a)"
  unfolding populateClasses_def populateTeachers_def populateStudents_def fill_select_def
    clear_options_def while_remove_second
  by (simp split: reply.splits bool.splits option.splits)

lemma years_down_six: "years_down y (y - 5) = [y, y - 1, y - 2, y - 3, y - 4, y - 5]"
  apply (subst years_down.simps, simp)+
  done

theorem populateYears_shape:
  "map fst (populateYears y) = map int_str [y, y - 1, y - 2, y - 3, y - 4, y - 5]
   \<and> map (\<lambda>(v, t, s). s) (populateYears y) = [True, False, False, False, False, False]"
  by (simp add: populateYears_def years_down_six)

end
