(* ===== verification/Debounce.thy ===== *)
theory Debounce
  imports Pagination Session
begin

text \<open>
  \<open>debounce(func, wait)\<close> of \<open>accouning.js\<close> (lines 1893--1904) and its one use, the
  \<open>input\<close> listener \<open>debounce(loadPayments, 300)\<close> of \<open>#paymentStudentFilter\<close> (line
  107). The closure's variable \<open>timeout\<close> is the pending timer: its due time and the
  arguments \<open>later\<close> will pass to \<open>func\<close>. Each call clears it and sets a new one
  \<open>wait\<close> milliseconds ahead. Time is the millisecond at which the event loop handles an
  event; a timer due at or before the time of the next input has run before that input
  is handled, and after the last input the pending timer runs.
\<close>

record 'a debouncer =
  db_timeout :: "(nat \<times> 'a) option"

definition db_idle :: "'a debouncer" where
  "db_idle = \<lparr>db_timeout = None\<rparr>"

text \<open>\<open>executedFunction(...args)\<close> at time \<open>t\<close>: \<open>clearTimeout(timeout); timeout = setTimeout(later, wait)\<close>.\<close>

definition executedFunction :: "nat \<Rightarrow> nat \<Rightarrow> 'a \<Rightarrow> 'a debouncer \<Rightarrow> 'a debouncer" where
  "executedFunction wait t args d = d\<lparr>db_timeout := Some (t + wait, args)\<rparr>"

text \<open>The event loop at time \<open>t\<close>: a due timer runs \<open>later\<close>, which calls \<open>func(...args)\<close>.\<close>

definition run_timers :: "nat \<Rightarrow> 'a debouncer \<Rightarrow> 'a debouncer \<times> 'a list" where
  "run_timers t d =
     (case db_timeout d of
        Some (due, args) \<Rightarrow> if due \<le> t then (d\<lparr>db_timeout := None\<rparr>, [args]) else (d, [])
      | None \<Rightarrow> (d, []))"

text \<open>A sequence of inputs (time, arguments): the calls of \<open>func\<close>, in order.\<close>

fun db_run :: "nat \<Rightarrow> (nat \<times> 'a) list \<Rightarrow> 'a debouncer \<Rightarrow> 'a list" where
  "db_run wait [] d = (case db_timeout d of Some (due, args) \<Rightarrow> [args] | None \<Rightarrow> [])"
| "db_run wait ((t, args) # es) d =
     (case run_timers t d of (d1, calls) \<Rightarrow> calls @ db_run wait es (executedFunction wait t args d1))"

definition student_search_wait :: nat where
  "student_search_wait = 300"

text \<open>
  The student search: each keystroke writes the input (\<open>EditPayFilter FStudent\<close>); each
  call of the debounced \<open>loadPayments\<close> requests the payments with the input's value at
  that time, the value of the last keystroke before it (\<open>StudentSearch\<close> of the
  Pagination theory).
\<close>

definition student_search :: "(nat \<times> string) list \<Rightarrow> list_state \<Rightarrow> string list" where
  "student_search es s = snd (list_run (map StudentSearch (db_run student_search_wait es db_idle)) s)"

text \<open>
  The page registers the listener of line 107 once per run of \<open>setupEventListeners\<close>,
  each time with a new closure \<open>debounce(loadPayments, 300)\<close> and so its own pending
  timer. An input event runs the listeners in registration order; each sets its timer
  for the same due time, and timers due at the same time run in the order they were
  set. \<open>dbs_run\<close> runs a list of such debouncers, all fed the same inputs.
\<close>

fun dbs_run :: "nat \<Rightarrow> (nat \<times> 'a) list \<Rightarrow> 'a debouncer list \<Rightarrow> 'a list" where
  "dbs_run wait [] ds = concat (map (\<lambda>d. case db_timeout d of Some (due, args) \<Rightarrow> [args] | None \<Rightarrow> []) ds)"
| "dbs_run wait ((t, args) # es) ds =
     (let rs = map (run_timers t) ds
      in concat (map snd rs) @ dbs_run wait es (map (\<lambda>r. executedFunction wait t args (fst r)) rs))"

text \<open>The student search of a page with \<open>k\<close> registered search listeners.\<close>

definition page_student_search :: "nat \<Rightarrow> (nat \<times> string) list \<Rightarrow> list_state \<Rightarrow> string list" where
  "page_student_search k es s =
     snd (list_run (map StudentSearch (dbs_run student_search_wait es (replicate k db_idle))) s)"

section \<open>Reference: the inputs that are followed by a quiet period\<close>

fun quiet_inputs :: "nat \<Rightarrow> (nat \<times> 'a) list \<Rightarrow> 'a list" where
  "quiet_inputs wait [] = []"
| "quiet_inputs wait [(t, a)] = [a]"
| "quiet_inputs wait ((t, a) # (t', b) # es) = (if t + wait \<le> t' then [a] else []) @ quiet_inputs wait ((t', b) # es)"

section \<open>Properties\<close>

lemma db_run_pending:
  "db_run wait es \<lparr>db_timeout = Some (t + wait, a)\<rparr> = quiet_inputs wait ((t, a) # es)"
proof (induction es arbitrary: t a)
  case (Cons e es)
  obtain t' b where e: "e = (t', b)" by (cases e)
  have "executedFunction wait t' b d = \<lparr>db_timeout = Some (t' + wait, b)\<rparr>" for d :: "'a debouncer"
    by (simp add: executedFunction_def)
  then show ?case using Cons e by (simp add: run_timers_def)
qed simp

lemma db_run_idle: "db_run wait es db_idle = quiet_inputs wait es"
proof (cases es)
  case (Cons e es')
  then show ?thesis
    by (cases e) (simp add: run_timers_def db_idle_def executedFunction_def db_run_pending)
qed (simp add: db_idle_def)

lemma quiet_inputs_last: "es \<noteq> [] \<Longrightarrow> quiet_inputs wait es \<noteq> [] \<and> last (quiet_inputs wait es) = snd (last es)"
  by (induction wait es rule: quiet_inputs.induct) auto

lemma map_filter_upt_Suc:
  "map f (filter Q [0..<Suc n]) = (if Q 0 then [f 0] else []) @ map (f \<circ> Suc) (filter (Q \<circ> Suc) [0..<n])"
proof -
  have "[0..<Suc n] = 0 # map Suc [0..<n]" by (simp add: map_Suc_upt upt_conv_Cons del: upt_Suc)
  then show ?thesis by (simp add: filter_map del: upt_Suc)
qed

lemma quiet_inputs_nth:
  "quiet_inputs wait es
     = map (\<lambda>i. snd (es ! i))
           (filter (\<lambda>i. Suc i = length es \<or> fst (es ! i) + wait \<le> fst (es ! Suc i)) [0..<length es])"
proof (induction wait es rule: quiet_inputs.induct)
  case (3 wait t a t' b es)
  then show ?case by (simp only: length_Cons map_filter_upt_Suc) (simp add: comp_def del: upt_Suc)
qed simp_all

text \<open>C27. A debounced function is called with exactly the inputs followed by a pause of at least
  wait ms, plus the last input: an input followed sooner by another is never passed on,
  and the last input always is.\<close>

theorem debounce_calls_exact:
  "db_run wait es db_idle
     = map (\<lambda>i. snd (es ! i))
           (filter (\<lambda>i. Suc i = length es \<or> fst (es ! i) + wait \<le> fst (es ! Suc i)) [0..<length es])"
  by (simp add: db_run_idle quiet_inputs_nth)

lemma dbs_run_replicate:
  "dbs_run wait es (replicate k d) = concat (map (replicate k) (db_run wait es d))"
proof (induction es arbitrary: d)
  case Nil
  show ?case by (cases "db_timeout d") (auto simp: map_replicate_const)
next
  case (Cons e es)
  obtain t a where e: "e = (t, a)" by (cases e)
  obtain d1 cs where r: "run_timers t d = (d1, cs)" by (cases "run_timers t d")
  have cs: "concat (replicate k cs) = concat (map (replicate k) cs)"
    using r by (auto simp: run_timers_def split: option.splits if_splits)
  show ?case using Cons r cs by (simp add: e Let_def map_replicate_const)
qed

lemma list_run_searches:
  "snd (list_run (map StudentSearch vs) s)
     = map (\<lambda>v. loadPayments_req (s\<lparr>pay_filters := (pay_filters s)\<lparr>pf_student := v\<rparr>\<rparr>)) vs"
  by (induction vs arbitrary: s) (simp_all add: split_beta Let_def)

text \<open>C28. The debounced student search requests the payments exactly for the search texts after
  which the user paused at least 300 ms (and for the last one), each with the rest of
  the list state unchanged.\<close>

theorem student_search_requests:
  "student_search es s
     = map (\<lambda>v. loadPayments_req (s\<lparr>pay_filters := (pay_filters s)\<lparr>pf_student := v\<rparr>\<rparr>))
           (quiet_inputs 300 es)"
  by (simp add: student_search_def list_run_searches db_run_idle student_search_wait_def)

lemma list_run_searches_concat:
  "snd (list_run (map StudentSearch (concat (map (replicate k) vs))) s)
     = concat (map (\<lambda>v. replicate k (loadPayments_req (s\<lparr>pay_filters := (pay_filters s)\<lparr>pf_student := v\<rparr>\<rparr>))) vs)"
  using list_run_searches[of "concat (map (replicate k) vs)" s] by (simp add: map_concat comp_def)

text \<open>C12. On a loaded page the student-search listener is registered twice (initApp runs twice),
  each with its own debounce timer, so every search text after which the user paused,
  and the last one, is requested twice.\<close>

theorem page_search_requested_twice:
  assumes "fst (snd (initApp (fresh_page n st))) = None"
  shows "page_student_search (count (mset (listeners (fst (page_load n st)))) OnStudentFilterInput) es s
     = concat (map (\<lambda>v. replicate 2 (loadPayments_req (s\<lparr>pay_filters := (pay_filters s)\<lparr>pf_student := v\<rparr>\<rparr>)))
                   (quiet_inputs 300 es))"
proof -
  have "count (mset (listeners (fst (page_load n st)))) OnStudentFilterInput = 2"
    using page_load_listeners_list[OF assms] by (simp add: count_nav_links del: mset_map)
  then show ?thesis
    by (simp add: page_student_search_def dbs_run_replicate db_run_idle list_run_searches_concat
                  student_search_wait_def)
qed

end
