(* ===== verification/Modals.thy ===== *)
theory Modals
  imports Actions Dropdowns
begin

text \<open>
  The commission payment modals of \<open>accouning.js\<close> and the forms they prepare:
  \<open>showPayClassCommissionModal\<close> (lines 1197--1239) fetches the teacher and the class
  together (\<open>Promise.all\<close>), fills the class-commission form and computes the amount with
  \<open>calculateCommissionAmount\<close> (1242--1250); \<open>showPayCommissionModal\<close> (1466--1490)
  fills the single-commission form. The forms are then sent by
  \<open>submitClassCommissionPayment\<close> and \<open>submitCommissionPayment\<close> of the Actions theory.
  An input's value is a string: a number written into it is printed with
  \<open>String(n)\<close>; the amounts and percentages that reach the inputs here are whole numbers
  (\<open>nat\<close>, printed by \<open>nat_str\<close>).
\<close>

section \<open>Formatting\<close>

text \<open>\<open>totalAmount * (percentage / 100)\<close> on JavaScript numbers, then \<open>toFixed(2)\<close>.\<close>

definition commission_amount_text :: "js_num \<Rightarrow> js_num \<Rightarrow> string" where
  "commission_amount_text t p =
     (case (t, p) of
        (JNum a, JNum b) \<Rightarrow> to_fixed2 (a * (b / 100))
      | (JInf s, JNum b) \<Rightarrow> if b = 0 then ''NaN'' else if s = (0 < b) then ''Infinity'' else ''-Infinity''
      | (JNum a, JInf s) \<Rightarrow> if a = 0 then ''NaN'' else if s = (0 < a) then ''Infinity'' else ''-Infinity''
      | (JInf s, JInf s') \<Rightarrow> if s = s' then ''Infinity'' else ''-Infinity''
      | _ \<Rightarrow> ''NaN'')"

section \<open>The class-commission modal\<close>

record class_info =
  ci_name :: string
  ci_percentage :: "nat option"

record class_modal =
  pcm_form :: class_commission_form
  pcm_teacher_name :: string
  pcm_class_name :: string
  pcm_total :: string
  pcm_amount :: string
  pcm_shown :: bool

text \<open>\<open>classObj.teacher?.salaryPercentage || 70\<close>: a missing or zero percentage gives 70.\<close>

definition pct_or_default :: "nat option \<Rightarrow> nat" where
  "pct_or_default p = (case p of None \<Rightarrow> 70 | Some k \<Rightarrow> if k = 0 then 70 else k)"

text \<open>
  \<open>calculateCommissionAmount()\<close>: both inputs are read with \<open>parseFloat\<close>; when neither
  is \<open>NaN\<close> the amount field gets the product's \<open>toFixed(2)\<close>, otherwise it is left.
\<close>

definition calculateCommissionAmount :: "class_modal \<Rightarrow> class_modal" where
  "calculateCommissionAmount m =
     (let t = parseFloat (pcm_total m); p = parseFloat (ccp_percentage (pcm_form m)) in
      if t = JNaN \<or> p = JNaN then m else m\<lparr>pcm_amount := commission_amount_text t p\<rparr>)"

definition msg_commission_details_failed :: string where
  "msg_commission_details_failed = utf8 [216, 173, 216, 175, 216, 171, 32, 216, 174, 216, 183, 216, 163, 32,
     216, 163, 216, 171, 217, 134, 216, 167, 216, 161, 32, 216, 170, 216, 173, 217, 133, 217, 138, 217, 132,
     32, 216, 168, 217, 138, 216, 167, 217, 134, 216, 167, 216, 170, 32, 216, 167, 217, 132, 216, 185, 217,
     133, 217, 136, 217, 132, 216, 169]"

text \<open>
  \<open>showPayClassCommissionModal(teacherId, classId, month, totalAmount)\<close>: a rejected
  request rejects \<open>Promise.all\<close>; with both replies ok the teacher's and the class's
  bodies are parsed (\<open>None\<close>: not JSON), the seven inputs written, the amount computed
  and the modal shown; otherwise nothing happens. The result is the modal and the
  alerts.
\<close>

definition showPayClassCommissionModal ::
  "string \<Rightarrow> string \<Rightarrow> string \<Rightarrow> nat \<Rightarrow> string \<Rightarrow> string option reply \<Rightarrow> class_info option reply
   \<Rightarrow> class_modal \<Rightarrow> class_modal \<times> string list" where
  "showPayClassCommissionModal tid cid month tot now tr cr m =
     (case (tr, cr) of
        (HttpReply True tb, HttpReply True cb) \<Rightarrow>
          (case (tb, cb) of
             (Some tname, Some ci) \<Rightarrow>
               (let f = (pcm_form m)\<lparr>ccp_teacher := tid, ccp_class := cid, ccp_month := month,
                                     ccp_percentage := nat_str (pct_or_default (ci_percentage ci)),
                                     ccp_date := iso_date now\<rparr>;
                    m1 = m\<lparr>pcm_form := f, pcm_teacher_name := tname, pcm_class_name := ci_name ci,
                           pcm_total := nat_str tot\<rparr>
                in ((calculateCommissionAmount m1)\<lparr>pcm_shown := True\<rparr>, []))
           | _ \<Rightarrow> (m, [msg_commission_details_failed]))
      | (HttpReply _ _, HttpReply _ _) \<Rightarrow> (m, [])
      | _ \<Rightarrow> (m, [msg_commission_details_failed]))"

section \<open>The single-commission modal\<close>

record commission_detail =
  cd_id :: js_id
  cd_teacher :: "ref option"
  cd_month :: string
  cd_amount :: nat

record commission_modal =
  pcd_form :: commission_form
  pcd_teacher :: string
  pcd_month :: string
  pcd_amount :: string
  pcd_shown :: bool

text \<open>
  \<open>showPayCommissionModal(commissionId)\<close>: the inputs are written in order;
  \<open>commission.teacher.name\<close> is read unguarded after \<open>commissionId\<close> was written.
\<close>

definition showPayCommissionModal ::
  "string \<Rightarrow> commission_detail option reply \<Rightarrow> commission_modal \<Rightarrow> commission_modal \<times> string list" where
  "showPayCommissionModal now r m =
     (case r of
        HttpReply True (Some c) \<Rightarrow>
          (let m1 = m\<lparr>pcd_form := (pcd_form m)\<lparr>cf_id := cd_id c\<rparr>\<rparr> in
           case cd_teacher c of
             None \<Rightarrow> (m1, [msg_commission_details_failed])
           | Some t \<Rightarrow>
               (m1\<lparr>pcd_teacher := ref_name t, pcd_month := cd_month c, pcd_amount := nat_str (cd_amount c),
                   pcd_form := (pcd_form m1)\<lparr>cf_date := iso_date now\<rparr>, pcd_shown := True\<rparr>, []))
      | HttpReply False _ \<Rightarrow> (m, [])
      | _ \<Rightarrow> (m, [msg_commission_details_failed]))"

section \<open>Properties\<close>

lemma parseFloat_nat_str: "parseFloat (nat_str n) = JNum (of_nat n)"
  using parseFloat_nat_str_append[of "[]" n] by simp

lemma settle_request: "ao_requests (settle ids rq ok modal loads generic r) = [rq]"
  by (simp add: settle_def sent_def no_effect_def split: reply.splits bool.splits json_body.splits option.splits)

lemma to_fixed2_cents:
  "to_fixed2 (of_nat n / 100) = nat_str (n div 100) @ ''.'' @ pad_start 2 CHR ''0'' (nat_str (n mod 100))"
proof -
  have "floor (of_nat n + 1 / 2 :: rat) = int n" by (simp add: floor_eq_iff)
  then show ?thesis by (simp add: to_fixed2_def)
qed

text \<open>C32. After the class-commission modal is filled from ok replies, it shows the commission
  total * percentage / 100 with exactly two decimals, and submitting it sends the
  teacher, class, month, today's date and the percentage it displayed (salaryPercentage,
  or 70 when missing or zero) as a number.\<close>

theorem class_modal_then_submit:
  assumes "showPayClassCommissionModal tid cid month tot now (HttpReply True (Some tn)) (HttpReply True (Some ci)) m
           = (m', al)"
  shows "al = [] \<and> pcm_shown m'
       \<and> pcm_amount m' = nat_str (tot * pct_or_default (ci_percentage ci) div 100) @ ''.''
                          @ pad_start 2 CHR ''0'' (nat_str (tot * pct_or_default (ci_percentage ci) mod 100))
       \<and> rq_body (hd (ao_requests (submitClassCommissionPayment ids ((pcm_form m')\<lparr>ccp_method := meth\<rparr>) r)))
           = [(''teacherId'', JStr tid), (''classId'', JStr cid), (''month'', JStr month),
              (''paymentMethod'', JStr meth), (''paymentDate'', JStr (iso_date now)),
              (''percentage'', JNumber (of_nat (pct_or_default (ci_percentage ci))))]"
proof -
  define p where "p = pct_or_default (ci_percentage ci)"
  have m': "m' = (calculateCommissionAmount
                   (m\<lparr>pcm_form := (pcm_form m)\<lparr>ccp_teacher := tid, ccp_class := cid, ccp_month := month,
                        ccp_percentage := nat_str p, ccp_date := iso_date now\<rparr>,
                      pcm_teacher_name := tn, pcm_class_name := ci_name ci, pcm_total := nat_str tot\<rparr>))
                 \<lparr>pcm_shown := True\<rparr>" and al: "al = []"
    using assms(1) by (simp_all add: showPayClassCommissionModal_def p_def Let_def)
  have "pcm_amount m' = to_fixed2 (of_nat (tot * p) / 100)"
    unfolding m' calculateCommissionAmount_def
    by (simp add: parseFloat_nat_str commission_amount_text_def)
  then show ?thesis
    unfolding p_def[symmetric]
    using al to_fixed2_cents[of "tot * p"] by (simp add: m' submitClassCommissionPayment_def settle_request
                           calculateCommissionAmount_def Let_def json_number_def parseFloat_nat_str)
qed

text \<open>C33. showPayCommissionModal writes the commission id before reading commission.teacher.name:
  without a teacher it alerts, leaves the modal hidden but the id written; with one it
  shows the modal and a submit sends that id and today's date.\<close>

theorem commission_modal_then_submit:
  assumes "showPayCommissionModal now (HttpReply True (Some c)) m = (m', al)"
  shows "cf_id (pcd_form m') = cd_id c \<and> (al = [] \<longleftrightarrow> cd_teacher c \<noteq> None)
       \<and> (cd_teacher c = None \<longrightarrow> pcd_shown m' = pcd_shown m)
       \<and> (cd_teacher c \<noteq> None \<longrightarrow> pcd_shown m'
            \<and> rq_body (hd (ao_requests (submitCommissionPayment ids ((pcd_form m')\<lparr>cf_method := meth\<rparr>) r)))
                = [(''commissionId'', JStr (cd_id c)), (''paymentMethod'', JStr meth),
                   (''paymentDate'', JStr (iso_date now))])"
  using assms
  by (auto simp: showPayCommissionModal_def Let_def submitCommissionPayment_def settle_request
           split: option.splits)

end
