(* ===== verification/Loaders.thy ===== *)
theory Loaders
  imports Dashboard Actions
begin

text \<open>
  The dashboard loader and the plain export of \<open>accouning.js\<close>: \<open>loadDashboardData\<close>
  (lines 359--377) awaits \<open>updateDashboardStats\<close>, \<open>loadTransactions\<close> (401--417) and
  \<open>loadChartData\<close> one after the other (Dashboard theory); each of them catches its own
  errors, so the \<open>catch\<close> of \<open>loadDashboardData\<close> is never reached and a failure of one
  part does not stop the next. \<open>exportToExcel(endpoint, fileName)\<close> (1917--1948) is
  \<open>exportData\<close> without filters (its sheet is named \<open>Data\<close> instead of
  \<open>al-bayanat\<close>; sheet contents are not modelled).
\<close>

definition transactions_path :: string where
  "transactions_path = ''/api/accounting/all-transactions?limit=10''"

text \<open>
  \<open>loadTransactions\<close>: an ok JSON reply is rendered; a non-ok reply, a rejected request
  or a body that is not JSON (\<open>None\<close>) leaves the table as it is.
\<close>

definition loadTransactions :: "txn list option reply \<Rightarrow> tx_table \<Rightarrow> tx_table" where
  "loadTransactions r tbl = (case r of HttpReply True (Some ts) \<Rightarrow> renderTransactions ts | _ \<Rightarrow> tbl)"

definition loadDashboardData ::
  "list_body reply \<Rightarrow> list_body reply \<Rightarrow> list_body reply \<Rightarrow> txn list option reply
   \<Rightarrow> (month_total list \<times> month_total list) option reply
   \<Rightarrow> dash \<times> tx_table \<times> chart option \<Rightarrow> dash \<times> tx_table \<times> chart option" where
  "loadDashboardData pays exps pend txr chr v =
     (case v of (d, tbl, ch) \<Rightarrow>
        (case updateDashboardStats pays exps pend d of
           (d1, _) \<Rightarrow> (d1, loadTransactions txr tbl, loadChartData chr ch)))"

definition exportToExcel :: "string \<Rightarrow> string \<Rightarrow> string \<Rightarrow> json_body reply \<Rightarrow> action_out" where
  "exportToExcel endpoint fileName now r =
     (let rq = \<lparr>rq_method = ''GET'', rq_path = ''/api/'' @ endpoint, rq_body = []\<rparr> in
      case r of
        NetError \<Rightarrow> sent rq [export_failed_prefix @ ''Failed to fetch''] [] []
      | HttpReply False _ \<Rightarrow> sent rq [export_failed_prefix @ msg_fetch_failed] [] []
      | HttpReply True (NotJson m) \<Rightarrow> sent rq [export_failed_prefix @ m] [] []
      | HttpReply True (JObj _) \<Rightarrow>
          (sent rq [export_done_prefix @ fileName @ export_done_suffix] [] [])
            \<lparr>ao_downloads := [fileName @ ''_'' @ iso_date now @ ''.xlsx'']\<rparr>)"

section \<open>Properties\<close>

theorem exportToExcel_equiv: "exportToExcel endpoint fileName now r = exportData endpoint fileName [] now r"
  by (simp add: exportToExcel_def exportData_def exportData_url_def obj_entries_def query_string_def)

end
