(* ===== verification/Examples.thy ===== *)
theory Examples
  imports Commissions Payments CommissionPay Router Session Query Pagination Settings Dashboard Invoices Reports
    Actions ReportFlow Budgets Dropdowns Debounce Modals Loaders
begin

text \<open>
  Concrete inputs shaped like the server's JSON, and the witness theorems: each applies
  a property of a component at one of these inputs and discharges its hypotheses by
  evaluation (\<open>simp\<close>), so no property holds only vacuously.
\<close>

section \<open>Sample data\<close>

definition ex_teacher :: ref where
  "ex_teacher = \<lparr>ref_id = ''64f1a2'', ref_name = ''Karim''\<rparr>"

definition ex_math :: ref where
  "ex_math = \<lparr>ref_id = ''k1'', ref_name = ''Math''\<rparr>"

definition ex_c1 :: commission where
  "ex_c1 = \<lparr>cm_id = ''c1'', cm_teacher = Some ex_teacher,
            cm_student = Some \<lparr>ref_id = ''s1'', ref_name = ''Amina''\<rparr>,
            cm_class = Some ex_math, cm_month = ''2024-01'', cm_amount = 1400,
            cm_percentage = 70, cm_status = ''pending''\<rparr>"

definition ex_c2 :: commission where
  "ex_c2 = ex_c1\<lparr>cm_id := ''c2'', cm_student := None, cm_amount := 700, cm_status := ''paid''\<rparr>"

definition ex_c3 :: commission where
  "ex_c3 = ex_c1\<lparr>cm_id := ''c3'', cm_month := ''2024-02'', cm_amount := 350\<rparr>"

definition ex_cs :: "commission list" where
  "ex_cs = [ex_c1, ex_c2, ex_c3]"

definition ex_month_cards :: "card list" where
  "ex_month_cards =
     [card_by_teacher_month \<lparr>h_teacher = ex_teacher, h_class = None, h_month = Some ''2024-01''\<rparr>
        [ex_c1, ex_c2],
      card_by_teacher_month \<lparr>h_teacher = ex_teacher, h_class = None, h_month = Some ''2024-02''\<rparr>
        [ex_c3]]"

definition ex_g1 :: class_group where
  "ex_g1 = \<lparr>cg_teacher = Some ex_teacher, cg_class = Some ex_math, cg_month = ''2024-01'',
            cg_commissions = [ex_c1]\<rparr>"

definition ex_g2 :: class_group where
  "ex_g2 = ex_g1\<lparr>cg_commissions := [ex_c2]\<rparr>"

definition ex_payment :: "js_id \<Rightarrow> payment" where
  "ex_payment pid = \<lparr>p_id = pid, p_student = Some \<lparr>ref_id = ''s1'', ref_name = ''Amina''\<rparr>,
     p_class = Some ex_math, p_month = ''2024-01'', p_amount = 3000, p_method = ''cash'',
     p_status = ''pending'', p_paymentDate = None\<rparr>"

definition ex_page :: pay_ui where
  "ex_page = renderPayments [ex_payment ''p1'', ex_payment ''p2'', ex_payment ''p3''] pay_init"

definition ex_settle :: "js_id \<Rightarrow> settled" where
  "ex_settle pid = (if pid = ''p2'' then Fulfilled False else Fulfilled True)"

definition ex_pay_out :: "js_id \<Rightarrow> settled" where
  "ex_pay_out cid = (if cid = ''c3'' then Fulfilled False else Fulfilled True)"

definition ex_calc_teacher :: calc_teacher where
  "ex_calc_teacher = \<lparr>ct_id = ''64f1a2'', ct_salaryPercentage = Some 0\<rparr>"

definition ex_cp :: calc_payment where
  "ex_cp = \<lparr>cp_id = ''p1'', cp_student = Some \<lparr>ref_id = ''s1'', ref_name = ''Amina''\<rparr>,
            cp_class = Some \<lparr>cc_id = ''k1'', cc_teacher = Some ex_calc_teacher\<rparr>,
            cp_month = ''2024-01'', cp_amount = 3000\<rparr>"

definition ex_cp_orphan :: calc_payment where
  "ex_cp_orphan = ex_cp\<lparr>cp_id := ''p2'', cp_class := None\<rparr>"

definition ex_dom :: dom_sections where
  "ex_dom = \<lparr>section_ids = [''dashboardSection'', ''paymentsSection''],
             element_ids = {''dashboardSection'', ''paymentsSection'', ''loginForm''},
             active = {''dashboardSection''}, nav_links = [''dashboard'', ''payments'', ''budgets''],
             active_nav = Some 0\<rparr>"

definition ex_user :: user where
  "ex_user = \<lparr>u_username = ''samir'', u_fullName = None, u_role = ''teacher''\<rparr>"

definition ex_body :: login_body where
  "ex_body = \<lparr>lb_token = Some ''tk1'', lb_user = Some ex_user, lb_error = None\<rparr>"

definition ex_st :: session where
  "ex_st = \<lparr>authToken = None, currentUser = None, stored_token = None, stored_user = None,
            screen = LoginScreen, userNameText = [], userRoleText = [], listeners = [], nav_count = 3\<rparr>"

definition ex_body_no_user :: login_body where
  "ex_body_no_user = ex_body\<lparr>lb_user := None\<rparr>"

definition ex_body_no_token :: login_body where
  "ex_body_no_token = ex_body\<lparr>lb_token := None\<rparr>"

definition ex_filters :: payment_filters where
  "ex_filters = \<lparr>pf_status = [], pf_month = ''2024-01'', pf_method = [], pf_class = [], pf_student = []\<rparr>"

definition ex_list :: list_state where
  "ex_list = list_init\<lparr>totalPaymentsPages := 3,
                        teacher_filters := \<lparr>tf_teacher = ''t1'', tf_month = [], tf_status = [], tf_class = ''k1''\<rparr>\<rparr>"

definition ex_dash :: dash where
  "ex_dash = \<lparr>totalIncome = None, totalExpenses = None, netProfit = None, pendingPayments = None\<rparr>"

definition ex_invoice :: invoice where
  "ex_invoice =
     \<lparr>iv_number = ''INV-7'', iv_type = ''student'', iv_status = ''overdue'',
      iv_recipient = Some \<lparr>rd_name = ''Amina'', rd_phone = ''0555'', rd_email = ''a@b.dz''\<rparr>,
      iv_items = [\<lparr>ii_description = ''Math'', ii_quantity = 2, ii_amount = 1500\<rparr>,
                  \<lparr>ii_description = ''Books'', ii_quantity = 1, ii_amount = 400\<rparr>],
      iv_taxRate = Some 10, iv_notes = None\<rparr>"

definition ex_items1 :: "inv_item list" where
  "ex_items1 = [\<lparr>ii_description = ''Math'', ii_quantity = 1, ii_amount = 1500\<rparr>,
                \<lparr>ii_description = ''Books'', ii_quantity = 1, ii_amount = 400\<rparr>]"

definition ex_txns :: "txn list" where
  "ex_txns = [\<lparr>tx_type = ''income'', tx_description = ''fees'', tx_amount = 3000, tx_status = Some ''paid''\<rparr>,
              \<lparr>tx_type = ''refund'', tx_description = ''refund'', tx_amount = 500, tx_status = None\<rparr>]"

definition ex_modals :: "string set" where
  "ex_modals = {''addPaymentModal'', ''payClassCommissionModal'', ''payCommissionModal'', ''addExpenseModal''}"

definition ex_expense_form :: expense_form where
  "ex_expense_form = \<lparr>ef_description = ''rent'', ef_amount = ''  '', ef_category = ''rent'',
     ef_type = ''fixed'', ef_method = ''cash'', ef_date = ''2025-01-05''\<rparr>"

definition ex_payment_form :: payment_form where
  "ex_payment_form = \<lparr>pm_student = ''s1'', pm_class = ''c1'', pm_month = ''2025-01'', pm_amount = ''1500'',
     pm_method = ''cash'', pm_date = ''2025-01-05''\<rparr>"

definition ex_report_view :: report_view where
  "ex_report_view = \<lparr>rv_rows = [], rv_chart = Some \<lparr>rc_labels = [''old''], rc_data = [Some 5]\<rparr>, rv_buttons = True\<rparr>"

definition ex_fresh_view :: report_view where
  "ex_fresh_view = \<lparr>rv_rows = [], rv_chart = None, rv_buttons = False\<rparr>"

definition ex_thirds :: "(string \<times> string \<times> amount) list" where
  "ex_thirds = [(''income'', ''fees'', 1), (''income'', ''books'', 1), (''expense'', ''rent'', 1)]"

definition ex_class_modal :: class_modal where
  "ex_class_modal = \<lparr>pcm_form = \<lparr>ccp_teacher = [], ccp_class = [], ccp_month = [], ccp_method = ''cash'', ccp_date = [],
     ccp_percentage = []\<rparr>, pcm_teacher_name = [], pcm_class_name = [], pcm_total = [], pcm_amount = [],
     pcm_shown = False\<rparr>"

definition ex_commission_modal :: commission_modal where
  "ex_commission_modal = \<lparr>pcd_form = \<lparr>cf_id = [], cf_method = ''cash'', cf_date = []\<rparr>, pcd_teacher = [],
     pcd_month = [], pcd_amount = [], pcd_shown = False\<rparr>"

lemmas ex_data = ex_teacher_def ex_math_def ex_c1_def ex_c2_def ex_c3_def ex_cs_def
  ex_g1_def ex_g2_def

lemmas obj_eval = group_values_def obj_values_def is_array_index_def is_digit_def

section \<open>Commissions\<close>

lemma ex_render_month: "render_grouped ByTeacherMonth (Some ex_cs) = Shown ex_month_cards None"
  by (simp add: render_grouped_def ex_data ex_month_cards_def obj_eval)

theorem render_card_summary_witness:
  "render_grouped ByTeacherMonth (Some ex_cs) = Shown ex_month_cards None
   \<and> hd ex_month_cards \<in> set ex_month_cards
   \<and> (\<exists>k. cd_summary (hd ex_month_cards)
            = group_summary (filter (\<lambda>c. key_name ByTeacherMonth c = Inr k) ex_cs)
          \<and> filter (\<lambda>c. key_name ByTeacherMonth c = Inr k) ex_cs \<noteq> [])"
proof -
  have h2: "hd ex_month_cards \<in> set ex_month_cards" by (simp add: ex_month_cards_def)
  show ?thesis using render_card_summary [OF ex_render_month h2] ex_render_month h2 by blast
qed

theorem render_totals_conserved_witness:
  "render_grouped ByTeacherMonth (Some ex_cs) = Shown ex_month_cards None
   \<and> (\<Sum>cd \<leftarrow> ex_month_cards. totalAmount (cd_summary cd)) = 2450"
proof -
  have "(\<Sum>cd \<leftarrow> ex_month_cards. totalAmount (cd_summary cd)) = totalAmount (group_summary ex_cs)"
    by (rule render_totals_conserved [OF ex_render_month])
  also have "\<dots> = 2450"
    by (simp add: group_summary_def pending_of_def paid_of_def sum_amounts_def ex_data)
  finally show ?thesis using ex_render_month by simp
qed

theorem render_grouped_succeeds_iff_witness:
  "ex_cs \<noteq> [] \<and> (\<exists>cards. render_grouped ByTeacherClass (Some ex_cs) = Shown cards None)"
proof -
  have h: "ex_cs \<noteq> []" by (simp add: ex_cs_def)
  have "\<forall>c \<in> set ex_cs. cm_teacher c \<noteq> None \<and> (ByTeacherClass = ByTeacherClass \<longrightarrow> cm_class c \<noteq> None)"
    by (simp add: ex_data)
  then show ?thesis using render_grouped_succeeds_iff [OF h, of ByTeacherClass] h by blast
qed

theorem month_key_injective_witness:
  "ref_id ex_teacher = ref_id ex_teacher \<and> cm_month ex_c1 = cm_month ex_c2"
proof -
  have k: "key_name ByTeacherMonth ex_c1 = key_name ByTeacherMonth ex_c2"
    by (simp add: key_name_def ex_data)
  have t1: "cm_teacher ex_c1 = Some ex_teacher" and t2: "cm_teacher ex_c2 = Some ex_teacher"
    by (simp_all add: ex_data)
  have d: "CHR ''-'' \<notin> set (ref_id ex_teacher)" by (simp add: ex_teacher_def)
  show ?thesis by (rule month_key_injective [OF t1 t2 d d k])
qed

theorem by_class_partial_render_witness:
  "\<exists>ok g rest. [ex_g1, ex_g2] = ok @ g # rest
      \<and> map class_card ok = map Inr (case class_card ex_g1 of Inr c \<Rightarrow> [c] | Inl _ \<Rightarrow> [])
      \<and> class_card g = Inl (TypeError ''name'')"
proof -
  have h: "renderTeacherCommissionsByClass (Some [ex_g1, ex_g2])
             = Shown (case class_card ex_g1 of Inr c \<Rightarrow> [c] | Inl _ \<Rightarrow> []) (Some (TypeError ''name''))"
    by (simp add: renderTeacherCommissionsByClass_def class_card_def students_of_def ex_data Let_def)
  show ?thesis by (rule by_class_partial_render [OF h])
qed

section \<open>Payments\<close>

lemma ex_page_eval:
  "selected ex_page = [] \<and> checks ex_page = [(''p1'', False), (''p2'', False), (''p3'', False)]"
  by (simp add: ex_page_def renderPayments_def pay_init_def updateSelectedPaymentsCount_def
                ex_payment_def)

theorem select_all_then_deselect_witness:
  "count_text (click_row 1 (select_all_change True ex_page)) = 2"
proof -
  have d: "distinct (selected ex_page)" and i: "1 < length (checks ex_page)"
    using ex_page_eval by simp_all
  have "count_text (click_row 1 (select_all_change True ex_page))
          = card (set (selected ex_page) \<union> set (map fst (checks ex_page))) - 1"
    by (rule select_all_then_deselect [OF d i])
  also have "\<dots> = 2" using ex_page_eval by simp
  finally show ?thesis .
qed

theorem toggle_select_deselect_witness:
  "selected (togglePaymentSelection ''p1'' False (togglePaymentSelection ''p1'' True ex_page))
     = selected ex_page"
proof -
  have "''p1'' \<notin> set (selected ex_page)" using ex_page_eval by simp
  from toggle_select_deselect [OF this] show ?thesis by simp
qed

theorem markSelectedAsPaid_summary_witness:
  "bo_alert (snd (markSelectedAsPaid True ex_settle (select_all_change True ex_page)))
     = Some (BulkSummary 2 1)"
proof -
  let ?st = "select_all_change True ex_page"
  have sel: "selected ?st = [''p1'', ''p2'', ''p3'']"
    using ex_page_eval by (simp add: select_all_change_def updateSelectedPaymentsCount_def js_set_add_def)
  have ne: "selected ?st \<noteq> []" using sel by simp
  obtain st' b where m: "markSelectedAsPaid True ex_settle ?st = (st', b)" by fastforce
  from markSelectedAsPaid_summary [OF ne m] sel m show ?thesis by (simp add: ex_settle_def)
qed

theorem markSelectedAsPaid_guard_witness:
  "markSelectedAsPaid True ex_settle ex_page
     = (ex_page, \<lparr>bo_alert = Some NothingSelected, bo_requests = [], bo_reload = False\<rparr>)"
proof -
  have "selected ex_page = [] \<or> \<not> True" using ex_page_eval by simp
  from markSelectedAsPaid_guard [OF this] ex_page_eval show ?thesis by simp
qed

theorem method_name_fallback_witness: "getPaymentMethodName ''cheque'' = ''cheque''"
  by (rule method_name_fallback) (simp_all add: payment_methods_def proto_methods_def)

section \<open>Commission bulk actions\<close>

theorem pay_all_reports_attempted_total_witness:
  "pay_all_loop ex_pay_out [ex_c1, ex_c3] (0, 0, []) = Inr (1750, 1, [''c1'', ''c3''])"
proof -
  have h: "\<forall>c \<in> set [ex_c1, ex_c3]. ex_pay_out (cm_id c) \<noteq> Rejected
             \<and> (ex_pay_out (cm_id c) = Fulfilled True \<longrightarrow> cm_student c \<noteq> None)"
    by (simp add: ex_data ex_pay_out_def)
  show ?thesis
    using pay_all_reports_attempted_total [OF h]
    by (simp add: ex_data ex_pay_out_def sum_amounts_def)
qed

theorem pay_all_stops_at_rejection_witness:
  "pay_all_loop (\<lambda>cid. if cid = ''c3'' then Rejected else Fulfilled True) ([ex_c1] @ ex_c3 # [ex_c2]) (0, 0, [])
     = Inl [''c1'', ''c3'']"
proof -
  let ?out = "\<lambda>cid. if cid = ''c3'' then Rejected else Fulfilled True"
  have r: "?out (cm_id ex_c3) = Rejected" by (simp add: ex_data)
  have p: "\<forall>x \<in> set [ex_c1]. ?out (cm_id x) = Fulfilled False
             \<or> (?out (cm_id x) = Fulfilled True \<and> cm_student x \<noteq> None)"
    by (simp add: ex_data)
  show ?thesis using pay_all_stops_at_rejection [OF r p, of "[ex_c2]"] by (simp add: ex_data)
qed

theorem calc_counts_only_teacher_payments_witness:
  "co_alert (calculateAllCommissions True (Some (Some [ex_cp, ex_cp_orphan])) (\<lambda>_. Fulfilled True) (\<lambda>_. Fulfilled True))
     = Some (CalcSummary 1 0)
   \<and> length (filter has_teacher [ex_cp, ex_cp_orphan]) = 1"
proof -
  have a: "co_alert (calculateAllCommissions True (Some (Some [ex_cp, ex_cp_orphan])) (\<lambda>_. Fulfilled True) (\<lambda>_. Fulfilled True))
             = Some (CalcSummary 1 0)"
    by (simp add: calculateAllCommissions_def calc_one_def ex_cp_orphan_def ex_cp_def Let_def)
  have "(1::nat) + 0 = length (filter has_teacher [ex_cp, ex_cp_orphan])"
    by (rule calc_counts_only_teacher_payments [OF _ a]) simp
  with a show ?thesis by simp
qed

theorem calc_commission_amount_witness:
  "\<exists>p \<in> set [ex_cp]. \<exists>k t. cp_class p = Some k \<and> cc_teacher k = Some t \<and> ''64f1a2'' = ct_id t
     \<and> 70 = commission_percentage t \<and> 2100 = cp_amount p * (70 / 100)"
proof -
  have "PostCommission ''64f1a2'' ''s1'' ''k1'' ''2024-01'' 2100 70
          \<in> set (co_requests (calculateAllCommissions True (Some (Some [ex_cp])) (\<lambda>_. Fulfilled True) (\<lambda>_. Fulfilled True)))"
    by (simp add: calculateAllCommissions_def calc_one_def ex_cp_def ex_calc_teacher_def
                  commission_percentage_def Let_def)
  then show ?thesis by (rule calc_commission_amount)
qed

theorem zero_percentage_becomes_70_witness: "commission_percentage ex_calc_teacher = 70"
  by (rule zero_percentage_becomes_70) (simp add: ex_calc_teacher_def)

theorem calc_recorded_failure_counted_as_error_witness:
  "co_alert (calculateAllCommissions True (Some (Some [ex_cp])) (\<lambda>_. Fulfilled True) (\<lambda>_. Rejected))
     = Some (CalcSummary 0 1)
   \<and> PutRecorded ''p1''
       \<in> set (co_requests (calculateAllCommissions True (Some (Some [ex_cp])) (\<lambda>_. Fulfilled True) (\<lambda>_. Rejected)))"
proof -
  have k: "cp_class ex_cp = Some \<lparr>cc_id = ''k1'', cc_teacher = Some ex_calc_teacher\<rparr>"
    and t: "cc_teacher \<lparr>cc_id = ''k1'', cc_teacher = Some ex_calc_teacher\<rparr> = Some ex_calc_teacher"
    and s: "cp_student ex_cp = Some \<lparr>ref_id = ''s1'', ref_name = ''Amina''\<rparr>"
    and po: "(\<lambda>_. Fulfilled True) (cp_id ex_cp) = Fulfilled True"
    and pu: "(\<lambda>_. Rejected) (cp_id ex_cp) = Rejected"
    by (simp_all add: ex_cp_def)
  show ?thesis using calc_recorded_failure_counted_as_error [OF k t s po pu] by (simp add: ex_cp_def)
qed

section \<open>Section router and session\<close>

lemmas ex_session = ex_user_def ex_body_def ex_st_def

theorem showSection_single_visible_witness:
  "visible_sections (fst (showSection ''payments'' ex_dom)) = {''paymentsSection''}"
  using showSection_single_visible[of "''payments''" ex_dom] by (simp add: ex_dom_def)

theorem showSection_missing_target_witness:
  "snd (showSection ''budgets'' ex_dom) = (Some (TypeError ''classList''), [])
   \<and> visible_sections (fst (showSection ''budgets'' ex_dom)) = {}"
  using showSection_missing_target[of "''budgets''" ex_dom] by (simp add: ex_dom_def)

theorem nav_click_loads_witness:
  "snd (nav_click 1 ex_dom) = (None, [LoadPayments]) \<and> active_nav (fst (nav_click 1 ex_dom)) = Some 1"
  using nav_click_loads[of 1 ex_dom LoadPayments] by (simp add: ex_dom_def load_of_def)

theorem handleLogin_success_witness:
  "handleLogin (LoginReply True (Some ex_body)) ex_st =
     (ex_st\<lparr>authToken := Some ''tk1'', currentUser := Some ex_user, stored_token := Some ''tk1'',
            stored_user := Some (UserJson ex_user), screen := AppScreen, userNameText := ''samir'',
            userRoleText := utf8 [216, 163, 216, 179, 216, 170, 216, 167, 216, 176]\<rparr>,
      None, loadInitialData)"
proof -
  have "getRoleName ''teacher'' = utf8 [216, 163, 216, 179, 216, 170, 216, 167, 216, 176]"
    by (simp add: getRoleName_def roles_def lookup_or_def js_get_def proto_methods_def utf8_def)
  then show ?thesis
    using handleLogin_success[of ex_body "''tk1''" ex_user ex_st] by (simp add: ex_body_def ex_user_def)
qed

theorem session_restored_after_reload_witness:
  "initApp (fresh_page 3 (fst (handleLogin (LoginReply True (Some ex_body)) ex_st)))
     = (setupEventListeners ((fresh_page 3 (fst (handleLogin (LoginReply True (Some ex_body)) ex_st)))
          \<lparr>authToken := Some ''tk1'', currentUser := Some ex_user, screen := AppScreen,
           userNameText := ''samir'', userRoleText := getRoleName ''teacher''\<rparr>),
        None, loadInitialData @ [InitializeSettings])"
  using session_restored_after_reload[of ex_body "''tk1''" ex_user ex_st
          "fst (handleLogin (LoginReply True (Some ex_body)) ex_st)"
          "fst (snd (handleLogin (LoginReply True (Some ex_body)) ex_st))"
          "snd (snd (handleLogin (LoginReply True (Some ex_body)) ex_st))" 3]
  by (simp add: ex_body_def ex_user_def)

theorem logout_then_reload_shows_login_witness:
  "initApp (fresh_page 3 (handleLogout (fst (handleLogin (LoginReply True (Some ex_body)) ex_st))))
     = (setupEventListeners (showLogin (fresh_page 3 (handleLogout
          (fst (handleLogin (LoginReply True (Some ex_body)) ex_st))))), None, [InitializeSettings])"
  using logout_then_reload_shows_login[of 3 "fst (handleLogin (LoginReply True (Some ex_body)) ex_st)"] .

theorem login_without_user_breaks_reload_witness:
  "snd (handleLogin (LoginReply True (Some ex_body_no_user)) ex_st) = (Some ConnectionFailed, [])
   \<and> snd (initApp (fresh_page 3 (fst (handleLogin (LoginReply True (Some ex_body_no_user)) ex_st))))
       = (Some (SyntaxError ''undefined''), [])"
  using login_without_user_breaks_reload[of ex_body_no_user "''tk1''" ex_st
          "fst (handleLogin (LoginReply True (Some ex_body_no_user)) ex_st)"
          "fst (snd (handleLogin (LoginReply True (Some ex_body_no_user)) ex_st))"
          "snd (snd (handleLogin (LoginReply True (Some ex_body_no_user)) ex_st))" 3]
  by (simp add: ex_body_no_user_def ex_body_def prod_eq_iff)

theorem login_without_token_stores_undefined_witness:
  "authToken (fst (initApp (fresh_page 3 (fst (handleLogin (LoginReply True (Some ex_body_no_token)) ex_st)))))
     = Some ''undefined''"
  using login_without_token_stores_undefined[of ex_body_no_token ex_user ex_st
          "fst (handleLogin (LoginReply True (Some ex_body_no_token)) ex_st)"
          "fst (snd (handleLogin (LoginReply True (Some ex_body_no_token)) ex_st))"
          "snd (snd (handleLogin (LoginReply True (Some ex_body_no_token)) ex_st))" 3]
  by (simp add: ex_body_no_token_def ex_body_def)

theorem page_load_listeners_witness:
  "count (mset (listeners (fst (page_load 3 ex_st)))) (OnNavClick 2) = 2
   \<and> count (mset (listeners (fst (page_load 3 ex_st)))) OnLoginSubmit = 1"
  using page_load_listeners[of 3 ex_st]
  by (simp add: ex_st_def initApp_def fresh_page_def truthy_def Let_def)


theorem page_search_requested_twice_witness:
  "length (page_student_search (count (mset (listeners (fst (page_load 3 ex_st)))) OnStudentFilterInput)
            [(0, ''a''), (100, ''ab''), (900, ''abc'')] ex_list) = 4"
  using page_search_requested_twice[of 3 ex_st "[(0, ''a''), (100, ''ab''), (900, ''abc'')]" ex_list]
  by (simp add: ex_st_def initApp_def fresh_page_def truthy_def Let_def)

section \<open>Request URLs, pagination and settings\<close>

lemmas digits_eval = int_str_def nat_str.simps char_of_def bit_simps

theorem loadPayments_url_parse_witness:
  "parse_query (loadPayments_url 2 20 ex_filters) = [(''page'', ''2''), (''limit'', ''20''), (''month'', ''2024-01'')]"
  using loadPayments_url_parse[of ex_filters 2 20] by (simp add: ex_filters_def url_safe_def digits_eval)

theorem filter_loader_urls_parse_witness:
  "parse_query (loadExpenses_url ''salary'' [] ''2024-01-01'' [])
     = [(''type'', ''salary''), (''startDate'', ''2024-01-01'')]"
  using filter_loader_urls_parse[of "''salary''" "[]" "''2024-01-01''" "[]"] by (simp add: url_safe_def)

theorem exportData_roundtrip_witness:
  "parse_query (exportData_url ''accounting/expenses'' [(''category'', ''rent & fees''), (''month'', [])])
     = [(''category'', ''rent & fees'')]"
  using exportData_roundtrip[of "''accounting/expenses''" "[(''category'', ''rent & fees''), (''month'', [])]"]
  by (simp add: key_safe_def url_safe_def obj_entries_def is_array_index_def is_digit_def)

theorem teachers_pager_inert_witness:
  "list_step (TeachersPage ''next'') list_init = (list_init, [])"
  using teachers_pager_inert[OF list_reach.init, of "''next''"] by simp

theorem clearPayments_request_witness:
  "snd (list_step ClearPayments (fst (list_step (PaymentsPage ''next'') list_init)))
     = [''/api/payments?page=1&limit=20'']"
  using clearPayments_request[OF list_reach.step[OF list_reach.init, of "PaymentsPage ''next''"]] .

theorem changePaymentsPage_bounds_witness:
  "currentPaymentsPage (fst (changePaymentsPage ''next'' ex_list)) = 2"
  using changePaymentsPage_bounds[of ex_list "fst (changePaymentsPage ''next'' ex_list)" "''next''"]
  by (simp add: ex_list_def list_init_def changePaymentsPage_def Let_def)

theorem clearTeachers_keeps_class_witness:
  "map parse_query (snd (list_step ClearTeachers ex_list)) = [[(''class'', ''k1'')]]"
  using clearTeachers_keeps_class[of "''k1''" ex_list] by (simp add: ex_list_def url_safe_def)

theorem settings_roundtrip_witness:
  "loadSettings (saveSettings (settings_defaults\<lparr>currency := ''EUR''\<rparr>)) = settings_defaults\<lparr>currency := ''EUR''\<rparr>"
  using settings_roundtrip[of "settings_defaults\<lparr>currency := ''EUR''\<rparr>"]
  by (simp add: settings_fields_def settings_defaults_def utf8_def)


section \<open>Dashboard and invoices\<close>

theorem dashboard_profit_witness:
  "fst (updateDashboardStats (HttpReply True (JArray [3000, 1400])) (HttpReply False (JArray [900]))
          (HttpReply True (JArray [])) ex_dash)
   = \<lparr>totalIncome = Some 4400, totalExpenses = Some 0, netProfit = Some 4400, pendingPayments = Some 0\<rparr>"
proof -
  have "updateDashboardStats (HttpReply True (JArray [3000, 1400])) (HttpReply False (JArray [900]))
          (HttpReply True (JArray [])) ex_dash
        = (\<lparr>totalIncome = Some 4400, totalExpenses = Some 0, netProfit = Some 4400, pendingPayments = Some 0\<rparr>, None)"
    by (simp add: updateDashboardStats_def reply_total_def pending_count_def ex_dash_def)
  moreover note dashboard_profit[OF refl refl this]
  ultimately show ?thesis by simp
qed

theorem dashboard_paged_reply_fails_witness:
  "updateDashboardStats (HttpReply True (JPaged [3000])) (HttpReply True (JArray [900])) NetError ex_dash
     = (ex_dash, Some (TypeError ''reduce is not a function''))"
proof -
  obtain e where "updateDashboardStats (HttpReply True (JPaged [3000])) (HttpReply True (JArray [900])) NetError ex_dash
                    = (ex_dash, Some e)"
    using dashboard_paged_reply_fails[of "HttpReply True (JPaged [3000])" "HttpReply True (JArray [900])" "[3000]"]
    by auto
  then show ?thesis by (simp add: updateDashboardStats_def reply_total_def)
qed

theorem transaction_sign_witness:
  "map row_sign (case renderTransactions ex_txns of TxRows rs \<Rightarrow> rs | NoTransactions \<Rightarrow> []) = [''+'', ''-'']"
proof -
  have r: "renderTransactions ex_txns = TxRows (map tx_row_of ex_txns)"
    by (simp add: renderTransactions_def ex_txns_def)
  have "\<forall>i < length ex_txns. (row_sign (map tx_row_of ex_txns ! i) = ''+'' \<longleftrightarrow> tx_type (ex_txns ! i) = ''income'')"
    using transaction_sign[OF r] by simp
  then show ?thesis unfolding r by (simp add: ex_txns_def tx_row_of_def)
qed

theorem viewInvoice_totals_witness:
  "(case viewInvoice (HttpReply True ex_invoice) of InvoiceShown v \<Rightarrow> vw_total v | _ \<Rightarrow> 0) = 3740"
proof -
  obtain v where v: "viewInvoice (HttpReply True ex_invoice) = InvoiceShown v"
    by (simp add: viewInvoice_def ex_invoice_def Let_def)
  have "vw_subtotal v = 3400" "vw_tax v = 340"
    using v by (auto simp: viewInvoice_def ex_invoice_def invoice_subtotal_def Let_def)
  moreover obtain rate where "vw_total v = vw_subtotal v + vw_subtotal v * rate / 100"
    using viewInvoice_totals[OF v] by blast
  moreover have "vw_total v = vw_subtotal v + vw_tax v"
    using v by (auto simp: viewInvoice_def ex_invoice_def invoice_subtotal_def Let_def)
  ultimately show ?thesis using v by simp
qed

theorem print_invoice_total_witness:
  "pr_alert (payTeacherCommissionsAndPrint ''64f1a2'' ''2024-01'' 0
               (HttpReply True \<lparr>pb_totalAmount = Some 1400, pb_error = None\<rparr>)
               (HttpReply True [ex_c1, ex_c3])) = Some (PaidSummary 2 1400)
   \<and> map_option doc_total (pr_invoice (payTeacherCommissionsAndPrint ''64f1a2'' ''2024-01'' 0
               (HttpReply True \<lparr>pb_totalAmount = Some 1400, pb_error = None\<rparr>)
               (HttpReply True [ex_c1, ex_c3]))) = Some 1750"
proof -
  obtain doc where "payTeacherCommissionsAndPrint ''64f1a2'' ''2024-01'' 0
               (HttpReply True \<lparr>pb_totalAmount = Some 1400, pb_error = None\<rparr>)
               (HttpReply True [ex_c1, ex_c3])
      = \<lparr>pr_requests = [pay_salary_url ''64f1a2'', paid_commissions_url ''64f1a2'' ''2024-01''],
         pr_invoice = Some doc, pr_alert = Some (PaidSummary 2 1400)\<rparr>"
    and "doc_total doc = cm_amount ex_c1 + cm_amount ex_c3"
    using print_invoice_total[of "HttpReply True \<lparr>pb_totalAmount = Some 1400, pb_error = None\<rparr>" _
            "HttpReply True [ex_c1, ex_c3]" "[ex_c1, ex_c3]" 1400 "''64f1a2''" "''2024-01''" 0]
    by (auto simp: ex_c1_def ex_c3_def)
  then show ?thesis by (simp add: ex_c1_def ex_c3_def)
qed

theorem paid_then_print_error_witness:
  "pr_alert (payTeacherCommissionsAndPrint ''64f1a2'' ''2024-01'' 0
               (HttpReply True \<lparr>pb_totalAmount = Some 2100, pb_error = None\<rparr>)
               (HttpReply True [ex_c1, ex_c2])) = Some (PrintFailed (TypeError ''name''))"
  using paid_then_print_error[of "HttpReply True \<lparr>pb_totalAmount = Some 2100, pb_error = None\<rparr>" _
          "HttpReply True [ex_c1, ex_c2]" "[ex_c1, ex_c2]" ex_c2]
  by (simp add: ex_c2_def)


section \<open>Reports\<close>

theorem financial_percentages_rounded_witness:
  "map (\<lambda>r. parseFloat (rr_percent r)) (projr (renderReport (RItems ex_thirds) ''financial''))
     = replicate 3 (JNum (fixed2_round (100 / 3))) \<and> fixed2_round (100 / 3) = 3333 / 100"
proof -
  have r: "renderReport (RItems ex_thirds) ''financial'' = Inr (projr (renderReport (RItems ex_thirds) ''financial''))"
    by (simp add: renderReport_def)
  have t: "items_total ex_thirds = 3" by (simp add: items_total_def ex_thirds_def)
  have "floor (1 / 3 * 100 * 100 + 1 / 2 :: rat) = 3333" by (simp add: floor_eq_iff)
  then have f: "fixed2_round (100 / 3) = 3333 / 100" by (simp add: fixed2_round_def)
  have "map (\<lambda>r. parseFloat (rr_percent r)) (projr (renderReport (RItems ex_thirds) ''financial''))
     = replicate 3 (JNum (fixed2_round (100 / 3)))"
    using conjunct1[OF financial_percentages_rounded[OF r _ ]] t by (simp add: ex_thirds_def numeral_3_eq_3)
  then show ?thesis using f by blast
qed

theorem zero_report_shows_nan_witness:
  "map rr_percent (projr (renderReport (RItems [(''income'', ''fees'', 0)]) ''financial'')) = [''NaN'']"
proof -
  have r: "renderReport (RItems [(''income'', ''fees'', 0)]) ''financial''
           = Inr (projr (renderReport (RItems [(''income'', ''fees'', 0)]) ''financial''))"
    by (simp add: renderReport_def)
  have "\<forall>r \<in> set (projr (renderReport (RItems [(''income'', ''fees'', 0)]) ''financial'')). rr_percent r = ''NaN''"
    using zero_report_shows_nan[OF r] by simp
  then show ?thesis by (simp add: renderReport_def)
qed

section \<open>Record actions\<close>

theorem failed_action_no_reload_witness:
  "(\<forall>b. (NetError :: json_body reply) \<noteq> HttpReply True b)
   \<and> ao_loads (run_action {} ''2025-01-05T10:00:00Z'' (MarkAsPaid ''p1'') NetError) = []"
  using failed_action_no_reload[of NetError "{}" "''2025-01-05T10:00:00Z''" "MarkAsPaid ''p1''"] by simp

theorem action_refresh_contract_witness:
  "HttpReply True (JObj []) = HttpReply True (JObj []) \<and> action_confirmed (DeleteExpense True ''e1'')
   \<and> {''addPaymentModal'', ''payClassCommissionModal'', ''payCommissionModal'', ''addExpenseModal''} \<subseteq> ex_modals
   \<and> ao_loads (run_action ex_modals ''2025-01-05T10:00:00Z'' (DeleteExpense True ''e1'') (HttpReply True (JObj [])))
       = [LoadExpenses, LoadDashboardData]"
  using action_refresh_contract[of "HttpReply True (JObj [])" "[]" "DeleteExpense True ''e1''" ex_modals
      "''2025-01-05T10:00:00Z''"]
  by (simp add: ex_modals_def)

theorem missing_error_field_shows_undefined_witness:
  "action_confirmed (MarkAsPaid ''p1'') \<and> map_of [(''message'', ''no'')] ''error'' = None
   \<and> ao_alerts (run_action {} ''t'' (MarkAsPaid ''p1'') (HttpReply False (JObj [(''message'', ''no'')])))
       = [error_prefix @ ''undefined'']"
  using missing_error_field_shows_undefined[of "MarkAsPaid ''p1''" "[(''message'', ''no'')]" "{}" "''t''" "[]"]
  by simp

theorem success_then_missing_modal_witness:
  "''addPaymentModal'' \<notin> ({} :: string set)
   \<and> ao_loads (submitPayment {} ex_payment_form (HttpReply True (JObj []))) = []"
  using success_then_missing_modal[of "{}" ex_payment_form "JObj []"] by simp

theorem submitExpense_amount_sent_witness:
  "ef_amount (ex_expense_form\<lparr>ef_amount := ''1500 DA''\<rparr>) = nat_str 1500 @ '' DA''
   \<and> ('' DA'' = [] \<or> \<not> is_digit (hd '' DA'') \<and> hd '' DA'' \<noteq> CHR ''.'' \<and> hd '' DA'' \<noteq> CHR ''e''
      \<and> hd '' DA'' \<noteq> CHR ''E'')
   \<and> map_of (rq_body (hd (ao_requests (submitExpense ex_modals (ex_expense_form\<lparr>ef_amount := ''1500 DA''\<rparr>) NetError))))
       ''amount'' = Some (JNumber 1500)"
  using submitExpense_amount_sent[of "ex_expense_form\<lparr>ef_amount := ''1500 DA''\<rparr>" 1500 "'' DA''" ex_modals NetError]
  by (simp add: is_digit_def nat_str.simps char_of_def bit_simps)

theorem submitExpense_blank_amount_witness:
  "dropWhile js_ws (ef_amount ex_expense_form) = []
   \<and> map_of (rq_body (hd (ao_requests (submitExpense ex_modals ex_expense_form NetError)))) ''amount'' = Some JNull"
  using submitExpense_blank_amount[of ex_expense_form ex_modals NetError]
  by (simp add: ex_expense_form_def js_ws_def)

theorem viewPayment_missing_ref_witness:
  "(pd_student \<lparr>pd_student = None, pd_class = None, pd_amount = ''1500'', pd_month = ''2025-01'', pd_status = ''paid''\<rparr> = None
    \<or> pd_class \<lparr>pd_student = None, pd_class = None, pd_amount = ''1500'', pd_month = ''2025-01'', pd_status = ''paid''\<rparr> = None)
   \<and> ao_alerts (viewPayment ''p1'' (HttpReply True (Some \<lparr>pd_student = None, pd_class = None, pd_amount = ''1500'',
        pd_month = ''2025-01'', pd_status = ''paid''\<rparr>))) = [msg_view_payment_failed]"
  using viewPayment_missing_ref[of "\<lparr>pd_student = None, pd_class = None, pd_amount = ''1500'', pd_month = ''2025-01'',
      pd_status = ''paid''\<rparr>" "''p1''"] by simp

theorem addNewExpense_rethrows_witness:
  "addNewExpense [] NetError = (fst (addNewExpense [] NetError), Inl ''Failed to fetch'')
   \<and> ao_loads (fst (addNewExpense [] NetError)) = []"
  using addNewExpense_rethrows[of "[]" NetError "fst (addNewExpense [] NetError)" "''Failed to fetch''"]
  by (simp add: addNewExpense_def)

section \<open>Reports, budgets, dropdowns and the debounced search\<close>

theorem report_chart_matches_table_witness:
  "renderReport (RItems [(''fees'', ''cash'', 100)]) ''financial''
     = Inr [\<lparr>rr_label = ''fees - cash'', rr_amount = 100, rr_percent = to_fixed2 100\<rparr>]
   \<and> renderReportChart (RItems [(''fees'', ''cash'', 100)]) ''financial''
     = Inr \<lparr>rc_labels = [''fees - cash''], rc_data = [Some 100]\<rparr>"
proof -
  have r: "renderReport (RItems [(''fees'', ''cash'', 100)]) ''financial''
     = Inr [\<lparr>rr_label = ''fees - cash'', rr_amount = 100, rr_percent = to_fixed2 100\<rparr>]"
    by (simp add: renderReport_def items_total_def percent_of_def js_div_def js_to_fixed2_def)
  show ?thesis using r report_chart_matches_table[OF r] by simp
qed

theorem generateReport_outcome_witness:
  "generateReport ''2025'' [] ''income'' NetError ex_report_view
     = (fst (generateReport ''2025'' [] ''income'' NetError ex_report_view),
        fst (snd (generateReport ''2025'' [] ''income'' NetError ex_report_view)),
        snd (snd (generateReport ''2025'' [] ''income'' NetError ex_report_view)))
   \<and> rv_chart (fst (snd (generateReport ''2025'' [] ''income'' NetError ex_report_view))) = rv_chart ex_report_view"
  using generateReport_outcome[of "''2025''" "[]" "''income''" NetError ex_report_view
      "fst (generateReport ''2025'' [] ''income'' NetError ex_report_view)"
      "fst (snd (generateReport ''2025'' [] ''income'' NetError ex_report_view))"
      "snd (snd (generateReport ''2025'' [] ''income'' NetError ex_report_view))"]
  by (simp add: generateReport_def Let_def)

theorem report_error_keeps_old_chart_witness:
  "\<not> report_shape_fits ''expense'' (RItems [])
   \<and> rv_chart (fst (snd (generateReport ''2025'' [] ''expense'' (HttpReply True (ReportJson (RItems []))) ex_report_view)))
     = rv_chart ex_report_view"
  using report_error_keeps_old_chart[of "''expense''" "RItems []" "''2025''" "[]" ex_report_view] by auto

theorem second_report_keeps_first_chart_witness:
  "snd (snd (generateReport ''2025'' [] ''teacher'' (HttpReply True (ReportJson (RItems [])))
     (fst (snd (generateReport ''2025'' [] ''income'' (HttpReply True (ReportJson (RIncome 5))) ex_fresh_view)))))
   = Some (report_failed_prefix @ canvas_in_use)"
proof -
  let ?g1 = "generateReport ''2025'' [] ''income'' (HttpReply True (ReportJson (RIncome 5))) ex_fresh_view"
  let ?g2 = "generateReport ''2025'' [] ''teacher'' (HttpReply True (ReportJson (RItems []))) (fst (snd ?g1))"
  have r1: "renderReport (RIncome 5) ''income'' = Inr [\<lparr>rr_label = income_row_label, rr_amount = 5, rr_percent = ''100''\<rparr>]"
    by (simp add: renderReport_def)
  have r2: "renderReport (RItems []) ''teacher'' = Inr []" by (simp add: renderReport_def)
  show ?thesis
    using second_report_keeps_first_chart[OF r1 r2, of ex_fresh_view "''2025''" "[]" "fst ?g1" "fst (snd ?g1)"
            "snd (snd ?g1)" "''2025''" "[]" "fst ?g2" "fst (snd ?g2)" "snd (snd ?g2)"]
    by (simp add: ex_fresh_view_def)
qed

theorem createBudget_missing_error_field_witness:
  "map_of [(''message'', ''bad'')] ''error'' = None
   \<and> snd (createBudget [] (HttpReply False (JObj [(''message'', ''bad'')]))) = Inl []"
  using createBudget_missing_error_field[of "[(''message'', ''bad'')]" "[]"] by simp

theorem loadBudgets_silent_witness:
  "HttpReply True (JObj []) = HttpReply True (JObj [])
   \<and> snd (loadBudgets (HttpReply True (JObj []))) = Some (ReferenceError ''renderBudgets is not defined'')"
  using loadBudgets_silent[of "HttpReply True (JObj [])" "[]"] by simp

theorem month_options_wellformed_witness:
  "1001 \<le> (2025::nat) \<and> (2025::nat) \<le> 9999 \<and> (2::nat) < 12
   \<and> length (month_options 2025 2) = 15 \<and> distinct (map fst (month_options 2025 2))"
  using month_options_wellformed[of 2025 2] by simp

section \<open>Commission modals\<close>

theorem class_modal_then_submit_witness:
  "showPayClassCommissionModal ''t1'' ''k1'' ''2025-01'' 4500 ''2025-01-05T10:00:00Z'' (HttpReply True (Some ''Amina''))
     (HttpReply True (Some \<lparr>ci_name = ''Math'', ci_percentage = Some 0\<rparr>)) ex_class_modal
   = (fst (showPayClassCommissionModal ''t1'' ''k1'' ''2025-01'' 4500 ''2025-01-05T10:00:00Z'' (HttpReply True (Some ''Amina''))
        (HttpReply True (Some \<lparr>ci_name = ''Math'', ci_percentage = Some 0\<rparr>)) ex_class_modal),
      snd (showPayClassCommissionModal ''t1'' ''k1'' ''2025-01'' 4500 ''2025-01-05T10:00:00Z'' (HttpReply True (Some ''Amina''))
        (HttpReply True (Some \<lparr>ci_name = ''Math'', ci_percentage = Some 0\<rparr>)) ex_class_modal))
   \<and> pcm_shown (fst (showPayClassCommissionModal ''t1'' ''k1'' ''2025-01'' 4500 ''2025-01-05T10:00:00Z''
        (HttpReply True (Some ''Amina'')) (HttpReply True (Some \<lparr>ci_name = ''Math'', ci_percentage = Some 0\<rparr>))
        ex_class_modal))"
proof -
  let ?x = "showPayClassCommissionModal ''t1'' ''k1'' ''2025-01'' 4500 ''2025-01-05T10:00:00Z''
             (HttpReply True (Some ''Amina'')) (HttpReply True (Some \<lparr>ci_name = ''Math'', ci_percentage = Some 0\<rparr>))
             ex_class_modal"
  have e: "?x = (fst ?x, snd ?x)" by simp
  show ?thesis using class_modal_then_submit[OF e, of "{}" "''cash''" NetError] e by blast
qed

theorem commission_modal_then_submit_witness:
  "showPayCommissionModal ''now'' (HttpReply True (Some \<lparr>cd_id = ''c9'', cd_teacher = None, cd_month = ''2025-01'',
       cd_amount = 700\<rparr>)) ex_commission_modal
     = (ex_commission_modal\<lparr>pcd_form := (pcd_form ex_commission_modal)\<lparr>cf_id := ''c9''\<rparr>\<rparr>, [msg_commission_details_failed])
   \<and> \<not> pcd_shown (ex_commission_modal\<lparr>pcd_form := (pcd_form ex_commission_modal)\<lparr>cf_id := ''c9''\<rparr>\<rparr>)"
proof -
  have e: "showPayCommissionModal ''now'' (HttpReply True (Some \<lparr>cd_id = ''c9'', cd_teacher = None, cd_month = ''2025-01'',
       cd_amount = 700\<rparr>)) ex_commission_modal
     = (ex_commission_modal\<lparr>pcd_form := (pcd_form ex_commission_modal)\<lparr>cf_id := ''c9''\<rparr>\<rparr>, [msg_commission_details_failed])"
    by (simp add: showPayCommissionModal_def)
  show ?thesis
    using e commission_modal_then_submit[OF e] by (simp add: ex_commission_modal_def)
qed

end
