(* ===== verification/Spec2Isabelle.thy ===== *)
theory Spec2Isabelle
  imports Prelude Commissions Payments CommissionPay Router Session Query Pagination Settings Dashboard Invoices Reports Actions ReportFlow Budgets Dropdowns Debounce Modals Loaders Examples
begin

text \<open>
  A verification library for the browser controller of the Alkanadil Eldahabia school
  accounting dashboard, \<open>src/public/public/js/accouning.js\<close> (one file, 2895 lines).

  \<^bold>\<open>The program.\<close> A single-page client over a REST backend (\<open>/api\<close>). A session
  store keeps \<open>authToken\<close> and \<open>currentUser\<close> in globals and in \<open>localStorage\<close>;
  \<open>initApp\<close> restores them on page load, registers the event listeners and starts the
  initial loads. A router (\<open>showSection\<close>) shows one section and starts its loader.
  Each loader builds a query string from filter inputs and pagination globals, fetches
  a list and renders it: payments (with a selection set and a bulk mark-as-paid),
  teacher commissions (grouped into cards with subtotals and pay buttons, plus two bulk
  actions), expenses, invoices, reports. Settings live in \<open>localStorage\<close>.

  \<^bold>\<open>Theories and correspondence.\<close>
  \<^item> \<open>Prelude\<close>: the JavaScript runtime used everywhere: error values
    (\<open>TypeError\<close>, \<open>ReferenceError\<close>, \<open>SyntaxError\<close>) in a sum type, \<open>Set\<close> as a
    duplicate-free list in insertion order, \<open>a || b\<close> on strings, property lookup on
    object literals including \<open>Object.prototype\<close> names, the property order of
    \<open>Object.values\<close> and \<open>for..in\<close>, Arabic literals as UTF-8 bytes.
  \<^item> \<open>Commissions\<close>: the grouping loop and the renderers \<open>renderTeacherCommissions\<close>
    (three declarations; hoisting makes the one at line 2494 effective) and
    \<open>renderTeacherCommissionsByClass\<close>; the state is the list of cards appended to
    the container, rendering errors are values.
  \<^item> \<open>Payments\<close>: \<open>renderPayments\<close>, \<open>togglePaymentSelection\<close>, the select-all
    listener, \<open>updateSelectedPaymentsCount\<close> and \<open>markSelectedAsPaid\<close> as a step
    function \<open>pay_step\<close> on a record of the selection set and the table.
  \<^item> \<open>CommissionPay\<close>: \<open>payAllTeacherCommissions\<close> and
    \<open>calculateAllCommissions\<close>, sequential loops over awaited requests.
  \<^item> \<open>Router\<close>: \<open>showSection\<close> and the nav-link click handler.
  \<^item> \<open>Session\<close>: \<open>handleLogin\<close>, \<open>handleLogout\<close>, \<open>showApp\<close>, \<open>showLogin\<close>,
    \<open>getRoleName\<close>, \<open>initApp\<close> (\<open>showApp\<close> switches the screen before its unguarded
    read of the user), \<open>setupEventListeners\<close> (a listener registry with
    the deduplication \<open>addEventListener\<close> applies to named functions), and the page
    load, which runs \<open>initApp\<close> twice (lines 1906 and 2772).
  \<^item> \<open>Query\<close>: the URLs of \<open>loadPayments\<close>, \<open>loadExpenses\<close>,
    \<open>loadTeacherCommissions\<close>, \<open>loadInvoices\<close>, \<open>exportData\<close>,
    \<open>generateReport\<close>, and \<open>encodeURIComponent\<close>; the server's reading of a URL
    (\<open>parse_query\<close>, outside this repository: split at \<open>&\<close> and \<open>=\<close>, \<open>+\<close> read as
    a space, percent escapes decoded, as Express and \<open>URLSearchParams\<close> do) is the
    specification.
  \<^item> \<open>Pagination\<close>: the pagination globals and filter inputs, the pager and clear
    handlers and the \<open>totalPages\<close> update, as a step function \<open>list_step\<close> that
    returns the URLs requested (built by \<open>Query\<close>), with reachable states as the
    inductive predicate \<open>list_reach\<close>.
  \<^item> \<open>Settings\<close>: \<open>loadSettings\<close> and \<open>saveSettings\<close>.
  \<^item> \<open>Dashboard\<close>: the effective \<open>updateDashboardStats\<close> (line 2822; hoisting
    shadows the one at line 380), \<open>renderTransactions\<close>, \<open>loadChartData\<close> and
    \<open>renderChart\<close>; replies (the Prelude's \<open>reply\<close>) are arguments.
  \<^item> \<open>Invoices\<close>: \<open>viewInvoice\<close>, \<open>generateInvoice\<close> and
    \<open>payTeacherCommissionsAndPrint\<close>, which builds its invoice from the commission
    records of \<open>Commissions\<close>.
  \<^item> \<open>Reports\<close>: \<open>renderReport\<close>, with JavaScript division (\<open>NaN\<close>,
    \<open>Infinity\<close>) written out as the datatype \<open>js_num\<close>, and \<open>toFixed(2)\<close>
    (\<open>to_fixed2\<close>: the exact value rounded to hundredths, halves away from zero;
    \<open>fixed2_round\<close> is the number it writes) printing the percentages.
  \<^item> \<open>Actions\<close>: the record actions \<open>markAsPaid\<close>, \<open>submitPayment\<close>,
    \<open>paySingleCommission\<close> (declared twice with one body), \<open>submitClassCommissionPayment\<close>,
    \<open>submitCommissionPayment\<close>, \<open>payAllTeachers\<close>, \<open>deleteExpense\<close> and
    \<open>submitExpense\<close>, each its request followed by the response handling they share
    (\<open>settle\<close>: success alert, \<open>hideModal\<close>, loaders; \<open>error.error\<close>; the
    \<open>catch\<close>); \<open>viewPayment\<close>; \<open>exportData\<close> over the URL of \<open>Query\<close> and its
    callers; \<open>exportClassCommissions\<close>; \<open>addNewExpense\<close>; and \<open>parseFloat\<close>, the
    ECMAScript built-in that reads the numeric inputs, modelled from the standard. The
    effect of an action is a record of the requests sent, the alerts shown, the modals
    hidden, the loaders of \<open>Router\<close> started and the files downloaded; the datatype
    \<open>record_action\<close> collects the handlers for properties over all of them.
  \<^item> \<open>ReportFlow\<close>: \<open>generateReport\<close> (request, table, chart, report buttons,
    error alert) and \<open>renderReportChart\<close>, composed with \<open>Reports\<close> and \<open>Query\<close>;
    \<open>new_chart\<close> is the Chart.js constructor, which refuses a canvas that still holds a
    chart.
  \<^item> \<open>Budgets\<close>: \<open>loadBudgets\<close>, \<open>createBudget\<close> and \<open>generateBudgetReport\<close>,
    whose renderers are undefined and raise \<open>ReferenceError\<close>.
  \<^item> \<open>Dropdowns\<close>: the option-clearing loop \<open>while (options.length > 1) remove(1)\<close>
    as a \<open>while_option\<close>, \<open>populateClasses\<close>, \<open>populateTeachers\<close>,
    \<open>populateStudents\<close>, \<open>populateMonths\<close> and \<open>populateYears\<close> (a \<open>function\<close>
    with a measure for its counting-down loop).
  \<^item> \<open>Debounce\<close>: \<open>debounce\<close> as the pending timer of its closure, driven by
    timestamped inputs, and the debounced student search that feeds the
    \<open>StudentSearch\<close> step of \<open>Pagination\<close>; \<open>quiet_inputs\<close> is the reference.
    \<open>dbs_run\<close> runs the closures the page actually registers, one per run of
    \<open>setupEventListeners\<close>, each with its own timer.
  \<^item> \<open>Modals\<close>: \<open>showPayClassCommissionModal\<close> with
    \<open>calculateCommissionAmount\<close> (\<open>toFixed(2)\<close> as \<open>to_fixed2\<close> of \<open>Reports\<close>) and
    \<open>showPayCommissionModal\<close>, the forms they fill composed with the submit actions of
    \<open>Actions\<close>.
  \<^item> \<open>Loaders\<close>: \<open>loadDashboardData\<close>, \<open>loadTransactions\<close> and
    \<open>exportToExcel\<close>.
  \<^item> \<open>Examples\<close>: sample server data and one witness per property with hypotheses,
    evaluated by \<open>simp\<close>.
  \<^item> This theory: the dispatch of a nav-link click to every registered listener,
    combining \<open>Session\<close> and \<open>Router\<close>.

  \<^bold>\<open>What the lemmas show.\<close> Per component: the functional behaviour of each
  operation on every branch (errors included), the invariants of the selection set and
  of the pagination state (by induction over runs and by rule induction over
  \<open>list_reach\<close>), round trips (login then reload, save then load settings,
  \<open>exportData\<close>'s query through the server's parser, with
  \<open>decodeURIComponent (encodeURIComponent s) = s\<close>), bounds of the pager, and the
  conservation of amounts by grouping (a permutation argument on multisets), the
  refresh contract of the record actions (a failed request reloads nothing; an accepted
  one reloads its list and the dashboard) and their error paths, and
  \<open>parseFloat\<close> reading back printed numbers, the termination of the option-clearing
  loop, well-formed month values, the agreement of the report chart with the table, the
  exact calls of a debounced function (an input followed within the wait is dropped, the
  last input always runs) and the doubled search requests of the loaded page, the
  rounding bound of the report percentages (read back with \<open>parseFloat\<close>), the chart a
  second report cannot draw, and the round trip from a commission modal to the request
  its form sends. Properties
  that record a defect of the code are stated as what the code does (for example the
  doubled nav listeners, the unencoded filter values, the inert teachers pager).

  \<^bold>\<open>Modelling choices.\<close> Amounts are \<open>rat\<close> (exact; the rounding of IEEE doubles
  is not modelled). Network replies and \<open>Promise.allSettled\<close> outcomes are arguments
  of the handlers, so every order of settlement the code awaits is covered. Every loop
  of the code runs over a finite list and is structural recursion, so no fuel is
  needed; the one \<open>while\<close> loop of the code is \<open>while_option\<close>, whose result is
  proved to be \<open>Some\<close>, and time for \<open>setTimeout\<close> is the millisecond at which the
  event loop handles an input (a timer due by then has run). Strings are byte strings; non-ASCII text is its UTF-8 encoding. A page reload
  is \<open>fresh_page\<close>: only \<open>localStorage\<close> survives.

  \<^bold>\<open>Not modelled.\<close> The row renderers \<open>renderInvoices\<close> and
  \<open>renderExpenses\<close> and \<open>viewExpense\<close> only format dates and numbers with
  \<open>toLocaleDateString\<close> and \<open>toLocaleString\<close> (locale data the model does not have).
  Modals, the loading overlay, Chart.js styling, the XLSX library (\<open>exportData\<close> is
  modelled up to the call that writes the file), printing, the sidebar toggle,
  \<open>toLocaleString\<close> and \<open>loadReports\<close> (an empty body) have no logic of their
  own. The Chart.js version is not pinned by the repository; the model takes version 3
  or later, whose option syntax the code uses. The dead \<open>ByTeacher\<close> renderer (line
  1365) is modelled with a plain key lookup: an id naming an \<open>Object.prototype\<close>
  member would find an inherited value there, which MongoDB ids never do. Request bodies are modelled as the object literals the code stringifies; the
  form inputs and canvas elements they read are assumed present. \<open>parseFloat\<close>
  recognises ASCII white space only (strings are bytes) and computes exactly, without
  IEEE rounding. A \<open>localStorage\<close> entry altered outside the page is not modelled.
\<close>

section \<open>Page events across components\<close>

text \<open>
  A click on the \<open>i\<close>-th \<open>.nav-link\<close> runs, in registration order, every listener
  registered for it; each is the closure of \<open>setupEventListeners\<close> and runs
  \<open>nav_click\<close>. An exception in one listener does not stop the next.
\<close>

fun dispatch_nav :: "nat \<Rightarrow> listener list \<Rightarrow> dom_sections \<Rightarrow> dom_sections \<times> js_error list \<times> load list" where
  "dispatch_nav i [] d = (d, [], [])"
| "dispatch_nav i (l # ls) d =
     (if l = OnNavClick i then
        (case nav_click i d of
           (d1, e, ts) \<Rightarrow> (case dispatch_nav i ls d1 of
                             (d2, es, ts2) \<Rightarrow> (d2, (case e of None \<Rightarrow> es | Some x \<Rightarrow> x # es), ts @ ts2)))
      else dispatch_nav i ls d)"

section \<open>Properties across components\<close>

lemma dispatch_nav_other:
  "OnNavClick i \<notin> set ls \<Longrightarrow> dispatch_nav i ls d = (d, [], [])"
  by (induction ls) auto

lemma dispatch_nav_skip:
  "OnNavClick i \<notin> set xs \<Longrightarrow> dispatch_nav i (xs @ ys) d = dispatch_nav i ys d"
  by (induction xs) auto

text \<open>C7. After a page load in which initApp succeeds, one click on a nav link runs showSection
  twice and starts the section's loader twice, leaving the same page state as a single
  click.\<close>

theorem nav_click_after_page_load:
  assumes "fst (snd (initApp (fresh_page n st))) = None" and "i < n"
    and "i < length (nav_links d)" and "nav_links d ! i @ ''Section'' \<in> element_ids d"
    and "load_of (nav_links d ! i) = Some l"
  shows "dispatch_nav i (listeners (fst (page_load n st))) d = (fst (nav_click i d), [], [l, l])"
proof -
  let ?A = "[OnModalClose, OnWindowClick, OnSelectAllChange, OnStudentFilterInput]"
  obtain xs ys where split: "map OnNavClick [0..<n] = xs @ OnNavClick i # ys"
    and nx: "OnNavClick i \<notin> set xs" and ny: "OnNavClick i \<notin> set ys"
  proof -
    have "[0..<n] = [0..<i] @ i # [Suc i..<n]" using upt_add_eq_append[of 0 i "n - i"] assms(2) by (simp add: upt_conv_Cons)
    then show ?thesis using that[of "map OnNavClick [0..<i]" "map OnNavClick [Suc i..<n]"] by (auto simp: image_iff)
  qed
  obtain d1 where ok: "nav_click i d = (d1, None, [l])"
    using assms(3-5) by (simp add: nav_click_def showSection_cases)
  have rep: "nav_click i d1 = (d1, None, [l])" using nav_click_repeat[OF assms(3,4)] ok by simp
  have A: "OnNavClick i \<notin> set ([OnLoginSubmit, OnLogoutClick] @ xs)" "OnNavClick i \<notin> set (ys @ ?A @ xs)"
    "OnNavClick i \<notin> set (ys @ ?A)" using nx ny by auto
  have "dispatch_nav i (listeners (fst (page_load n st))) d
        = dispatch_nav i (([OnLoginSubmit, OnLogoutClick] @ xs) @ OnNavClick i # (ys @ ?A @ xs) @ OnNavClick i # (ys @ ?A)) d"
    using page_load_listeners_list[OF assms(1)] by (simp add: split)
  also have "\<dots> = (fst (nav_click i d), [], [l, l])"
    using A ok rep by (simp add: dispatch_nav_skip dispatch_nav_other del: append_assoc)
  finally show ?thesis .
qed


theorem nav_click_after_page_load_witness:
  "dispatch_nav 1 (listeners (fst (page_load 3 ex_st))) ex_dom
     = (fst (nav_click 1 ex_dom), [], [LoadPayments, LoadPayments])"
  using nav_click_after_page_load[of 3 ex_st 1 ex_dom LoadPayments]
  by (simp add: ex_st_def ex_dom_def initApp_def fresh_page_def truthy_def Let_def load_of_def)

end
